theory Spec2Isabelle
  imports Main "HOL-Library.Word"
begin

unbundle bit_operations_syntax

section \<open>The handle registry (marshalling.h)\<close>

text \<open>
  \<^verbatim>\<open>marshalling.h\<close> fixes the layout of a handle: a 32-bit integer whose upper
  \<^verbatim>\<open>INCARNATION_BITS\<close> bits hold the incarnation of the registry that issued it and
  whose lower \<^verbatim>\<open>INDEX_BITS\<close> bits hold the slot index plus one. The header also
  declares \<^verbatim>\<open>struct PointerHandleRegistry\<close> and the prototypes of the five registry
  functions. Pointers are natural numbers here; an empty slot is \<open>None\<close>.
\<close>

definition GROWSIZE :: nat where "GROWSIZE = 1024"
definition INCARNATION_BITS :: nat where "INCARNATION_BITS = 10"
definition INDEX_BITS :: nat where "INDEX_BITS = 22"
definition MAX_INDEX :: nat where "MAX_INDEX = 2 ^ INDEX_BITS - 1"

text \<open>
  \<^verbatim>\<open>struct PointerHandleRegistry\<close>: the slot array (its \<^verbatim>\<open>size\<close> field is the length
  of \<open>pointers\<close>), the capacity, the incarnation and the list of free indices, head
  first.
\<close>

record PointerHandleRegistry =
  pointers :: "nat option list"
  capacity :: nat
  incarnation :: "32 word"
  freeHead :: "nat list"

text \<open>
  Modelled from the spec: \<^verbatim>\<open>marshalling.c\<close>, which implements the five prototypes of
  \<^verbatim>\<open>marshalling.h\<close>, is not among the sources. \<^verbatim>\<open>AllocateNewRegistry\<close> follows
  "Create(incarnation): empty slot array, zero capacity, free list empty".
\<close>

definition AllocateNewRegistry :: "32 word \<Rightarrow> PointerHandleRegistry" where
  "AllocateNewRegistry inc = \<lparr>pointers = [], capacity = 0, incarnation = inc, freeHead = []\<rparr>"

text \<open>
  Modelled from the spec: the handle value of missing \<^verbatim>\<open>marshalling.c\<close>,
  "(incarnation << INDEX_BITS) | (index + 1)", computed on \<^verbatim>\<open>uint32_t\<close>.
\<close>

definition make_handle :: "32 word \<Rightarrow> nat \<Rightarrow> 32 word" where
  "make_handle inc index = push_bit INDEX_BITS inc OR word_of_nat (index + 1)"

text \<open>
  Modelled from the spec: \<^verbatim>\<open>AllocateHandleForPointer\<close> of missing \<^verbatim>\<open>marshalling.c\<close>:
  "pops a free index if available, else appends (growing capacity by a fixed increment if
  full, up to a hard ceiling on addressable indices); fails with 0 if the ceiling is
  exceeded or memory cannot be obtained". The ceiling is \<^verbatim>\<open>MAX_INDEX\<close>: the field
  holds index + 1. \<open>mem_ok\<close> says whether the allocator can grow the array.
\<close>

definition AllocateHandleForPointer ::
  "PointerHandleRegistry \<Rightarrow> nat \<Rightarrow> bool \<Rightarrow> 32 word \<times> PointerHandleRegistry" where
  "AllocateHandleForPointer reg ptr mem_ok =
     (case freeHead reg of
        index # free \<Rightarrow>
          (make_handle (incarnation reg) index,
           reg\<lparr>pointers := (pointers reg)[index := Some ptr], freeHead := free\<rparr>)
      | [] \<Rightarrow>
          (let index = length (pointers reg) in
           if MAX_INDEX \<le> index then (0, reg)
           else if index < capacity reg then
             (make_handle (incarnation reg) index, reg\<lparr>pointers := pointers reg @ [Some ptr]\<rparr>)
           else if mem_ok then
             (make_handle (incarnation reg) index,
              reg\<lparr>pointers := pointers reg @ [Some ptr], capacity := capacity reg + GROWSIZE\<rparr>)
           else (0, reg)))"

text \<open>
  Modelled from the spec: \<^verbatim>\<open>HandleToPointer\<close> of missing \<^verbatim>\<open>marshalling.c\<close>: "decodes
  incarnation and index; mismatch on either, or an empty slot, yields not-found", and 0
  is "no handle". The incarnation is compared as the field holds it, that is on
  \<^verbatim>\<open>INCARNATION_BITS\<close> bits (the spec's design notes: the field has a small fixed width
  and wraps).
\<close>

definition HandleToPointer :: "PointerHandleRegistry \<Rightarrow> 32 word \<Rightarrow> nat option" where
  "HandleToPointer reg handle =
     (if handle = 0 then None
      else if drop_bit INDEX_BITS handle \<noteq> take_bit INCARNATION_BITS (incarnation reg) then None
      else
        (let field = unat (handle AND word_of_nat MAX_INDEX) in
         if field = 0 then None
         else if length (pointers reg) \<le> field - 1 then None
         else pointers reg ! (field - 1)))"

text \<open>
  Modelled from the spec: \<^verbatim>\<open>RemoveHandle\<close> of missing \<^verbatim>\<open>marshalling.c\<close>: "marks the slot
  empty and pushes its index to the free list"; a handle that does not resolve (a second
  release) changes nothing.
\<close>

definition RemoveHandle :: "PointerHandleRegistry \<Rightarrow> 32 word \<Rightarrow> PointerHandleRegistry" where
  "RemoveHandle reg handle =
     (case HandleToPointer reg handle of
        None \<Rightarrow> reg
      | Some ptr \<Rightarrow>
          (let index = unat (handle AND word_of_nat MAX_INDEX) - 1 in
           reg\<lparr>pointers := (pointers reg)[index := None], freeHead := index # freeHead reg\<rparr>))"

text \<open>Interleavings of allocations and releases on one registry.\<close>

datatype registry_op = Allocate nat bool | Release "32 word"

fun apply_registry_op :: "PointerHandleRegistry \<Rightarrow> registry_op \<Rightarrow> PointerHandleRegistry" where
  "apply_registry_op reg (Allocate ptr mem_ok) = snd (AllocateHandleForPointer reg ptr mem_ok)"
| "apply_registry_op reg (Release handle) = RemoveHandle reg handle"

definition run_registry_ops :: "PointerHandleRegistry \<Rightarrow> registry_op list \<Rightarrow> PointerHandleRegistry" where
  "run_registry_ops reg ops = foldl apply_registry_op reg ops"

text \<open>
  The registry invariant: every index fits the index field, the free indices are distinct,
  and each free index names an empty slot of the array.
\<close>

definition registry_inv :: "PointerHandleRegistry \<Rightarrow> bool" where
  "registry_inv reg \<longleftrightarrow>
     length (pointers reg) \<le> MAX_INDEX \<and> distinct (freeHead reg) \<and>
     (\<forall>i \<in> set (freeHead reg). i < length (pointers reg) \<and> pointers reg ! i = None)"

subsection \<open>Properties of the handle registry\<close>

lemma MAX_INDEX_mask: "(word_of_nat MAX_INDEX :: 32 word) = mask 22"
  by (simp add: MAX_INDEX_def INDEX_BITS_def mask_eq_exp_minus_1)

lemma take_bit_index_field: "n < 2 ^ 22 \<Longrightarrow> take_bit 22 (word_of_nat n :: 32 word) = word_of_nat n"
  by (metis take_bit_nat_eq_self_iff take_bit_of_nat)

lemma drop_bit_index_field: "n < 2 ^ 22 \<Longrightarrow> drop_bit 22 (word_of_nat n :: 32 word) = 0"
proof -
  assume a: "n < 2 ^ 22"
  have "drop_bit 22 (take_bit 22 (word_of_nat n :: 32 word)) = 0"
    by (simp add: drop_bit_take_bit)
  with take_bit_index_field [OF a] show ?thesis by simp
qed

lemma drop_push_incarnation: "drop_bit 22 (push_bit 22 (inc :: 32 word)) = take_bit 10 inc"
  by (rule bit_word_eqI) (auto simp: bit_simps)

lemma unat_index_field: "n < 2 ^ 22 \<Longrightarrow> unat (word_of_nat n :: 32 word) = n"
  by (simp add: unat_of_nat)

lemma and_index_field:
  "n < 2 ^ 22 \<Longrightarrow> (push_bit 22 (inc :: 32 word) OR word_of_nat n) AND mask 22 = word_of_nat n"
  using take_bit_index_field [of n]
  by (simp only: take_bit_eq_mask [symmetric] take_bit_push_bit take_bit_or) simp

lemma handle_index_field:
  assumes "index < MAX_INDEX"
  shows "unat (make_handle inc index AND word_of_nat MAX_INDEX) = index + 1"
proof -
  from assms have n: "index + 1 < 2 ^ 22" by (simp add: MAX_INDEX_def INDEX_BITS_def)
  have "make_handle inc index AND word_of_nat MAX_INDEX = word_of_nat (index + 1)"
    unfolding make_handle_def INDEX_BITS_def MAX_INDEX_mask by (rule and_index_field [OF n])
  then show ?thesis by (simp only: unat_index_field [OF n])
qed

lemma drop_index_field:
  "n < 2 ^ 22 \<Longrightarrow> drop_bit 22 (push_bit 22 (inc :: 32 word) OR word_of_nat n) = take_bit 10 inc"
  using drop_bit_index_field [of n] by (simp only: drop_bit_or drop_push_incarnation) simp

lemma handle_incarnation_field:
  assumes "index < MAX_INDEX"
  shows "drop_bit INDEX_BITS (make_handle inc index) = take_bit INCARNATION_BITS inc"
proof -
  from assms have n: "index + 1 < 2 ^ 22" by (simp add: MAX_INDEX_def INDEX_BITS_def)
  show ?thesis
    unfolding make_handle_def INDEX_BITS_def INCARNATION_BITS_def by (rule drop_index_field [OF n])
qed

lemma handle_nonzero:
  assumes "index < MAX_INDEX"
  shows "make_handle inc index \<noteq> 0"
proof
  assume "make_handle inc index = 0"
  then have "unat (make_handle inc index AND word_of_nat MAX_INDEX) = 0" by simp
  with handle_index_field [OF assms, of inc] show False by simp
qed

lemma resolve_make_handle:
  assumes "index < MAX_INDEX" "index < length (pointers reg)"
  shows "HandleToPointer reg (make_handle (incarnation reg) index) = pointers reg ! index"
  using assms
  by (simp add: HandleToPointer_def handle_nonzero handle_incarnation_field handle_index_field)

lemma resolve_bounds:
  assumes "HandleToPointer reg h = Some p"
  shows "unat (h AND word_of_nat MAX_INDEX) - 1 < length (pointers reg)
         \<and> 0 < unat (h AND word_of_nat MAX_INDEX)
         \<and> pointers reg ! (unat (h AND word_of_nat MAX_INDEX) - 1) = Some p
         \<and> drop_bit INDEX_BITS h = take_bit INCARNATION_BITS (incarnation reg)"
  using assms by (auto simp: HandleToPointer_def Let_def split: if_splits)


lemma word_split_fields:
  fixes a b :: "32 word"
  assumes "drop_bit 22 a = drop_bit 22 b" "a AND mask 22 = b AND mask 22"
  shows "a = b"
proof -
  have "a = push_bit 22 (drop_bit 22 a) OR take_bit 22 a"
    by (rule bit_word_eqI) (auto simp: bit_simps)
  moreover have "b = push_bit 22 (drop_bit 22 b) OR take_bit 22 b"
    by (rule bit_word_eqI) (auto simp: bit_simps)
  ultimately show ?thesis using assms by (simp add: take_bit_eq_mask)
qed

lemma registry_inv_new: "registry_inv (AllocateNewRegistry inc)"
  by (simp add: registry_inv_def AllocateNewRegistry_def)

lemma incarnation_allocate: "incarnation (snd (AllocateHandleForPointer reg p m)) = incarnation reg"
  by (simp add: AllocateHandleForPointer_def Let_def split: list.splits)

lemma incarnation_remove: "incarnation (RemoveHandle reg h) = incarnation reg"
  by (simp add: RemoveHandle_def Let_def split: option.splits)

lemma registry_inv_allocate:
  assumes "registry_inv reg"
  shows "registry_inv (snd (AllocateHandleForPointer reg p m))"
proof (cases "freeHead reg")
  case Nil
  with assms show ?thesis
    by (auto simp: registry_inv_def AllocateHandleForPointer_def Let_def)
next
  case (Cons i free)
  with assms show ?thesis
    by (auto simp: registry_inv_def AllocateHandleForPointer_def Let_def nth_list_update)
qed

lemma registry_inv_remove:
  assumes "registry_inv reg"
  shows "registry_inv (RemoveHandle reg h)"
proof (cases "HandleToPointer reg h")
  case None
  with assms show ?thesis by (simp add: RemoveHandle_def)
next
  case (Some p)
  note b = resolve_bounds [OF Some]
  let ?i = "unat (h AND word_of_nat MAX_INDEX) - 1"
  from b assms have "?i \<notin> set (freeHead reg)"
    by (auto simp: registry_inv_def)
  with b assms Some show ?thesis
    by (auto simp: registry_inv_def RemoveHandle_def Let_def nth_list_update)
qed

lemma allocate_result:
  assumes ok: "registry_inv reg"
    and al: "AllocateHandleForPointer reg p m = (h, reg')"
    and nz: "h \<noteq> 0"
  shows "\<exists>index. index < MAX_INDEX \<and> index < length (pointers reg')
           \<and> h = make_handle (incarnation reg) index \<and> pointers reg' ! index = Some p"
proof (cases "freeHead reg")
  case Nil
  let ?n = "length (pointers reg)"
  from al nz Nil have "?n < MAX_INDEX \<and> ?n < length (pointers reg')
      \<and> h = make_handle (incarnation reg) ?n \<and> pointers reg' ! ?n = Some p"
    by (auto simp: AllocateHandleForPointer_def Let_def split: if_splits)
  then show ?thesis by blast
next
  case (Cons i free)
  from ok Cons have "i < length (pointers reg)" "length (pointers reg) \<le> MAX_INDEX"
    by (auto simp: registry_inv_def)
  with al Cons have "i < MAX_INDEX \<and> i < length (pointers reg')
      \<and> h = make_handle (incarnation reg) i \<and> pointers reg' ! i = Some p"
    by (auto simp: AllocateHandleForPointer_def)
  then show ?thesis by blast
qed

lemma allocate_resolves:
  assumes "registry_inv reg" "AllocateHandleForPointer reg p m = (h, reg')" "h \<noteq> 0"
  shows "HandleToPointer reg' h = Some p"
proof -
  from allocate_result [OF assms] obtain index where
    i: "index < MAX_INDEX" "index < length (pointers reg')"
       "h = make_handle (incarnation reg) index" "pointers reg' ! index = Some p"
    by blast
  from assms(2) have "incarnation reg' = incarnation reg"
    using incarnation_allocate [of reg p m] by simp
  with i resolve_make_handle [of index reg'] show ?thesis by simp
qed

lemma allocate_keeps_live:
  assumes ok: "registry_inv reg" and live: "HandleToPointer reg h = Some p"
  shows "HandleToPointer (snd (AllocateHandleForPointer reg q m)) h = Some p"
proof -
  note b = resolve_bounds [OF live]
  let ?i = "unat (h AND word_of_nat MAX_INDEX) - 1"
  from b ok have nf: "?i \<notin> set (freeHead reg)" by (auto simp: registry_inv_def)
  from live have nz: "h \<noteq> 0" by (auto simp: HandleToPointer_def split: if_splits)
  show ?thesis
  proof (cases "freeHead reg")
    case Nil
    with b nz show ?thesis
      by (auto simp: AllocateHandleForPointer_def HandleToPointer_def Let_def nth_append)
  next
    case (Cons i free)
    with nf have "i \<noteq> ?i" by auto
    with b nz Cons show ?thesis
      by (auto simp: AllocateHandleForPointer_def HandleToPointer_def Let_def nth_list_update)
  qed
qed

lemma remove_keeps_live:
  assumes live: "HandleToPointer reg h = Some p" and ne: "h' \<noteq> h"
  shows "HandleToPointer (RemoveHandle reg h') h = Some p"
proof (cases "HandleToPointer reg h'")
  case None
  with live show ?thesis by (simp add: RemoveHandle_def)
next
  case (Some q)
  note b = resolve_bounds [OF live] and b' = resolve_bounds [OF Some]
  let ?f = "\<lambda>x :: 32 word. unat (x AND word_of_nat MAX_INDEX)"
  have "?f h' \<noteq> ?f h"
  proof
    assume "?f h' = ?f h"
    then have "h' AND mask 22 = h AND mask 22"
      by (simp add: MAX_INDEX_mask word_unat_eq_iff)
    moreover from b b' have "drop_bit 22 h' = drop_bit 22 h" by (simp add: INDEX_BITS_def)
    ultimately have "h' = h" by (rule word_split_fields [rotated])
    with ne show False by simp
  qed
  with b b' have "?f h' - 1 \<noteq> ?f h - 1" by arith
  moreover from live have nz: "h \<noteq> 0" by (auto simp: HandleToPointer_def split: if_splits)
  ultimately show ?thesis using b Some
    by (auto simp: RemoveHandle_def HandleToPointer_def Let_def nth_list_update)
qed

lemma run_keeps_live:
  assumes "registry_inv reg" "HandleToPointer reg h = Some p" "Release h \<notin> set ops"
  shows "registry_inv (run_registry_ops reg ops) \<and> HandleToPointer (run_registry_ops reg ops) h = Some p"
  using assms
proof (induction ops arbitrary: reg)
  case Nil
  then show ?case by (simp add: run_registry_ops_def)
next
  case (Cons x xs)
  show ?case
  proof (cases x)
    case (Allocate q m)
    with Cons.prems Cons.IH [of "snd (AllocateHandleForPointer reg q m)"] show ?thesis
      by (simp add: run_registry_ops_def registry_inv_allocate allocate_keeps_live)
  next
    case (Release h')
    with Cons.prems have "h' \<noteq> h" by auto
    from remove_keeps_live [OF Cons.prems(2) this] registry_inv_remove [OF Cons.prems(1), of h']
      Cons.prems(3) Cons.IH [of "RemoveHandle reg h'"] Release
    show ?thesis by (simp add: run_registry_ops_def)
  qed
qed

lemma run_registry_inv:
  "registry_inv reg \<Longrightarrow> registry_inv (run_registry_ops reg ops)"
proof (induction ops arbitrary: reg)
  case Nil
  then show ?case by (simp add: run_registry_ops_def)
next
  case (Cons x xs)
  from Cons.prems have "registry_inv (apply_registry_op reg x)"
    by (cases x) (simp_all add: registry_inv_allocate registry_inv_remove)
  from Cons.IH [OF this] show ?case by (simp add: run_registry_ops_def)
qed

lemma run_incarnation: "incarnation (run_registry_ops reg ops) = incarnation reg"
proof (induction ops arbitrary: reg)
  case Nil
  then show ?case by (simp add: run_registry_ops_def)
next
  case (Cons x xs)
  have "incarnation (apply_registry_op reg x) = incarnation reg"
    by (cases x) (simp_all add: incarnation_allocate incarnation_remove)
  with Cons.IH [of "apply_registry_op reg x"] show ?case by (simp add: run_registry_ops_def)
qed

text \<open>
  C2: a successful allocation returns \<open>(incarnation << INDEX_BITS) | (index + 1)\<close> for the
  slot \<open>index\<close> that now holds the reference, so the handle is not 0; handle 0 never
  resolves; and through every interleaving of allocations and releases that does not
  release the handle, it resolves to the reference it was allocated for. The registry is
  any registry reachable from \<open>AllocateNewRegistry inc\<close>.
\<close>

theorem allocated_handle_resolves:
  assumes reach: "reg = run_registry_ops (AllocateNewRegistry inc) before"
    and alloc: "AllocateHandleForPointer reg ptr mem_ok = (handle, reg')"
    and nonzero: "handle \<noteq> 0"
    and kept: "Release handle \<notin> set after"
  shows "(\<exists>index. handle = push_bit INDEX_BITS inc OR word_of_nat (index + 1)
            \<and> index < length (pointers reg') \<and> pointers reg' ! index = Some ptr)
       \<and> HandleToPointer (run_registry_ops reg' after) handle = Some ptr
       \<and> HandleToPointer (run_registry_ops reg' after) 0 = None"
proof -
  from reach have ok: "registry_inv reg" by (simp add: run_registry_inv registry_inv_new)
  from reach have inc: "incarnation reg = inc"
    by (simp add: run_incarnation AllocateNewRegistry_def)
  from allocate_result [OF ok alloc nonzero] inc
  have 1: "\<exists>index. handle = push_bit INDEX_BITS inc OR word_of_nat (index + 1)
            \<and> index < length (pointers reg') \<and> pointers reg' ! index = Some ptr"
    unfolding make_handle_def by blast
  from registry_inv_allocate [OF ok, of ptr mem_ok] alloc have ok': "registry_inv reg'" by simp
  from run_keeps_live [OF ok' allocate_resolves [OF ok alloc nonzero] kept]
  have 2: "HandleToPointer (run_registry_ops reg' after) handle = Some ptr" by simp
  have 3: "HandleToPointer (run_registry_ops reg' after) 0 = None"
    by (simp add: HandleToPointer_def)
  from 1 2 3 show ?thesis by blast
qed


theorem allocated_handle_resolves_witness:
  "AllocateHandleForPointer (run_registry_ops (AllocateNewRegistry 1) [Allocate 5 True]) 7 True
     = (4194306, \<lparr>pointers = [Some 5, Some 7], capacity = 1024, incarnation = 1, freeHead = []\<rparr>)
   \<and> HandleToPointer
        (run_registry_ops \<lparr>pointers = [Some 5, Some 7], capacity = 1024, incarnation = 1, freeHead = []\<rparr>
           [Release 4194305, Allocate 9 True, Release 4194305]) 4194306 = Some 7"
proof -
  have a: "AllocateHandleForPointer (run_registry_ops (AllocateNewRegistry 1) [Allocate 5 True]) 7 True
     = (4194306, \<lparr>pointers = [Some 5, Some 7], capacity = 1024, incarnation = 1, freeHead = []\<rparr>)"
    by (simp add: run_registry_ops_def AllocateNewRegistry_def AllocateHandleForPointer_def
        make_handle_def MAX_INDEX_def INDEX_BITS_def GROWSIZE_def)
  have k: "Release 4194306 \<notin> set [Release 4194305, Allocate 9 True, Release 4194305]"
    by simp
  from allocated_handle_resolves [OF refl a _ k] show ?thesis using a by simp
qed

section \<open>Platform constants\<close>

text \<open>
  Modelled from the spec: the error codes the spec names (device-unavailable
  \<^verbatim>\<open>-ENODEV\<close>, I/O error \<^verbatim>\<open>-EIO\<close>, not-found, invalid-argument, resource-exhaustion,
  read-only-violation) are macros of the C library's \<^verbatim>\<open>errno.h\<close>, which is not among
  the sources; they have their customary values. \<^verbatim>\<open>main.c\<close> returns them negated.
\<close>

definition ENOENT :: int where "ENOENT = 2"
definition EIO :: int where "EIO = 5"
definition ENOMEM :: int where "ENOMEM = 12"
definition ENODEV :: int where "ENODEV = 19"
definition EINVAL :: int where "EINVAL = 22"
definition EROFS :: int where "EROFS = 30"

text \<open>
  Modelled from the spec: the transport's "operation cancelled" status is the macro
  \<^verbatim>\<open>SMB2_STATUS_CANCELLED\<close> of the protocol library's header (\<^verbatim>\<open>0xC0000120\<close>, here as the
  \<^verbatim>\<open>int\<close> that \<^verbatim>\<open>r2\<close> holds), and the size of the path buffers is \<^verbatim>\<open>MAXPATHLEN\<close> of the
  C library's \<^verbatim>\<open>sys/param.h\<close>; neither header is among the sources.
\<close>

definition SMB2_STATUS_CANCELLED :: int where "SMB2_STATUS_CANCELLED = - 1073741536"
definition MAXPATHLEN :: nat where "MAXPATHLEN = 1024"

section \<open>The subtree restriction path (smb2fs\_init, main.c)\<close>

text \<open>
  \<^verbatim>\<open>smb2fs_init\<close> walks the path of the URL segment by segment with \<^verbatim>\<open>SplitName\<close> of the
  operating system's \<^verbatim>\<open>dos.library\<close>: the call copies the segment that starts at
  \<open>oldpos\<close> into a buffer of \<open>bufsize\<close> bytes, cut to \<open>bufsize - 1\<close> characters, and
  returns the position after the separator, or -1 (here \<open>None\<close>) when the name ends
  before another separator.
\<close>

definition SplitName :: "string \<Rightarrow> char \<Rightarrow> nat \<Rightarrow> nat \<Rightarrow> string \<times> nat option" where
  "SplitName name separator oldpos bufsize =
     (let rest = drop oldpos name;
          piece = takeWhile (\<lambda>c. c \<noteq> separator) rest
      in (take (bufsize - 1) piece,
          if length piece < length rest then Some (oldpos + length piece + 1) else None))"

text \<open>\<^verbatim>\<open>strlcpy\<close> and \<^verbatim>\<open>strlcat\<close> into a buffer of \<open>bufsize\<close> bytes; the result is the buffer.\<close>

definition strlcpy :: "string \<Rightarrow> nat \<Rightarrow> string" where
  "strlcpy src bufsize = take (bufsize - 1) src"

definition strlcat :: "string \<Rightarrow> string \<Rightarrow> nat \<Rightarrow> string" where
  "strlcat dst src bufsize = dst @ take (bufsize - 1 - length dst) src"

text \<open>\<^verbatim>\<open>p = strrchr(pathbuf, '/'); *p = '\0'\<close>, for a buffer that holds a slash.\<close>

definition cut_at_last_slash :: "string \<Rightarrow> string" where
  "cut_at_last_slash pathbuf = rev (tl (dropWhile (\<lambda>c. c \<noteq> CHR ''/'') (rev pathbuf)))"

text \<open>
  The \<^verbatim>\<open>do ... while (pos != -1)\<close> loop of \<^verbatim>\<open>smb2fs_init\<close>. An empty segment and
  \<^verbatim>\<open>.\<close> are skipped; \<^verbatim>\<open>..\<close> cuts the buffer at its last slash when it has one
  (\<^verbatim>\<open>continue\<close>); every other segment, and \<^verbatim>\<open>..\<close> when the buffer has no slash, falls
  through to the two \<^verbatim>\<open>strlcat\<close> calls.
\<close>

function normalize_loop :: "nat \<Rightarrow> string \<Rightarrow> nat \<Rightarrow> string \<Rightarrow> string" where
  "normalize_loop maxpathlen patharg pos pathbuf =
     (case SplitName patharg CHR ''/'' pos 256 of
        (namebuf, newpos) \<Rightarrow>
          (let pathbuf' =
             (if namebuf = [] then pathbuf
              else if namebuf = ''.'' then pathbuf
              else if namebuf = ''..'' \<and> CHR ''/'' \<in> set pathbuf then cut_at_last_slash pathbuf
              else strlcat (strlcat pathbuf ''/'' maxpathlen) namebuf maxpathlen)
           in case newpos of
                None \<Rightarrow> pathbuf'
              | Some pos' \<Rightarrow> normalize_loop maxpathlen patharg pos' pathbuf'))"
  by pat_completeness auto
termination
  apply (relation "measure (\<lambda>(maxpathlen, patharg, pos, pathbuf). length patharg - pos)")
   apply simp
  apply (auto simp: SplitName_def Let_def split: if_splits)
  done

declare normalize_loop.simps [simp del]

text \<open>
  The block around the loop: it runs for a non-empty path of the URL, and the result
  becomes \<^verbatim>\<open>fsd->rootdir\<close> unless it is empty or a lone slash.
\<close>

definition normalized_rootdir :: "nat \<Rightarrow> string option \<Rightarrow> string option" where
  "normalized_rootdir maxpathlen url_path =
     (case url_path of
        None \<Rightarrow> None
      | Some patharg \<Rightarrow>
          if patharg = [] then None
          else
            (let pathbuf = normalize_loop maxpathlen patharg 0 []
             in if pathbuf \<noteq> [] \<and> pathbuf \<noteq> ''/'' then Some pathbuf else None))"

subsection \<open>The normalizer at the share root\<close>

text \<open>
  C9: the claim says the normalized path never contains a \<^verbatim>\<open>..\<close> component. For the
  URL path \<^verbatim>\<open>..\<close> the buffer is empty when the segment arrives, \<^verbatim>\<open>strrchr\<close> finds no
  slash, and the segment is appended like a name: the subtree restriction becomes
  \<^verbatim>\<open>/..\<close>.
\<close>

theorem normalizer_appends_dotdot_at_root:
  "normalized_rootdir MAXPATHLEN (Some ''..'') = Some ''/..''"
  by code_simp

section \<open>The session and its environment (main.c)\<close>

text \<open>
  \<^verbatim>\<open>struct smb2fs\<close>: the protocol-client context (a number names it, \<open>None\<close> is
  \<^verbatim>\<open>NULL\<close>), the address of the handle registry, the two flags and the subtree
  restriction.
\<close>

record smb2fs =
  smb2 :: "nat option"
  phr :: nat
  rdonly :: bool
  connected :: bool
  rootdir :: "string option"

text \<open>
  The fields of \<^verbatim>\<open>struct smb2_url\<close> that \<^verbatim>\<open>smb2fs_init\<close> branches on, and the startup
  arguments of \<^verbatim>\<open>struct smb2fs_mount_data\<close> (template \<^verbatim>\<open>cmd_template\<close>). \<open>arg_url\<close> is
  \<^verbatim>\<open>ARG_URL\<close> as \<^verbatim>\<open>smb2_parse_url\<close> reads it, \<open>None\<close> when the URL does not parse.
  \<^verbatim>\<open>USER\<close>, \<^verbatim>\<open>VOLUME\<close> and \<^verbatim>\<open>DOMAIN\<close> only travel on to the protocol library and
  the volume name and are left out.
\<close>

record smb2_url =
  url_server :: string
  url_path :: "string option"
  url_password :: "string option"

record smb2fs_mount_data =
  arg_url :: "smb2_url option"
  arg_password :: "string option"
  arg_readonly :: bool
  arg_nopasswordreq :: bool
  arg_no_handles_rcv :: bool
  arg_reconnect_req :: bool

text \<open>
  The calls \<^verbatim>\<open>main.c\<close> makes to its collaborators (the protocol library, the
  requesters of \<^verbatim>\<open>smb2fs.h\<close>, the registry's \<^verbatim>\<open>FreeRegistry\<close>), in the order they
  happen, with the arguments the properties below speak about. A context is written as
  \<^verbatim>\<open>fsd->smb2\<close> holds it at the call.
\<close>

datatype access_mode = O_RDONLY | O_RDWR | O_CREAT_EXCL_RDWR

datatype remote =
  Statvfs | Stat | Mkdir | Truncate int | Utimens | Unlink | Rmdir | Readlink | Rename string

datatype event =
    Request_error
  | Request_reconnect
  | Request_password
  | Disconnect_share "nat option"
  | Destroy_context "nat option"
  | Free_registry nat
  | Remote_call "nat option" remote string
  | Opendir_call "nat option" string
  | Open_call "nat option" string access_mode
  | Readdir_call "nat option" nat
  | Closedir_call "nat option" nat
  | Close_call "nat option" nat
  | Fstat_call "nat option" nat
  | Lseek_call "nat option" nat int
  | Read_call "nat option" nat int nat
  | Write_call "nat option" nat int nat
  | Ftruncate_call "nat option" nat int
  | Service_call "nat option"
  | Echo_call "nat option"

text \<open>
  What the environment answers. Each call whose result steers \<^verbatim>\<open>main.c\<close> takes the
  next answer of a script: \<open>Rc\<close> is the integer a library call returns (a return code,
  an offset, a byte count, the pending events of \<^verbatim>\<open>smb2_service\<close>), \<open>Opened\<close> the
  pointer and the \<^verbatim>\<open>r2\<close> status of \<^verbatim>\<open>smb2_open_r2\<close> and \<^verbatim>\<open>smb2_opendir_r2\<close>,
  \<open>Dirent\<close> the name of the entry \<^verbatim>\<open>smb2_readdir\<close> returns (\<open>None\<close> at the end),
  \<open>Answer\<close> the reply to \<^verbatim>\<open>request_reconnect\<close>, \<open>Time\<close> the clock of \<^verbatim>\<open>time(NULL)\<close>,
  and \<open>Init\<close> everything the environment decides during one run of \<^verbatim>\<open>smb2fs_init\<close>.
  A function returns \<open>None\<close> when the script has no fitting answer left (the run is
  not determined by the script) or when the C code would dereference \<^verbatim>\<open>NULL\<close>.

  \<open>connect_outcome\<close> sums up lines 214 to 352 of \<^verbatim>\<open>smb2fs_init\<close>
  (\<^verbatim>\<open>smb2_connect_share\<close> and the descriptor checks and repairs that follow) by the
  three ways the block ends: the connection fails and the function returns \<^verbatim>\<open>NULL\<close>;
  a descriptor check fails and the function returns \<^verbatim>\<open>-ENODEV\<close> (a non-null pointer)
  and leaves \<^verbatim>\<open>fsd\<close> set; or control reaches \<^verbatim>\<open>fsd->connected = TRUE\<close>. The argument
  is \<^verbatim>\<open>fsd->smb2\<close> at that point: the repairs may have replaced the context.
\<close>

datatype connect_outcome = Connect_failed | Connect_bad_fd "nat option" | Connect_ok nat

record init_outcome =
  io_calloc :: bool
  io_registry :: bool
  io_context :: "nat option"
  io_password :: "string option"
  io_connect :: connect_outcome
  io_strdup :: bool

datatype response =
    Rc int
  | Opened "nat option" int
  | Dirent "string option"
  | Answer bool
  | Time int
  | Init init_outcome

text \<open>
  The globals of \<^verbatim>\<open>main.c\<close> (\<^verbatim>\<open>fsd\<close>, \<^verbatim>\<open>phr_incarnation\<close>, \<^verbatim>\<open>cfg_reconnect_req\<close>,
  \<^verbatim>\<open>cfg_handles_rcv\<close>, \<^verbatim>\<open>last_server\<close>), the mount data behind
  \<^verbatim>\<open>fuse_get_context()->private_data\<close>, the heap of handle registries (\<^verbatim>\<open>fsd->phr\<close> is
  an address into it), what the protocol library reports about a context (the negotiated
  sizes, the socket descriptor), whether the registry can grow, and the calls made so
  far.
\<close>

record world =
  fsd :: "smb2fs option"
  phr_incarnation :: "32 word"
  cfg_reconnect_req :: bool
  cfg_handles_rcv :: bool
  last_server :: string
  md :: smb2fs_mount_data
  registries :: "nat \<Rightarrow> PointerHandleRegistry option"
  next_registry :: nat
  mem_ok :: bool
  smb2_get_max_read_size :: "nat option \<Rightarrow> nat"
  smb2_get_max_write_size :: "nat option \<Rightarrow> nat"
  smb2_get_fd :: "nat option \<Rightarrow> int"
  trace :: "event list"

definition emit :: "event list \<Rightarrow> world \<Rightarrow> world" where
  "emit evs w = w\<lparr>trace := trace w @ evs\<rparr>"

subsection \<open>smb2fs\_destroy and smb2fs\_init\<close>

definition smb2fs_destroy :: "world \<Rightarrow> world" where
  "smb2fs_destroy w =
     (case fsd w of
        None \<Rightarrow> w
      | Some s \<Rightarrow>
          (let closing =
             (case smb2 s of
                None \<Rightarrow> []
              | Some c \<Rightarrow>
                  (if connected s then [Disconnect_share (Some c)] else [])
                  @ [Destroy_context (Some c)])
           in w\<lparr>fsd := None,
                registries := (registries w)(phr s := None),
                trace := trace w @ closing @ [Free_registry (phr s)]\<rparr>))"

text \<open>
  One run of \<^verbatim>\<open>smb2fs_init\<close> under the outcome \<open>io\<close>. The result is whether the
  returned pointer is non-null, which is all the callers test. \<^verbatim>\<open>fci\<close> only receives
  the volume name and is left out.
\<close>

definition smb2fs_init_run :: "init_outcome \<Rightarrow> world \<Rightarrow> bool \<times> world" where
  "smb2fs_init_run io w0 =
     (let w1 = w0\<lparr>cfg_reconnect_req := (arg_reconnect_req (md w0) \<or> cfg_reconnect_req w0),
                   cfg_handles_rcv := (\<not> arg_no_handles_rcv (md w0) \<and> cfg_handles_rcv w0)\<rparr>
      in
      if \<not> io_calloc io then (False, emit [Request_error] (w1\<lparr>fsd := None\<rparr>))
      else
        (let w2 = w1\<lparr>phr_incarnation := phr_incarnation w1 + 1\<rparr> in
         if \<not> io_registry io then (False, emit [Request_error] (w2\<lparr>fsd := None\<rparr>))
         else
           (let a = next_registry w2;
                s0 = \<lparr>smb2 = None, phr = a, rdonly = arg_readonly (md w2),
                      connected = False, rootdir = None\<rparr>;
                w3 = w2\<lparr>fsd := Some s0,
                        registries := (registries w2)(a \<mapsto> AllocateNewRegistry (phr_incarnation w1)),
                        next_registry := a + 1\<rparr>
            in
            case io_context io of
              None \<Rightarrow> (False, smb2fs_destroy (emit [Request_error] w3))
            | Some c \<Rightarrow>
                (let s1 = s0\<lparr>smb2 := Some c\<rparr>;
                     w4 = w3\<lparr>fsd := Some s1\<rparr>
                 in
                 case arg_url (md w4) of
                   None \<Rightarrow> (False, smb2fs_destroy (emit [Request_error] w4))
                 | Some url \<Rightarrow>
                     (let w5 = w4\<lparr>last_server := strlcpy (url_server url) 128\<rparr>;
                          password =
                            (case arg_password (md w5) of
                               Some p \<Rightarrow> Some p
                             | None \<Rightarrow> url_password url);
                          asks = (password = None \<and> \<not> arg_nopasswordreq (md w5));
                          w6 = (if asks then emit [Request_password] w5 else w5)
                      in
                      if asks \<and> io_password io = None
                      then (False, smb2fs_destroy (emit [Request_error] w6))
                      else
                        (case io_connect io of
                           Connect_failed \<Rightarrow> (False, smb2fs_destroy (emit [Request_error] w6))
                         | Connect_bad_fd c' \<Rightarrow> (True, w6\<lparr>fsd := Some (s1\<lparr>smb2 := c'\<rparr>)\<rparr>)
                         | Connect_ok c' \<Rightarrow>
                             (let s2 = s1\<lparr>smb2 := Some c', connected := True\<rparr> in
                              case normalized_rootdir MAXPATHLEN (url_path url) of
                                None \<Rightarrow> (True, w6\<lparr>fsd := Some s2\<rparr>)
                              | Some r \<Rightarrow>
                                  if io_strdup io
                                  then (True, w6\<lparr>fsd := Some (s2\<lparr>rootdir := Some r\<rparr>)\<rparr>)
                                  else (False,
                                        smb2fs_destroy
                                          (emit [Request_error] (w6\<lparr>fsd := Some s2\<rparr>))))))))))"

fun smb2fs_init :: "response list \<Rightarrow> world \<Rightarrow> (bool \<times> response list \<times> world) option" where
  "smb2fs_init (Init io # script) w =
     (case smb2fs_init_run io w of (ok, w') \<Rightarrow> Some (ok, script, w'))"
| "smb2fs_init _ w = None"

subsection \<open>handle\_connection\_fault\<close>

text \<open>The loop \<^verbatim>\<open>while(request_reconnect(last_server)) { if(smb2fs_init(NULL)) return TRUE; }\<close>.\<close>

function (sequential) reconnect_loop ::
  "response list \<Rightarrow> world \<Rightarrow> (bool \<times> response list \<times> world) option" where
  "reconnect_loop (Answer again # script) w =
     (let w1 = emit [Request_reconnect] w in
      if \<not> again then Some (False, script, w1)
      else
        (case smb2fs_init script w1 of
           None \<Rightarrow> None
         | Some (ok, script', w2) \<Rightarrow>
             if ok then Some (True, script', w2) else reconnect_loop script' w2))"
| "reconnect_loop _ w = None"
  by pat_completeness auto

lemma smb2fs_init_script:
  "smb2fs_init script w = Some (ok, script', w') \<Longrightarrow> length script' < length script"
  by (cases "(script, w)" rule: smb2fs_init.cases) (auto split: prod.splits)

termination reconnect_loop
  by (relation "measure (\<lambda>(script, w). length script)") (auto dest: smb2fs_init_script)

text \<open>
  \<^verbatim>\<open>handle_connection_fault\<close>: report the error, destroy the context, free the root
  directory and \<^verbatim>\<open>fsd\<close>, and reconnect if \<^verbatim>\<open>cfg_reconnect_req\<close> is set. The function
  makes no call on \<^verbatim>\<open>fsd->phr\<close>: the registry stays on the heap.
\<close>

definition handle_connection_fault ::
  "response list \<Rightarrow> world \<Rightarrow> (bool \<times> response list \<times> world) option" where
  "handle_connection_fault script w =
     (case fsd w of
        None \<Rightarrow> None
      | Some s \<Rightarrow>
          (let w1 = (emit [Request_error, Destroy_context (smb2 s)] w)\<lparr>fsd := None\<rparr> in
           if \<not> cfg_reconnect_req w1 then Some (False, script, w1)
           else reconnect_loop script w1))"

text \<open>
  The block that opens every operation of \<^verbatim>\<open>smb2fs_ops\<close> except \<^verbatim>\<open>smb2fs_statfs\<close>
  and \<^verbatim>\<open>smb2fs_relabel\<close>: \<^verbatim>\<open>if (fsd == NULL) { ... return -ENODEV; }\<close>. The result
  \<open>False\<close> stands for that return.
\<close>

definition session_guard ::
  "response list \<Rightarrow> world \<Rightarrow> (bool \<times> response list \<times> world) option" where
  "session_guard script w =
     (if fsd w \<noteq> None then Some (True, script, w)
      else if cfg_reconnect_req w then
        (case script of
           Answer again # script1 \<Rightarrow>
             (let w1 = emit [Request_reconnect] w in
              if \<not> again then Some (False, script1, w1) else smb2fs_init script1 w1)
         | _ \<Rightarrow> None)
      else smb2fs_init script w)"

subsection \<open>Operations on a path\<close>

text \<open>
  The path sent to the server: the subtree restriction is put in front
  (\<^verbatim>\<open>strlcpy\<close>, \<^verbatim>\<open>strlcat\<close> into \<^verbatim>\<open>pathbuf[MAXPATHLEN]\<close>) and one leading slash is
  removed.
\<close>

definition remote_path :: "smb2fs \<Rightarrow> string \<Rightarrow> string" where
  "remote_path s path =
     (let p = (case rootdir s of
                 None \<Rightarrow> path
               | Some r \<Rightarrow> strlcat (strlcpy r MAXPATHLEN) path MAXPATHLEN)
      in case p of
           [] \<Rightarrow> []
         | c # cs \<Rightarrow> if c = CHR ''/'' then cs else p)"

text \<open>
  The loop that \<^verbatim>\<open>smb2fs_statfs\<close>, \<^verbatim>\<open>smb2fs_getattr\<close>, \<^verbatim>\<open>smb2fs_mkdir\<close>,
  \<^verbatim>\<open>smb2fs_truncate\<close>, \<^verbatim>\<open>smb2fs_unlink\<close>, \<^verbatim>\<open>smb2fs_rmdir\<close>, \<^verbatim>\<open>smb2fs_readlink\<close> and
  \<^verbatim>\<open>smb2fs_rename\<close> each write out around their library call \<open>f\<close>:
  \<^verbatim>\<open>do { rc = f(fsd->smb2, path, ...); if(rc < -1) return rc;
  else if (rc < 0) { if(!handle_connection_fault()) return -ENODEV; } } while(rc < 0);\<close>
  All of them return 0 once the loop is left; the result is the operation's return value.
\<close>

function (sequential) retry_loop ::
  "remote \<Rightarrow> string \<Rightarrow> response list \<Rightarrow> world \<Rightarrow> (int \<times> response list \<times> world) option" where
  "retry_loop f path (Rc rc # script) w =
     (case fsd w of
        None \<Rightarrow> None
      | Some s \<Rightarrow>
          (let w1 = emit [Remote_call (smb2 s) f path] w in
           if rc < - 1 then Some (rc, script, w1)
           else if rc < 0 then
             (case handle_connection_fault script w1 of
                None \<Rightarrow> None
              | Some (recovered, script', w2) \<Rightarrow>
                  if \<not> recovered then Some (- ENODEV, script', w2)
                  else retry_loop f path script' w2)
           else Some (0, script, w1)))"
| "retry_loop f path _ w = None"
  by pat_completeness auto

lemma reconnect_loop_script:
  "reconnect_loop script w = Some (ok, script', w') \<Longrightarrow> length script' < length script"
proof (induction script w rule: reconnect_loop.induct)
  case (1 again script w)
  let ?w1 = "emit [Request_reconnect] w"
  show ?case
  proof (cases again)
    case False
    with "1.prems" show ?thesis by (simp add: Let_def)
  next
    case True
    with "1.prems" obtain ok1 script1 w2 where
      i: "smb2fs_init script ?w1 = Some (ok1, script1, w2)"
      by (auto simp: Let_def split: option.splits)
    note l = smb2fs_init_script [OF i]
    show ?thesis
    proof (cases ok1)
      case True
      with "1.prems" i \<open>again\<close> l show ?thesis by (simp add: Let_def)
    next
      case False
      with "1.prems" i \<open>again\<close> have "reconnect_loop script1 w2 = Some (ok, script', w')"
        by (simp add: Let_def)
      from "1.IH" [OF refl _ i refl refl _ this] \<open>again\<close> False l
      show ?thesis by simp
    qed
  qed
qed simp_all

lemma handle_connection_fault_script:
  "handle_connection_fault script w = Some (ok, script', w') \<Longrightarrow> length script' \<le> length script"
  by (auto simp: handle_connection_fault_def Let_def split: option.splits if_splits
      dest: reconnect_loop_script)

termination retry_loop
  by (relation "measure (\<lambda>(f, path, script, w). length script)")
    (auto dest: handle_connection_fault_script)

text \<open>
  \<^verbatim>\<open>smb2fs_statfs\<close> has no session guard: without a session it returns \<^verbatim>\<open>-ENODEV\<close> at
  once. The scaling of the block counts after the loop does not change the return value.
\<close>

definition smb2fs_statfs ::
  "string \<Rightarrow> response list \<Rightarrow> world \<Rightarrow> (int \<times> response list \<times> world) option" where
  "smb2fs_statfs path script w =
     (case fsd w of
        None \<Rightarrow> Some (- ENODEV, script, w)
      | Some s \<Rightarrow>
          retry_loop Statvfs (remote_path s (if path = [] then ''/'' else path)) script w)"

text \<open>
  The operations that run the guard, refuse a read-only mount where they write
  (\<open>writes\<close>), build the path and run the loop: \<^verbatim>\<open>smb2fs_getattr\<close>,
  \<^verbatim>\<open>smb2fs_mkdir\<close>, \<^verbatim>\<open>smb2fs_truncate\<close>, \<^verbatim>\<open>smb2fs_unlink\<close>, \<^verbatim>\<open>smb2fs_readlink\<close>.
\<close>

definition path_operation ::
  "bool \<Rightarrow> remote \<Rightarrow> string \<Rightarrow> response list \<Rightarrow> world \<Rightarrow> (int \<times> response list \<times> world) option" where
  "path_operation writes f path script w =
     (case session_guard script w of
        None \<Rightarrow> None
      | Some (ok, script1, w1) \<Rightarrow>
          if \<not> ok then Some (- ENODEV, script1, w1)
          else
            (case fsd w1 of
               None \<Rightarrow> None
             | Some s \<Rightarrow>
                 if writes \<and> rdonly s then Some (- EROFS, script1, w1)
                 else retry_loop f (remote_path s path) script1 w1))"

definition smb2fs_getattr ::
  "string \<Rightarrow> response list \<Rightarrow> world \<Rightarrow> (int \<times> response list \<times> world) option" where
  "smb2fs_getattr path = path_operation False Stat path"

definition smb2fs_mkdir ::
  "string \<Rightarrow> response list \<Rightarrow> world \<Rightarrow> (int \<times> response list \<times> world) option" where
  "smb2fs_mkdir path = path_operation True Mkdir path"

definition smb2fs_truncate ::
  "string \<Rightarrow> int \<Rightarrow> response list \<Rightarrow> world \<Rightarrow> (int \<times> response list \<times> world) option" where
  "smb2fs_truncate path new_size = path_operation True (Truncate new_size) path"

definition smb2fs_unlink ::
  "string \<Rightarrow> response list \<Rightarrow> world \<Rightarrow> (int \<times> response list \<times> world) option" where
  "smb2fs_unlink path = path_operation True Unlink path"

definition smb2fs_readlink ::
  "string \<Rightarrow> response list \<Rightarrow> world \<Rightarrow> (int \<times> response list \<times> world) option" where
  "smb2fs_readlink path = path_operation False Readlink path"

text \<open>\<^verbatim>\<open>smb2fs_rename\<close> builds two paths.\<close>

definition smb2fs_rename ::
  "string \<Rightarrow> string \<Rightarrow> response list \<Rightarrow> world \<Rightarrow> (int \<times> response list \<times> world) option" where
  "smb2fs_rename srcpath dstpath script w =
     (case session_guard script w of
        None \<Rightarrow> None
      | Some (ok, script1, w1) \<Rightarrow>
          if \<not> ok then Some (- ENODEV, script1, w1)
          else
            (case fsd w1 of
               None \<Rightarrow> None
             | Some s \<Rightarrow>
                 if rdonly s then Some (- EROFS, script1, w1)
                 else retry_loop (Rename (remote_path s dstpath)) (remote_path s srcpath) script1 w1))"

text \<open>\<^verbatim>\<open>smb2fs_utimens\<close> calls the library once and returns a negative result as it is.\<close>

definition smb2fs_utimens ::
  "string \<Rightarrow> response list \<Rightarrow> world \<Rightarrow> (int \<times> response list \<times> world) option" where
  "smb2fs_utimens path script w =
     (case session_guard script w of
        None \<Rightarrow> None
      | Some (ok, script1, w1) \<Rightarrow>
          if \<not> ok then Some (- ENODEV, script1, w1)
          else
            (case fsd w1 of
               None \<Rightarrow> None
             | Some s \<Rightarrow>
                 if rdonly s then Some (- EROFS, script1, w1)
                 else
                   (case script1 of
                      Rc rc # script2 \<Rightarrow>
                        Some (if rc < 0 then rc else 0, script2,
                              emit [Remote_call (smb2 s) Utimens (remote_path s path)] w1)
                    | _ \<Rightarrow> None)))"

subsection \<open>Handles\<close>

text \<open>
  \<^verbatim>\<open>HandleToPointer(fsd->phr, (uint32_t) fi->fh)\<close>,
  \<^verbatim>\<open>AllocateHandleForPointer(fsd->phr, ptr)\<close> and \<^verbatim>\<open>RemoveHandle(fsd->phr, ...)\<close> on the
  registry that \<^verbatim>\<open>fsd->phr\<close> points to. \<^verbatim>\<open>fi->fh\<close> is modelled by its low 32 bits,
  the only part \<^verbatim>\<open>main.c\<close> reads or writes. The outer \<open>None\<close> is a registry that
  is not on the heap.
\<close>

definition resolve :: "world \<Rightarrow> smb2fs \<Rightarrow> 32 word \<Rightarrow> nat option option" where
  "resolve w s fh =
     (case registries w (phr s) of
        None \<Rightarrow> None
      | Some reg \<Rightarrow> Some (HandleToPointer reg fh))"

definition allocate_handle :: "nat \<Rightarrow> world \<Rightarrow> (32 word \<times> world) option" where
  "allocate_handle ptr w =
     (case fsd w of
        None \<Rightarrow> None
      | Some s \<Rightarrow>
          (case registries w (phr s) of
             None \<Rightarrow> None
           | Some reg \<Rightarrow>
               (case AllocateHandleForPointer reg ptr (mem_ok w) of
                  (handle, reg') \<Rightarrow>
                    Some (handle, w\<lparr>registries := (registries w)(phr s \<mapsto> reg')\<rparr>))))"

definition remove_handle :: "32 word \<Rightarrow> world \<Rightarrow> world option" where
  "remove_handle fh w =
     (case fsd w of
        None \<Rightarrow> None
      | Some s \<Rightarrow>
          (case registries w (phr s) of
             None \<Rightarrow> None
           | Some reg \<Rightarrow> Some (w\<lparr>registries := (registries w)(phr s \<mapsto> RemoveHandle reg fh)\<rparr>)))"

subsection \<open>Directories\<close>

text \<open>
  The loop of \<^verbatim>\<open>smb2fs_opendir\<close> and \<^verbatim>\<open>smb2fs_rmdir\<close> around \<^verbatim>\<open>smb2_opendir_r2\<close>: a
  null result with \<^verbatim>\<open>r2 == -1\<close> or \<^verbatim>\<open>r2 == SMB2_STATUS_CANCELLED\<close> goes to the fault
  handler, any other null result returns \<^verbatim>\<open>-ENOENT\<close>. \<open>Inl\<close> is a return value,
  \<open>Inr\<close> the directory pointer the loop ends with.
\<close>

function (sequential) opendir_loop ::
  "string \<Rightarrow> response list \<Rightarrow> world \<Rightarrow> ((int + nat) \<times> response list \<times> world) option" where
  "opendir_loop path (Opened smb2dir r2 # script) w =
     (case fsd w of
        None \<Rightarrow> None
      | Some s \<Rightarrow>
          (let w1 = emit [Opendir_call (smb2 s) path] w in
           case smb2dir of
             Some dir \<Rightarrow> Some (Inr dir, script, w1)
           | None \<Rightarrow>
               if r2 = - 1 \<or> r2 = SMB2_STATUS_CANCELLED then
                 (case handle_connection_fault script w1 of
                    None \<Rightarrow> None
                  | Some (recovered, script', w2) \<Rightarrow>
                      if \<not> recovered then Some (Inl (- ENODEV), script', w2)
                      else opendir_loop path script' w2)
               else Some (Inl (- ENOENT), script, w1)))"
| "opendir_loop path _ w = None"
  by pat_completeness auto
termination
  by (relation "measure (\<lambda>(path, script, w). length script)")
    (auto dest: handle_connection_fault_script)

definition smb2fs_opendir ::
  "string \<Rightarrow> 32 word \<Rightarrow> response list \<Rightarrow> world
   \<Rightarrow> (int \<times> 32 word \<times> response list \<times> world) option" where
  "smb2fs_opendir path fh script w =
     (case session_guard script w of
        None \<Rightarrow> None
      | Some (ok, script1, w1) \<Rightarrow>
          if \<not> ok then Some (- ENODEV, fh, script1, w1)
          else
            (case fsd w1 of
               None \<Rightarrow> None
             | Some s \<Rightarrow>
                 (case opendir_loop (remote_path s path) script1 w1 of
                    None \<Rightarrow> None
                  | Some (Inl v, script2, w2) \<Rightarrow> Some (v, fh, script2, w2)
                  | Some (Inr dir, script2, w2) \<Rightarrow>
                      (case allocate_handle dir w2 of
                         None \<Rightarrow> None
                       | Some (handle, w3) \<Rightarrow>
                           Some (if handle = 0 then - ENOMEM else 0, handle, script2, w3)))))"

text \<open>
  \<^verbatim>\<open>smb2fs_releasedir\<close> and \<^verbatim>\<open>smb2fs_release\<close>: guard, resolve, close, remove the
  handle, clear \<^verbatim>\<open>fi->fh\<close>.
\<close>

definition release_handle ::
  "(nat option \<Rightarrow> nat \<Rightarrow> event) \<Rightarrow> 32 word \<Rightarrow> response list \<Rightarrow> world
   \<Rightarrow> (int \<times> 32 word \<times> response list \<times> world) option" where
  "release_handle closing fh script w =
     (case session_guard script w of
        None \<Rightarrow> None
      | Some (ok, script1, w1) \<Rightarrow>
          if \<not> ok then Some (- ENODEV, fh, script1, w1)
          else
            (case fsd w1 of
               None \<Rightarrow> None
             | Some s \<Rightarrow>
                 (case resolve w1 s fh of
                    None \<Rightarrow> None
                  | Some None \<Rightarrow> Some (- EINVAL, fh, script1, w1)
                  | Some (Some ptr) \<Rightarrow>
                      (case remove_handle fh (emit [closing (smb2 s) ptr] w1) of
                         None \<Rightarrow> None
                       | Some w2 \<Rightarrow> Some (0, 0, script1, w2)))))"

definition smb2fs_releasedir ::
  "32 word \<Rightarrow> response list \<Rightarrow> world \<Rightarrow> (int \<times> 32 word \<times> response list \<times> world) option" where
  "smb2fs_releasedir = release_handle Closedir_call"

definition smb2fs_release ::
  "32 word \<Rightarrow> response list \<Rightarrow> world \<Rightarrow> (int \<times> 32 word \<times> response list \<times> world) option" where
  "smb2fs_release = release_handle Close_call"

text \<open>
  \<^verbatim>\<open>while ((ent = smb2_readdir(fsd->smb2, smb2dir)) != NULL)\<close>: in \<^verbatim>\<open>smb2fs_readdir\<close>
  every entry goes to the filler; in \<^verbatim>\<open>smb2fs_rmdir\<close> (\<open>stop_at_entry\<close>) the loop
  breaks at the first entry other than \<^verbatim>\<open>.\<close> and \<^verbatim>\<open>..\<close> and reports it.
\<close>

fun readdir_loop ::
  "bool \<Rightarrow> nat \<Rightarrow> response list \<Rightarrow> world \<Rightarrow> (bool \<times> response list \<times> world) option" where
  "readdir_loop stop_at_entry smb2dir (Dirent ent # script) w =
     (case fsd w of
        None \<Rightarrow> None
      | Some s \<Rightarrow>
          (let w1 = emit [Readdir_call (smb2 s) smb2dir] w in
           case ent of
             None \<Rightarrow> Some (False, script, w1)
           | Some name \<Rightarrow>
               if stop_at_entry \<and> name \<noteq> ''.'' \<and> name \<noteq> ''..'' then Some (True, script, w1)
               else readdir_loop stop_at_entry smb2dir script w1))"
| "readdir_loop stop_at_entry smb2dir _ w = None"

definition smb2fs_readdir ::
  "32 word option \<Rightarrow> response list \<Rightarrow> world \<Rightarrow> (int \<times> response list \<times> world) option" where
  "smb2fs_readdir fi script w =
     (case session_guard script w of
        None \<Rightarrow> None
      | Some (ok, script1, w1) \<Rightarrow>
          if \<not> ok then Some (- ENODEV, script1, w1)
          else
            (case fi of
               None \<Rightarrow> Some (- EINVAL, script1, w1)
             | Some fh \<Rightarrow>
                 (case fsd w1 of
                    None \<Rightarrow> None
                  | Some s \<Rightarrow>
                      (case resolve w1 s fh of
                         None \<Rightarrow> None
                       | Some None \<Rightarrow> Some (- EINVAL, script1, w1)
                       | Some (Some smb2dir) \<Rightarrow>
                           (case readdir_loop False smb2dir script1 w1 of
                              None \<Rightarrow> None
                            | Some (found, script2, w2) \<Rightarrow> Some (0, script2, w2))))))"

text \<open>
  Modelled from the spec: the not-empty outcome of \<^verbatim>\<open>smb2fs_rmdir\<close> is
  \<^verbatim>\<open>-ENOTEMPTY\<close> of \<^verbatim>\<open>errno.h\<close>, which is not among the sources and differs between C
  libraries; the BSD number is taken, and no property below depends on it.
\<close>

definition ENOTEMPTY :: int where "ENOTEMPTY = 66"

definition smb2fs_rmdir ::
  "string \<Rightarrow> response list \<Rightarrow> world \<Rightarrow> (int \<times> response list \<times> world) option" where
  "smb2fs_rmdir path script w =
     (case session_guard script w of
        None \<Rightarrow> None
      | Some (ok, script1, w1) \<Rightarrow>
          if \<not> ok then Some (- ENODEV, script1, w1)
          else
            (case fsd w1 of
               None \<Rightarrow> None
             | Some s \<Rightarrow>
                 if rdonly s then Some (- EROFS, script1, w1)
                 else
                   (case opendir_loop (remote_path s path) script1 w1 of
                      None \<Rightarrow> None
                    | Some (Inl v, script2, w2) \<Rightarrow> Some (v, script2, w2)
                    | Some (Inr smb2dir, script2, w2) \<Rightarrow>
                        (case readdir_loop True smb2dir script2 w2 of
                           None \<Rightarrow> None
                         | Some (notempty, script3, w3) \<Rightarrow>
                             (case fsd w3 of
                                None \<Rightarrow> None
                              | Some s3 \<Rightarrow>
                                  (let w4 = emit [Closedir_call (smb2 s3) smb2dir] w3 in
                                   if notempty then Some (- ENOTEMPTY, script3, w4)
                                   else retry_loop Rmdir (remote_path s path) script3 w4))))))"

subsection \<open>Opening files\<close>

text \<open>
  \<^verbatim>\<open>smb2fs_fgetattr\<close>: the handle is resolved at the top of every round of the loop.
\<close>

function fgetattr_loop ::
  "32 word \<Rightarrow> response list \<Rightarrow> world \<Rightarrow> (int \<times> response list \<times> world) option" where
  "fgetattr_loop fh script w =
     (case fsd w of
        None \<Rightarrow> None
      | Some s \<Rightarrow>
          (case resolve w s fh of
             None \<Rightarrow> None
           | Some None \<Rightarrow> Some (- EINVAL, script, w)
           | Some (Some smb2fh) \<Rightarrow>
               (case script of
                  Rc rc # script1 \<Rightarrow>
                    (let w1 = emit [Fstat_call (smb2 s) smb2fh] w in
                     if rc < - 1 then Some (rc, script1, w1)
                     else if rc < 0 then
                       (case handle_connection_fault script1 w1 of
                          None \<Rightarrow> None
                        | Some (recovered, script2, w2) \<Rightarrow>
                            if \<not> recovered then Some (- ENODEV, script2, w2)
                            else fgetattr_loop fh script2 w2)
                     else Some (0, script1, w1))
                | _ \<Rightarrow> None)))"
  by pat_completeness auto
termination
  by (relation "measure (\<lambda>(fh, script, w). length script)")
    (auto dest: handle_connection_fault_script)

declare fgetattr_loop.simps [simp del]

definition smb2fs_fgetattr ::
  "32 word \<Rightarrow> response list \<Rightarrow> world \<Rightarrow> (int \<times> response list \<times> world) option" where
  "smb2fs_fgetattr fh script w =
     (case session_guard script w of
        None \<Rightarrow> None
      | Some (ok, script1, w1) \<Rightarrow>
          if \<not> ok then Some (- ENODEV, script1, w1) else fgetattr_loop fh script1 w1)"

text \<open>
  The \<^verbatim>\<open>for (;;)\<close> of \<^verbatim>\<open>smb2fs_open\<close> with its inner \<^verbatim>\<open>do ... while\<close>: a status of -1
  or \<^verbatim>\<open>SMB2_STATUS_CANCELLED\<close> goes to the fault handler and the call is repeated; a
  pointer gets a handle, which is stored in \<^verbatim>\<open>fi->fh\<close>; a null pointer makes a
  read-write attempt fall back to read-only and a read-only attempt return
  \<^verbatim>\<open>-ENOENT\<close>. The second result is \<^verbatim>\<open>fi->fh\<close> afterwards.
\<close>

function (sequential) open_loop ::
  "string \<Rightarrow> access_mode \<Rightarrow> 32 word \<Rightarrow> response list \<Rightarrow> world
   \<Rightarrow> (int \<times> 32 word \<times> response list \<times> world) option" where
  "open_loop path flags fh (Opened smb2fh r2 # script) w =
     (case fsd w of
        None \<Rightarrow> None
      | Some s \<Rightarrow>
          (let w1 = emit [Open_call (smb2 s) path flags] w in
           if r2 = - 1 \<or> r2 = SMB2_STATUS_CANCELLED then
             (case handle_connection_fault script w1 of
                None \<Rightarrow> None
              | Some (recovered, script', w2) \<Rightarrow>
                  if \<not> recovered then Some (- ENODEV, fh, script', w2)
                  else open_loop path flags fh script' w2)
           else
             (case smb2fh of
                Some ptr \<Rightarrow>
                  (case allocate_handle ptr w1 of
                     None \<Rightarrow> None
                   | Some (handle, w2) \<Rightarrow>
                       Some (if handle = 0 then - ENOMEM else 0, handle, script, w2))
              | None \<Rightarrow>
                  if flags = O_RDWR then open_loop path O_RDONLY fh script w1
                  else Some (- ENOENT, fh, script, w1))))"
| "open_loop path flags fh _ w = None"
  by pat_completeness auto
termination
  by (relation "measure (\<lambda>(path, flags, fh, script, w). length script)")
    (auto dest: handle_connection_fault_script)

definition smb2fs_open ::
  "string \<Rightarrow> 32 word \<Rightarrow> response list \<Rightarrow> world
   \<Rightarrow> (int \<times> 32 word \<times> response list \<times> world) option" where
  "smb2fs_open path fh script w =
     (case session_guard script w of
        None \<Rightarrow> None
      | Some (ok, script1, w1) \<Rightarrow>
          if \<not> ok then Some (- ENODEV, fh, script1, w1)
          else
            (case fsd w1 of
               None \<Rightarrow> None
             | Some s \<Rightarrow>
                 open_loop (remote_path s path) (if rdonly s then O_RDONLY else O_RDWR)
                   fh script1 w1))"

text \<open>
  \<^verbatim>\<open>smb2fs_create\<close> opens with \<^verbatim>\<open>O_CREAT | O_EXCL | O_RDWR\<close>, has no fallback and
  returns -1 for a null pointer.
\<close>

function (sequential) create_loop ::
  "string \<Rightarrow> 32 word \<Rightarrow> response list \<Rightarrow> world
   \<Rightarrow> (int \<times> 32 word \<times> response list \<times> world) option" where
  "create_loop path fh (Opened smb2fh r2 # script) w =
     (case fsd w of
        None \<Rightarrow> None
      | Some s \<Rightarrow>
          (let w1 = emit [Open_call (smb2 s) path O_CREAT_EXCL_RDWR] w in
           if r2 = - 1 \<or> r2 = SMB2_STATUS_CANCELLED then
             (case handle_connection_fault script w1 of
                None \<Rightarrow> None
              | Some (recovered, script', w2) \<Rightarrow>
                  if \<not> recovered then Some (- ENODEV, fh, script', w2)
                  else create_loop path fh script' w2)
           else
             (case smb2fh of
                Some ptr \<Rightarrow>
                  (case allocate_handle ptr w1 of
                     None \<Rightarrow> None
                   | Some (handle, w2) \<Rightarrow>
                       Some (if handle = 0 then - ENOMEM else 0, handle, script, w2))
              | None \<Rightarrow> Some (- 1, fh, script, w1))))"
| "create_loop path fh _ w = None"
  by pat_completeness auto
termination
  by (relation "measure (\<lambda>(path, fh, script, w). length script)")
    (auto dest: handle_connection_fault_script)

definition smb2fs_create ::
  "string \<Rightarrow> 32 word \<Rightarrow> response list \<Rightarrow> world
   \<Rightarrow> (int \<times> 32 word \<times> response list \<times> world) option" where
  "smb2fs_create path fh script w =
     (case session_guard script w of
        None \<Rightarrow> None
      | Some (ok, script1, w1) \<Rightarrow>
          if \<not> ok then Some (- ENODEV, fh, script1, w1)
          else
            (case fsd w1 of
               None \<Rightarrow> None
             | Some s \<Rightarrow>
                 if rdonly s then Some (- EROFS, fh, script1, w1)
                 else create_loop (remote_path s path) fh script1 w1))"

subsection \<open>Streams: read, write, ftruncate\<close>

text \<open>
  The head of \<^verbatim>\<open>smb2fs_read\<close>, \<^verbatim>\<open>smb2fs_write\<close> and \<^verbatim>\<open>smb2fs_ftruncate\<close>: the
  session guard, followed inside the same \<^verbatim>\<open>if (fsd == NULL)\<close> by
  \<^verbatim>\<open>if(cfg_handles_rcv) { rc_open = smb2fs_open(path, fi); if(rc_open < 0) return -EIO; }\<close>.
  The first result is the value returned from the head, if it returns.
\<close>

definition stream_guard ::
  "string \<Rightarrow> 32 word \<Rightarrow> response list \<Rightarrow> world
   \<Rightarrow> (int option \<times> 32 word \<times> response list \<times> world) option" where
  "stream_guard path fh script w =
     (if fsd w \<noteq> None then Some (None, fh, script, w)
      else
        (case session_guard script w of
           None \<Rightarrow> None
         | Some (ok, script1, w1) \<Rightarrow>
             if \<not> ok then Some (Some (- ENODEV), fh, script1, w1)
             else if cfg_handles_rcv w1 then
               (case smb2fs_open path fh script1 w1 of
                  None \<Rightarrow> None
                | Some (rc_open, fh', script2, w2) \<Rightarrow>
                    if rc_open < 0 then Some (Some (- EIO), fh', script2, w2)
                    else Some (None, fh', script2, w2))
             else Some (None, fh, script1, w1)))"

text \<open>
  The locals of \<^verbatim>\<open>smb2fs_read\<close> and \<^verbatim>\<open>smb2fs_write\<close> that live across the rounds of
  their loops, and \<^verbatim>\<open>fi->fh\<close>: \<open>size_left\<close> is \<^verbatim>\<open>size\<close>, \<open>last_rc\<close> is \<^verbatim>\<open>rc\<close>,
  \<open>buffer_ref\<close> is the distance of \<^verbatim>\<open>buffer_ref\<close> from \<^verbatim>\<open>buffer\<close>; \<open>chunk_size\<close> and
  \<open>success_count\<close> belong to the write. \<^verbatim>\<open>size_t\<close> values are natural numbers and
  \<^verbatim>\<open>int\<close> values integers, without wrap-around.
\<close>

record transfer =
  fi_fh :: "32 word"
  size_left :: nat
  last_rc :: int
  result :: int
  buffer_ref :: int
  service_counter :: nat
  bytes_since_service :: nat
  last_echo :: int
  chunk_size :: nat
  success_count :: nat

datatype loop_exit = Return int | Done

text \<open>\<^verbatim>\<open>do { serv = smb2_service(fsd->smb2, 0); } while (serv > 0);\<close>\<close>

fun drain :: "response list \<Rightarrow> world \<Rightarrow> (response list \<times> world) option" where
  "drain (Rc serv # script) w =
     (case fsd w of
        None \<Rightarrow> None
      | Some s \<Rightarrow>
          (let w1 = emit [Service_call (smb2 s)] w in
           if 0 < serv then drain script w1 else Some (script, w1)))"
| "drain _ w = None"

text \<open>
  The branch \<^verbatim>\<open>else if (rc > 0)\<close> of both loops up to the keep-alive: count the unit
  and its bytes; at 4 units or 262144 bytes drain, reset both counters, read the clock
  and send an echo if 20 seconds have passed since the last one.
\<close>

definition service_batch ::
  "int \<Rightarrow> transfer \<Rightarrow> response list \<Rightarrow> world \<Rightarrow> (transfer \<times> response list \<times> world) option" where
  "service_batch rc st script w =
     (let st1 = st\<lparr>service_counter := service_counter st + 1,
                    bytes_since_service := bytes_since_service st + nat rc\<rparr>
      in
      if 4 \<le> service_counter st1 \<or> 262144 \<le> bytes_since_service st1 then
        (case drain script w of
           None \<Rightarrow> None
         | Some (script1, w1) \<Rightarrow>
             (case script1 of
                Time current_time # script2 \<Rightarrow>
                  (case fsd w1 of
                     None \<Rightarrow> None
                   | Some s \<Rightarrow>
                       (let st2 = st1\<lparr>service_counter := 0, bytes_since_service := 0\<rparr> in
                        if 20 \<le> current_time - last_echo st2
                        then Some (st2\<lparr>last_echo := current_time\<rparr>, script2,
                                   emit [Echo_call (smb2 s)] w1)
                        else Some (st2, script2, w1)))
              | _ \<Rightarrow> None))
      else Some (st1, script, w))"

text \<open>\<^verbatim>\<open>result += rc; buffer_ref += rc; size -= rc;\<close> at the end of a round.\<close>

definition advance :: "int \<Rightarrow> transfer \<Rightarrow> transfer" where
  "advance rc st =
     st\<lparr>result := result st + rc,
        buffer_ref := buffer_ref st + rc,
        size_left := nat (int (size_left st) - rc)\<rparr>"

text \<open>
  \<^verbatim>\<open>if(!handle_connection_fault()) return -ENODEV; if(cfg_handles_rcv) { rc_open =
  smb2fs_open(path, fi); if(rc_open < 0) return -EIO; } else { return -EIO; }\<close>, the
  fault branch of \<^verbatim>\<open>smb2fs_read\<close>, \<^verbatim>\<open>smb2fs_write\<close> and \<^verbatim>\<open>smb2fs_ftruncate\<close>. The
  result is the return value, or \<^verbatim>\<open>fi->fh\<close> when control goes on.
\<close>

definition recover_stream ::
  "string \<Rightarrow> 32 word \<Rightarrow> response list \<Rightarrow> world
   \<Rightarrow> ((int + unit) \<times> 32 word \<times> response list \<times> world) option" where
  "recover_stream path fh script w =
     (case handle_connection_fault script w of
        None \<Rightarrow> None
      | Some (recovered, script1, w1) \<Rightarrow>
          if \<not> recovered then Some (Inl (- ENODEV), fh, script1, w1)
          else if cfg_handles_rcv w1 then
            (case smb2fs_open path fh script1 w1 of
               None \<Rightarrow> None
             | Some (rc_open, fh', script2, w2) \<Rightarrow>
                 if rc_open < 0 then Some (Inl (- EIO), fh', script2, w2)
                 else Some (Inr (), fh', script2, w2))
          else Some (Inl (- EIO), fh, script1, w1))"

text \<open>
  One round of the loop \<^verbatim>\<open>while (size > 0)\<close> of \<^verbatim>\<open>smb2fs_read\<close>, for the byte count
  \<open>rc\<close> that \<^verbatim>\<open>smb2_read\<close> returns. \<open>smb2fh\<close> is the pointer resolved before the loop;
  the loop does not resolve again. The first result says how the round ends: \<open>Some Done\<close>
  is \<^verbatim>\<open>break\<close>, \<open>Some (Return v)\<close> a return from the function, \<open>None\<close> the end of
  the body. A byte count above the requested count is outside the library's contract
  and outside the model.
\<close>

definition read_round ::
  "string \<Rightarrow> nat \<Rightarrow> nat \<Rightarrow> transfer \<Rightarrow> int \<Rightarrow> response list \<Rightarrow> world
   \<Rightarrow> (loop_exit option \<times> transfer \<times> response list \<times> world) option" where
  "read_round path smb2fh max_read_size st rc script w =
     (case fsd w of
        None \<Rightarrow> None
      | Some s \<Rightarrow>
          (let count = min (size_left st) max_read_size;
               w1 = emit [Read_call (smb2 s) smb2fh (buffer_ref st) count] w;
               st1 = st\<lparr>last_rc := rc\<rparr>
           in
           if rc = 0 then Some (Some Done, st1, script, w1)
           else if rc < - 1 then Some (Some (Return rc), st1, script, w1)
           else if rc < 0 then
             (case recover_stream path (fi_fh st1) script w1 of
                None \<Rightarrow> None
              | Some (Inl v, fh', script', w2) \<Rightarrow>
                  Some (Some (Return v), st1\<lparr>fi_fh := fh'\<rparr>, script', w2)
              | Some (Inr u, fh', script', w2) \<Rightarrow>
                  Some (None, advance rc (st1\<lparr>fi_fh := fh'\<rparr>), script', w2))
           else if int count < rc then None
           else
             (case service_batch rc st1 script w1 of
                None \<Rightarrow> None
              | Some (st2, script', w2) \<Rightarrow> Some (None, advance rc st2, script', w2))))"

function read_loop ::
  "string \<Rightarrow> nat \<Rightarrow> nat \<Rightarrow> transfer \<Rightarrow> response list \<Rightarrow> world
   \<Rightarrow> (loop_exit \<times> transfer \<times> response list \<times> world) option" where
  "read_loop path smb2fh max_read_size st script w =
     (if size_left st = 0 then Some (Done, st, script, w)
      else
        (case script of
           Rc rc # script1 \<Rightarrow>
             (case read_round path smb2fh max_read_size st rc script1 w of
                None \<Rightarrow> None
              | Some (Some ex, st', script2, w2) \<Rightarrow> Some (ex, st', script2, w2)
              | Some (None, st', script2, w2) \<Rightarrow>
                  read_loop path smb2fh max_read_size st' script2 w2)
         | _ \<Rightarrow> None))"
  by pat_completeness auto

lemma session_guard_script:
  "session_guard script w = Some (ok, script', w') \<Longrightarrow> length script' \<le> length script"
  by (auto simp: session_guard_def Let_def split: if_splits list.splits response.splits
      dest!: smb2fs_init_script)

lemma open_loop_script:
  "open_loop path flags fh script w = Some (v, fh', script', w') \<Longrightarrow> length script' < length script"
proof (induction path flags fh script w rule: open_loop.induct)
  case (1 path flags fh smb2fh r2 script w)
  from "1.prems" obtain s where s: "fsd w = Some s" by (auto split: option.splits)
  define w1 where "w1 = emit [Open_call (smb2 s) path flags] w"
  show ?case
  proof (cases "r2 = - 1 \<or> r2 = SMB2_STATUS_CANCELLED")
    case True
    with "1.prems" s obtain recovered script1 w2 where
      h: "handle_connection_fault script w1 = Some (recovered, script1, w2)"
      by (auto simp: w1_def Let_def split: option.splits)
    note l = handle_connection_fault_script [OF h]
    show ?thesis
    proof (cases recovered)
      case False
      with "1.prems" s True h l show ?thesis by (auto simp: w1_def Let_def)
    next
      case rec: True
      with "1.prems" s True h
      have "open_loop path flags fh script1 w2 = Some (v, fh', script', w')"
        by (auto simp: w1_def Let_def)
      from "1.IH"(1) [OF s w1_def True h refl refl _ this] rec l show ?thesis by simp
    qed
  next
    case False
    show ?thesis
    proof (cases smb2fh)
      case (Some ptr)
      with "1.prems" s False show ?thesis by (auto simp: Let_def split: option.splits)
    next
      case None
      show ?thesis
      proof (cases "flags = O_RDWR")
        case True
        with "1.prems" s False None
        have "open_loop path O_RDONLY fh script w1 = Some (v, fh', script', w')"
          by (auto simp: w1_def Let_def)
        from "1.IH"(2) [OF s w1_def False None True this] show ?thesis by simp
      next
        case f: False
        with "1.prems" s False None show ?thesis by (auto simp: Let_def)
      qed
    qed
  qed
qed simp_all

lemma smb2fs_open_script:
  "smb2fs_open path fh script w = Some (v, fh', script', w') \<Longrightarrow> length script' \<le> length script"
  by (fastforce simp: smb2fs_open_def split: option.splits if_splits prod.splits
      dest: session_guard_script open_loop_script)

lemma drain_script:
  "drain script w = Some (script', w') \<Longrightarrow> length script' < length script"
proof (induction script w rule: drain.induct)
  case (1 serv script w)
  then show ?case by (fastforce simp: Let_def split: option.splits if_splits)
qed simp_all

lemma service_batch_script:
  "service_batch rc st script w = Some (st', script', w') \<Longrightarrow> length script' \<le> length script"
  by (fastforce simp: service_batch_def Let_def
      split: option.splits if_splits list.splits response.splits dest: drain_script)

lemma recover_stream_script:
  "recover_stream path fh script w = Some (x, fh', script', w') \<Longrightarrow> length script' \<le> length script"
  by (fastforce simp: recover_stream_def split: option.splits if_splits prod.splits
      dest: handle_connection_fault_script smb2fs_open_script)

lemma read_round_script:
  "read_round path smb2fh m st rc script w = Some (x, st', script', w')
   \<Longrightarrow> length script' \<le> length script"
  by (auto simp: read_round_def Let_def split: option.splits if_splits prod.splits sum.splits
      dest: recover_stream_script service_batch_script)

termination read_loop
  by (relation "measure (\<lambda>(path, smb2fh, max_read_size, st, script, w). length script)")
    (auto dest: read_round_script)

declare read_loop.simps [simp del]

text \<open>
  The \<^verbatim>\<open>do ... while(rc < 0)\<close> of \<^verbatim>\<open>smb2fs_read\<close>: resolve the handle, seek, reset
  the counters and the echo clock, run the loop, drain, and go round again if the last
  \<^verbatim>\<open>rc\<close> was negative.
\<close>

function read_outer ::
  "string \<Rightarrow> int \<Rightarrow> transfer \<Rightarrow> response list \<Rightarrow> world
   \<Rightarrow> (int \<times> transfer \<times> response list \<times> world) option" where
  "read_outer path offset st script w =
     (case fsd w of
        None \<Rightarrow> None
      | Some s \<Rightarrow>
          (case resolve w s (fi_fh st) of
             None \<Rightarrow> None
           | Some None \<Rightarrow> Some (- EINVAL, st, script, w)
           | Some (Some smb2fh) \<Rightarrow>
               (case script of
                  Rc new_offset # script1 \<Rightarrow>
                    (let w1 = emit [Lseek_call (smb2 s) smb2fh offset] w in
                     if new_offset < 0 then Some (new_offset, st, script1, w1)
                     else
                       (case script1 of
                          Time current_time # script2 \<Rightarrow>
                            (let st0 = st\<lparr>buffer_ref := 0, result := 0, service_counter := 0,
                                           bytes_since_service := 0, last_echo := current_time\<rparr>
                             in
                             case read_loop path smb2fh (smb2_get_max_read_size w1 (smb2 s))
                                    st0 script2 w1 of
                               None \<Rightarrow> None
                             | Some (Return v, st', script3, w3) \<Rightarrow> Some (v, st', script3, w3)
                             | Some (Done, st', script3, w3) \<Rightarrow>
                                 (case drain script3 w3 of
                                    None \<Rightarrow> None
                                  | Some (script4, w4) \<Rightarrow>
                                      if last_rc st' < 0 then read_outer path offset st' script4 w4
                                      else Some (result st', st', script4, w4)))
                        | _ \<Rightarrow> None))
                | _ \<Rightarrow> None)))"
  by pat_completeness auto

lemma read_loop_script:
  "read_loop path smb2fh m st script w = Some (x, st', script', w') \<Longrightarrow> length script' \<le> length script"
proof (induction "length script" arbitrary: st script w rule: less_induct)
  case less
  note again = less.hyps [rotated]
  from less.prems show ?case
    apply (subst (asm) read_loop.simps)
    apply (auto simp: Let_def split: if_splits list.splits response.splits option.splits)
     apply (frule read_round_script, frule again, simp, simp)
    apply (frule read_round_script, simp)
    done
qed

termination read_outer
  by (relation "measure (\<lambda>(path, offset, st, script, w). length script)")
    (auto dest!: read_loop_script drain_script)

declare read_outer.simps [simp del]

definition new_transfer :: "32 word \<Rightarrow> nat \<Rightarrow> transfer" where
  "new_transfer fh size_arg =
     \<lparr>fi_fh = fh, size_left = size_arg, last_rc = 0, result = 0, buffer_ref = 0,
      service_counter = 0, bytes_since_service = 0, last_echo = 0, chunk_size = 0,
      success_count = 0\<rparr>"

definition smb2fs_read ::
  "string \<Rightarrow> nat \<Rightarrow> int \<Rightarrow> 32 word \<Rightarrow> response list \<Rightarrow> world
   \<Rightarrow> (int \<times> 32 word \<times> response list \<times> world) option" where
  "smb2fs_read path size_arg offset fh script w =
     (case stream_guard path fh script w of
        None \<Rightarrow> None
      | Some (Some v, fh', script1, w1) \<Rightarrow> Some (v, fh', script1, w1)
      | Some (None, fh', script1, w1) \<Rightarrow>
          (case read_outer path offset (new_transfer fh' size_arg) script1 w1 of
             None \<Rightarrow> None
           | Some (v, st', script2, w2) \<Rightarrow> Some (v, fi_fh st', script2, w2)))"

text \<open>
  \<^verbatim>\<open>success_count++; if (success_count >= SUCCESS_THRESHOLD) { chunk_size = chunk_size * 2;
  if (chunk_size > max_write_size) chunk_size = max_write_size; success_count = 0; }\<close>
  with \<^verbatim>\<open>SUCCESS_THRESHOLD = 4\<close>.
\<close>

definition grow_chunk :: "nat \<Rightarrow> transfer \<Rightarrow> transfer" where
  "grow_chunk max_write_size st =
     (let st1 = st\<lparr>success_count := success_count st + 1\<rparr> in
      if 4 \<le> success_count st1 then
        (let doubled = chunk_size st1 * 2 in
         st1\<lparr>chunk_size := (if max_write_size < doubled then max_write_size else doubled),
             success_count := 0\<rparr>)
      else st1)"

text \<open>
  One round of the loop \<^verbatim>\<open>while (size > 0)\<close> of \<^verbatim>\<open>smb2fs_write\<close>, for the value
  \<open>rc\<close> that \<^verbatim>\<open>smb2_write\<close> returns: every negative \<open>rc\<close> takes the fault branch.
  The clock reads that only feed the debug output are left out.
\<close>

definition write_round ::
  "string \<Rightarrow> nat \<Rightarrow> nat \<Rightarrow> transfer \<Rightarrow> int \<Rightarrow> response list \<Rightarrow> world
   \<Rightarrow> (loop_exit option \<times> transfer \<times> response list \<times> world) option" where
  "write_round path smb2fh max_write_size st rc script w =
     (case fsd w of
        None \<Rightarrow> None
      | Some s \<Rightarrow>
          (let count = min (size_left st) (chunk_size st);
               w1 = emit [Write_call (smb2 s) smb2fh (buffer_ref st) count] w;
               st1 = st\<lparr>last_rc := rc\<rparr>
           in
           if rc < 0 then
             (case recover_stream path (fi_fh st1) script w1 of
                None \<Rightarrow> None
              | Some (Inl v, fh', script', w2) \<Rightarrow>
                  Some (Some (Return v), st1\<lparr>fi_fh := fh'\<rparr>, script', w2)
              | Some (Inr u, fh', script', w2) \<Rightarrow>
                  Some (None, advance rc (st1\<lparr>fi_fh := fh'\<rparr>), script', w2))
           else if 0 < rc then
             (if int count < rc then None
              else
                (case service_batch rc st1 script w1 of
                   None \<Rightarrow> None
                 | Some (st2, script', w2) \<Rightarrow>
                     Some (None, advance rc (grow_chunk max_write_size st2), script', w2)))
           else Some (None, advance rc st1, script, w1)))"

function write_loop ::
  "string \<Rightarrow> nat \<Rightarrow> nat \<Rightarrow> transfer \<Rightarrow> response list \<Rightarrow> world
   \<Rightarrow> (loop_exit \<times> transfer \<times> response list \<times> world) option" where
  "write_loop path smb2fh max_write_size st script w =
     (if size_left st = 0 then Some (Done, st, script, w)
      else
        (case script of
           Rc rc # script1 \<Rightarrow>
             (case write_round path smb2fh max_write_size st rc script1 w of
                None \<Rightarrow> None
              | Some (Some ex, st', script2, w2) \<Rightarrow> Some (ex, st', script2, w2)
              | Some (None, st', script2, w2) \<Rightarrow>
                  write_loop path smb2fh max_write_size st' script2 w2)
         | _ \<Rightarrow> None))"
  by pat_completeness auto

lemma write_round_script:
  "write_round path smb2fh m st rc script w = Some (x, st', script', w')
   \<Longrightarrow> length script' \<le> length script"
  by (auto simp: write_round_def Let_def split: option.splits if_splits prod.splits sum.splits
      dest: recover_stream_script service_batch_script)

termination write_loop
  by (relation "measure (\<lambda>(path, smb2fh, max_write_size, st, script, w). length script)")
    (auto dest: write_round_script)

declare write_loop.simps [simp del]

lemma write_loop_script:
  "write_loop path smb2fh m st script w = Some (x, st', script', w') \<Longrightarrow> length script' \<le> length script"
proof (induction "length script" arbitrary: st script w rule: less_induct)
  case less
  note again = less.hyps [rotated]
  from less.prems show ?case
    apply (subst (asm) write_loop.simps)
    apply (auto simp: Let_def split: if_splits list.splits response.splits option.splits)
     apply (frule write_round_script, frule again, simp, simp)
    apply (frule write_round_script, simp)
    done
qed

text \<open>
  The \<^verbatim>\<open>do ... while(rc < 0)\<close> of \<^verbatim>\<open>smb2fs_write\<close>. The chunk starts at
  \<^verbatim>\<open>INITIAL_CHUNK = 65536\<close>, capped by the negotiated maximum; a socket descriptor of 2
  or less returns \<^verbatim>\<open>-ENODEV\<close>.
\<close>

definition start_write :: "nat \<Rightarrow> int \<Rightarrow> transfer \<Rightarrow> transfer" where
  "start_write max_write_size current_time st =
     st\<lparr>buffer_ref := 0,
        chunk_size := (if max_write_size < 65536 then max_write_size else 65536),
        success_count := 0, result := 0, service_counter := 0, bytes_since_service := 0,
        last_echo := current_time\<rparr>"

function write_outer ::
  "string \<Rightarrow> int \<Rightarrow> transfer \<Rightarrow> response list \<Rightarrow> world
   \<Rightarrow> (int \<times> transfer \<times> response list \<times> world) option" where
  "write_outer path offset st script w =
     (case fsd w of
        None \<Rightarrow> None
      | Some s \<Rightarrow>
          (case resolve w s (fi_fh st) of
             None \<Rightarrow> None
           | Some None \<Rightarrow> Some (- EINVAL, st, script, w)
           | Some (Some smb2fh) \<Rightarrow>
               (case script of
                  Rc new_offset # script1 \<Rightarrow>
                    (let w1 = emit [Lseek_call (smb2 s) smb2fh offset] w in
                     if new_offset < 0 then Some (new_offset, st, script1, w1)
                     else
                       (case script1 of
                          Time current_time # script2 \<Rightarrow>
                            (let max_write_size = smb2_get_max_write_size w1 (smb2 s);
                                 st0 = start_write max_write_size current_time st
                             in
                             if smb2_get_fd w1 (smb2 s) \<le> 2 then Some (- ENODEV, st0, script2, w1)
                             else
                               (case write_loop path smb2fh max_write_size st0 script2 w1 of
                                  None \<Rightarrow> None
                                | Some (Return v, st', script3, w3) \<Rightarrow>
                                    Some (v, st', script3, w3)
                                | Some (Done, st', script3, w3) \<Rightarrow>
                                    (case drain script3 w3 of
                                       None \<Rightarrow> None
                                     | Some (script4, w4) \<Rightarrow>
                                         if last_rc st' < 0
                                         then write_outer path offset st' script4 w4
                                         else Some (result st', st', script4, w4))))
                        | _ \<Rightarrow> None))
                | _ \<Rightarrow> None)))"
  by pat_completeness auto
termination
  by (relation "measure (\<lambda>(path, offset, st, script, w). length script)")
    (auto dest!: write_loop_script drain_script)

declare write_outer.simps [simp del]

definition smb2fs_write ::
  "string \<Rightarrow> nat \<Rightarrow> int \<Rightarrow> 32 word \<Rightarrow> response list \<Rightarrow> world
   \<Rightarrow> (int \<times> 32 word \<times> response list \<times> world) option" where
  "smb2fs_write path size_arg offset fh script w =
     (case stream_guard path fh script w of
        None \<Rightarrow> None
      | Some (Some v, fh', script1, w1) \<Rightarrow> Some (v, fh', script1, w1)
      | Some (None, fh', script1, w1) \<Rightarrow>
          (case fsd w1 of
             None \<Rightarrow> None
           | Some s \<Rightarrow>
               if rdonly s then Some (- EROFS, fh', script1, w1)
               else
                 (case write_outer path offset (new_transfer fh' size_arg) script1 w1 of
                    None \<Rightarrow> None
                  | Some (v, st', script2, w2) \<Rightarrow> Some (v, fi_fh st', script2, w2))))"

text \<open>
  \<^verbatim>\<open>smb2fs_ftruncate\<close>: its loop resolves the handle at the top of every round, so a
  round after a recovery runs on the handle that \<^verbatim>\<open>smb2fs_open\<close> stored.
\<close>

function ftruncate_loop ::
  "string \<Rightarrow> int \<Rightarrow> 32 word \<Rightarrow> response list \<Rightarrow> world
   \<Rightarrow> (int \<times> 32 word \<times> response list \<times> world) option" where
  "ftruncate_loop path new_size fh script w =
     (case fsd w of
        None \<Rightarrow> None
      | Some s \<Rightarrow>
          (case resolve w s fh of
             None \<Rightarrow> None
           | Some None \<Rightarrow> Some (- EINVAL, fh, script, w)
           | Some (Some smb2fh) \<Rightarrow>
               (case script of
                  Rc rc # script1 \<Rightarrow>
                    (let w1 = emit [Ftruncate_call (smb2 s) smb2fh new_size] w in
                     if rc < - 1 then Some (rc, fh, script1, w1)
                     else if rc < 0 then
                       (case recover_stream path fh script1 w1 of
                          None \<Rightarrow> None
                        | Some (Inl v, fh', script2, w2) \<Rightarrow> Some (v, fh', script2, w2)
                        | Some (Inr u, fh', script2, w2) \<Rightarrow>
                            ftruncate_loop path new_size fh' script2 w2)
                     else Some (0, fh, script1, w1))
                | _ \<Rightarrow> None)))"
  by pat_completeness auto
termination
  by (relation "measure (\<lambda>(path, new_size, fh, script, w). length script)")
    (auto dest: recover_stream_script)

declare ftruncate_loop.simps [simp del]

definition smb2fs_ftruncate ::
  "string \<Rightarrow> int \<Rightarrow> 32 word \<Rightarrow> response list \<Rightarrow> world
   \<Rightarrow> (int \<times> 32 word \<times> response list \<times> world) option" where
  "smb2fs_ftruncate path new_size fh script w =
     (case stream_guard path fh script w of
        None \<Rightarrow> None
      | Some (Some v, fh', script1, w1) \<Rightarrow> Some (v, fh', script1, w1)
      | Some (None, fh', script1, w1) \<Rightarrow>
          (case fsd w1 of
             None \<Rightarrow> None
           | Some s \<Rightarrow>
               if rdonly s then Some (- EROFS, fh', script1, w1)
               else ftruncate_loop path new_size fh' script1 w1))"

subsection \<open>The operation table\<close>

text \<open>
  \<^verbatim>\<open>smb2fs_ops\<close>: one constructor for every operation of the table that the host
  calls on a mounted file system, with its arguments (\<^verbatim>\<open>fi->fh\<close> for \<^verbatim>\<open>fi\<close>), and
  the operation's return value. \<^verbatim>\<open>smb2fs_relabel\<close> returns 0 and does nothing else.
\<close>

datatype operation =
    Op_statfs string
  | Op_getattr string
  | Op_fgetattr "32 word"
  | Op_mkdir string
  | Op_opendir string "32 word"
  | Op_releasedir "32 word"
  | Op_readdir "32 word option"
  | Op_open string "32 word"
  | Op_create string "32 word"
  | Op_release "32 word"
  | Op_read string nat int "32 word"
  | Op_write string nat int "32 word"
  | Op_truncate string int
  | Op_ftruncate string int "32 word"
  | Op_utimens string
  | Op_unlink string
  | Op_rmdir string
  | Op_readlink string
  | Op_rename string string
  | Op_relabel

definition return_value ::
  "(int \<times> 32 word \<times> response list \<times> world) option \<Rightarrow> (int \<times> response list \<times> world) option" where
  "return_value r = (case r of None \<Rightarrow> None | Some (v, fh, script, w) \<Rightarrow> Some (v, script, w))"

fun smb2fs_ops ::
  "operation \<Rightarrow> response list \<Rightarrow> world \<Rightarrow> (int \<times> response list \<times> world) option" where
  "smb2fs_ops (Op_statfs path) script w = smb2fs_statfs path script w"
| "smb2fs_ops (Op_getattr path) script w = smb2fs_getattr path script w"
| "smb2fs_ops (Op_fgetattr fh) script w = smb2fs_fgetattr fh script w"
| "smb2fs_ops (Op_mkdir path) script w = smb2fs_mkdir path script w"
| "smb2fs_ops (Op_opendir path fh) script w = return_value (smb2fs_opendir path fh script w)"
| "smb2fs_ops (Op_releasedir fh) script w = return_value (smb2fs_releasedir fh script w)"
| "smb2fs_ops (Op_readdir fi) script w = smb2fs_readdir fi script w"
| "smb2fs_ops (Op_open path fh) script w = return_value (smb2fs_open path fh script w)"
| "smb2fs_ops (Op_create path fh) script w = return_value (smb2fs_create path fh script w)"
| "smb2fs_ops (Op_release fh) script w = return_value (smb2fs_release fh script w)"
| "smb2fs_ops (Op_read path size_arg offset fh) script w =
     return_value (smb2fs_read path size_arg offset fh script w)"
| "smb2fs_ops (Op_write path size_arg offset fh) script w =
     return_value (smb2fs_write path size_arg offset fh script w)"
| "smb2fs_ops (Op_truncate path new_size) script w = smb2fs_truncate path new_size script w"
| "smb2fs_ops (Op_ftruncate path new_size fh) script w =
     return_value (smb2fs_ftruncate path new_size fh script w)"
| "smb2fs_ops (Op_utimens path) script w = smb2fs_utimens path script w"
| "smb2fs_ops (Op_unlink path) script w = smb2fs_unlink path script w"
| "smb2fs_ops (Op_rmdir path) script w = smb2fs_rmdir path script w"
| "smb2fs_ops (Op_readlink path) script w = smb2fs_readlink path script w"
| "smb2fs_ops (Op_rename srcpath dstpath) script w = smb2fs_rename srcpath dstpath script w"
| "smb2fs_ops Op_relabel script w = Some (0, script, w)"

subsection \<open>Rounds, teardown and re-opening\<close>



text \<open>
  \<^verbatim>\<open>handle_connection_fault\<close> up to the test of \<^verbatim>\<open>cfg_reconnect_req\<close>: the error is
  reported, the context destroyed and \<^verbatim>\<open>fsd\<close> freed and set to \<^verbatim>\<open>NULL\<close>.
\<close>

definition fault_teardown :: "smb2fs \<Rightarrow> world \<Rightarrow> world" where
  "fault_teardown s w = (emit [Request_error, Destroy_context (smb2 s)] w)\<lparr>fsd := None\<rparr>"

text \<open>The operations whose guard re-opens the file when handle recovery is on.\<close>

fun reopens :: "operation \<Rightarrow> bool" where
  "reopens (Op_read path size_arg offset fh) = True"
| "reopens (Op_write path size_arg offset fh) = True"
| "reopens (Op_ftruncate path new_size fh) = True"
| "reopens op = False"

section \<open>Example states\<close>

text \<open>
  A mount of \<^verbatim>\<open>smb://nas/share\<close> with the password in the URL; a world without a
  session; the same world with a session on context 1 whose registry (incarnation 1, at
  address 0) holds one handle, \<open>4194305\<close>, for the file pointer 10; and an environment
  in which \<^verbatim>\<open>smb2fs_init\<close> succeeds on context 2.
\<close>

definition example_mount :: smb2fs_mount_data where
  "example_mount =
     \<lparr>arg_url = Some \<lparr>url_server = ''nas'', url_path = None, url_password = Some ''pw''\<rparr>,
      arg_password = None, arg_readonly = False, arg_nopasswordreq = False,
      arg_no_handles_rcv = False, arg_reconnect_req = False\<rparr>"

definition no_registries :: "nat \<Rightarrow> PointerHandleRegistry option" where
  "no_registries = (\<lambda>a. None)"

definition unmounted_world :: world where
  "unmounted_world =
     \<lparr>fsd = None, phr_incarnation = 2, cfg_reconnect_req = False, cfg_handles_rcv = True,
      last_server = ''nas'', md = example_mount, registries = no_registries,
      next_registry = 1, mem_ok = True,
      smb2_get_max_read_size = (\<lambda>c. 65536), smb2_get_max_write_size = (\<lambda>c. 1048576),
      smb2_get_fd = (\<lambda>c. 3), trace = []\<rparr>"

definition example_session :: smb2fs where
  "example_session =
     \<lparr>smb2 = Some 1, phr = 0, rdonly = False, connected = True, rootdir = None\<rparr>"

definition example_registry :: PointerHandleRegistry where
  "example_registry = \<lparr>pointers = [Some 10], capacity = 1024, incarnation = 1, freeHead = []\<rparr>"

definition mounted_world :: world where
  "mounted_world =
     unmounted_world\<lparr>fsd := Some example_session,
                      registries := no_registries(0 \<mapsto> example_registry)\<rparr>"

definition init_succeeds :: init_outcome where
  "init_succeeds =
     \<lparr>io_calloc = True, io_registry = True, io_context = Some 2, io_password = None,
      io_connect = Connect_ok 2, io_strdup = True\<rparr>"

definition init_fails :: init_outcome where
  "init_fails = init_succeeds\<lparr>io_connect := Connect_failed\<rparr>"

subsection \<open>Unfolding the definitions on an example\<close>

lemmas example_defs =
  mounted_world_def unmounted_world_def example_session_def example_registry_def
  example_mount_def init_succeeds_def init_fails_def no_registries_def

lemmas errno_defs = ENOENT_def EIO_def ENOMEM_def ENODEV_def EINVAL_def EROFS_def

lemmas registry_defs =
  resolve_def allocate_handle_def remove_handle_def AllocateHandleForPointer_def
  AllocateNewRegistry_def HandleToPointer_def RemoveHandle_def make_handle_def
  INDEX_BITS_def INCARNATION_BITS_def MAX_INDEX_def GROWSIZE_def drop_bit_eq_div

lemmas session_defs =
  handle_connection_fault_def session_guard_def stream_guard_def smb2fs_init_run_def
  smb2fs_destroy_def recover_stream_def smb2fs_open_def remote_path_def
  normalized_rootdir_def strlcpy_def strlcat_def MAXPATHLEN_def SMB2_STATUS_CANCELLED_def

section \<open>Properties of the operations\<close>

subsection \<open>Recording a call changes the trace only\<close>

lemma fsd_emit [simp]: "fsd (emit evs w) = fsd w"
  by (simp add: emit_def)

lemma cfg_emit [simp]:
  "cfg_reconnect_req (emit evs w) = cfg_reconnect_req w"
  "cfg_handles_rcv (emit evs w) = cfg_handles_rcv w"
  by (simp_all add: emit_def)

lemma registries_emit [simp]: "registries (emit evs w) = registries w"
  by (simp add: emit_def)

lemma library_emit [simp]:
  "smb2_get_max_read_size (emit evs w) = smb2_get_max_read_size w"
  "smb2_get_max_write_size (emit evs w) = smb2_get_max_write_size w"
  "smb2_get_fd (emit evs w) = smb2_get_fd w"
  by (simp_all add: emit_def)

lemma trace_emit [simp]: "trace (emit evs w) = trace w @ evs"
  by (simp add: emit_def)

lemma resolve_emit [simp]: "resolve (emit evs w) s fh = resolve w s fh"
  by (simp add: resolve_def)

subsection \<open>statfs without a session\<close>

text \<open>The operations that begin with the session guard: all but statfs and relabel.\<close>

fun has_session_guard :: "operation \<Rightarrow> bool" where
  "has_session_guard (Op_statfs path) = False"
| "has_session_guard Op_relabel = False"
| "has_session_guard op = True"

subsection \<open>The operations built on the return-code loop\<close>

text \<open>
  For the operations that consist of the guard, the read-only check, the path and the
  loop: the library function and the path of their remote call under the session
  \<open>s\<close>, and whether they refuse a read-only mount.
\<close>

fun remote_call_of :: "smb2fs \<Rightarrow> operation \<Rightarrow> (remote \<times> string) option" where
  "remote_call_of s (Op_statfs path) =
     Some (Statvfs, remote_path s (if path = [] then ''/'' else path))"
| "remote_call_of s (Op_getattr path) = Some (Stat, remote_path s path)"
| "remote_call_of s (Op_mkdir path) = Some (Mkdir, remote_path s path)"
| "remote_call_of s (Op_truncate path new_size) = Some (Truncate new_size, remote_path s path)"
| "remote_call_of s (Op_unlink path) = Some (Unlink, remote_path s path)"
| "remote_call_of s (Op_readlink path) = Some (Readlink, remote_path s path)"
| "remote_call_of s (Op_rename srcpath dstpath) =
     Some (Rename (remote_path s dstpath), remote_path s srcpath)"
| "remote_call_of s op = None"

fun modifies :: "operation \<Rightarrow> bool" where
  "modifies (Op_mkdir path) = True"
| "modifies (Op_truncate path new_size) = True"
| "modifies (Op_unlink path) = True"
| "modifies (Op_rename srcpath dstpath) = True"
| "modifies op = False"

lemma session_guard_session: "fsd w = Some s \<Longrightarrow> session_guard script w = Some (True, script, w)"
  by (simp add: session_guard_def)

lemma operation_is_retry_loop:
  assumes "fsd w = Some s" "remote_call_of s op = Some (f, p)" "\<not> (modifies op \<and> rdonly s)"
  shows "smb2fs_ops op script w = retry_loop f p script w"
  using assms
  by (cases op)
    (auto simp: smb2fs_statfs_def smb2fs_getattr_def smb2fs_mkdir_def smb2fs_truncate_def
      smb2fs_unlink_def smb2fs_readlink_def smb2fs_rename_def path_operation_def
      session_guard_session)


lemma fault_with_reconnect:
  assumes "fsd w = Some s" "cfg_reconnect_req w"
    and "fst (smb2fs_init_run io
           (emit [Request_reconnect]
              ((emit [Request_error, Destroy_context (smb2 s)] w)\<lparr>fsd := None\<rparr>)))"
  shows "handle_connection_fault (Answer True # Init io # script) w
         = Some (True, script,
             snd (smb2fs_init_run io
               (emit [Request_reconnect]
                  ((emit [Request_error, Destroy_context (smb2 s)] w)\<lparr>fsd := None\<rparr>))))"
proof -
  let ?w2 = "emit [Request_reconnect]
               ((emit [Request_error, Destroy_context (smb2 s)] w)\<lparr>fsd := None\<rparr>)"
  obtain ok w3 where i: "smb2fs_init_run io ?w2 = (ok, w3)"
    by (cases "smb2fs_init_run io ?w2")
  with assms(3) have "ok" by simp
  with assms(1,2) i show ?thesis
    by (simp add: handle_connection_fault_def Let_def emit_def)
qed


subsection \<open>Draining protocol responses during a transfer\<close>

lemma emit_emit [simp]: "emit evs' (emit evs w) = emit (evs @ evs') w"
  by (simp add: emit_def)

lemma drain_polls:
  assumes "fsd w = Some s" "list_all (\<lambda>n. 0 < n) pending" "final \<le> 0"
  shows "drain (map Rc pending @ Rc final # script) w
         = Some (script, emit (replicate (length pending + 1) (Service_call (smb2 s))) w)"
  using assms
proof (induction pending arbitrary: w)
  case Nil
  then show ?case by (simp add: Let_def)
next
  case (Cons n pending)
  from Cons.prems have "fsd (emit [Service_call (smb2 s)] w) = Some s" by simp
  from Cons.IH [OF this] Cons.prems show ?case
    by (simp add: Let_def replicate_append_same)
qed

lemma drain_polled:
  assumes "drain script w = Some (script', w')" "fsd w = Some s"
  shows "\<exists>pending final. script = map Rc pending @ Rc final # script'
           \<and> list_all (\<lambda>n. 0 < n) pending \<and> final \<le> 0
           \<and> w' = emit (replicate (length pending + 1) (Service_call (smb2 s))) w"
  using assms
proof (induction script arbitrary: w)
  case Nil
  then show ?case by simp
next
  case (Cons x script)
  from Cons.prems obtain serv where x: "x = Rc serv" by (cases x) simp_all
  let ?w1 = "emit [Service_call (smb2 s)] w"
  show ?case
  proof (cases "0 < serv")
    case False
    with Cons.prems x have "script' = script" "w' = ?w1" by (simp_all add: Let_def)
    with x False have "x # script = map Rc [] @ Rc serv # script'
           \<and> list_all (\<lambda>n. 0 < n) [] \<and> serv \<le> 0
           \<and> w' = emit (replicate (length ([] :: int list) + 1) (Service_call (smb2 s))) w"
      by simp
    then show ?thesis by blast
  next
    case True
    with Cons.prems x have d: "drain script ?w1 = Some (script', w')" by (simp add: Let_def)
    from Cons.prems have "fsd ?w1 = Some s" by simp
    from Cons.IH [OF d this] obtain pending final where
      p: "script = map Rc pending @ Rc final # script'" "list_all (\<lambda>n. 0 < n) pending"
        "final \<le> 0" "w' = emit (replicate (length pending + 1) (Service_call (smb2 s))) ?w1"
      by blast
    with x True have "x # script = map Rc (serv # pending) @ Rc final # script'
           \<and> list_all (\<lambda>n. 0 < n) (serv # pending) \<and> final \<le> 0
           \<and> w' = emit (replicate (length (serv # pending) + 1) (Service_call (smb2 s))) w"
      by (simp add: replicate_append_same)
    then show ?thesis by blast
  qed
qed

definition threshold_reached :: "transfer \<Rightarrow> int \<Rightarrow> bool" where
  "threshold_reached st rc \<longleftrightarrow>
     4 \<le> service_counter st + 1 \<or> 262144 \<le> bytes_since_service st + nat rc"

lemma service_batch_below:
  assumes "\<not> threshold_reached st rc"
  shows "service_batch rc st script w
         = Some (st\<lparr>service_counter := service_counter st + 1,
                    bytes_since_service := bytes_since_service st + nat rc\<rparr>, script, w)"
  using assms by (simp add: service_batch_def threshold_reached_def Let_def)

lemma service_batch_reached:
  assumes "threshold_reached st rc" "fsd w = Some s"
    "list_all (\<lambda>n. 0 < n) pending" "final \<le> 0"
  shows "service_batch rc st (map Rc pending @ Rc final # Time current_time # script) w
         = Some (st\<lparr>service_counter := 0, bytes_since_service := 0,
                    last_echo := (if 20 \<le> current_time - last_echo st then current_time
                                  else last_echo st)\<rparr>,
                 script,
                 emit (replicate (length pending + 1) (Service_call (smb2 s))
                       @ (if 20 \<le> current_time - last_echo st then [Echo_call (smb2 s)] else []))
                   w)"
  using assms drain_polls [OF assms(2,3,4), of "Time current_time # script"]
  by (simp add: service_batch_def threshold_reached_def Let_def)

lemma service_batch_result:
  assumes "service_batch rc st script w = Some (st', script', w')" "fsd w = Some s"
  shows "if threshold_reached st rc
         then service_counter st' = 0 \<and> bytes_since_service st' = 0
              \<and> (\<exists>pending final current_time.
                    script = map Rc pending @ Rc final # Time current_time # script'
                    \<and> list_all (\<lambda>n. 0 < n) pending \<and> final \<le> 0
                    \<and> w' = emit (replicate (length pending + 1) (Service_call (smb2 s))
                                   @ (if 20 \<le> current_time - last_echo st
                                      then [Echo_call (smb2 s)] else [])) w)
         else service_counter st' = service_counter st + 1
              \<and> bytes_since_service st' = bytes_since_service st + nat rc
              \<and> script' = script \<and> w' = w"
proof (cases "threshold_reached st rc")
  case False
  with assms service_batch_below [OF False, of script w] show ?thesis by auto
next
  case True
  with assms(1) obtain script1 w1 where d: "drain script w = Some (script1, w1)"
    by (auto simp: service_batch_def threshold_reached_def Let_def split: option.splits)
  from drain_polled [OF d assms(2)] obtain pending final where
    p: "script = map Rc pending @ Rc final # script1" "list_all (\<lambda>n. 0 < n) pending"
      "final \<le> 0" "w1 = emit (replicate (length pending + 1) (Service_call (smb2 s))) w"
    by blast
  from assms(1) True d obtain current_time where t: "script1 = Time current_time # script'"
    by (auto simp: service_batch_def threshold_reached_def Let_def
        split: option.splits list.splits response.splits if_splits)
  from service_batch_reached [OF True assms(2) p(2,3), of current_time script'] assms(1) p(1) t
  have "st' = st\<lparr>service_counter := 0, bytes_since_service := 0,
                    last_echo := (if 20 \<le> current_time - last_echo st then current_time
                                  else last_echo st)\<rparr>"
    and "w' = emit (replicate (length pending + 1) (Service_call (smb2 s))
                       @ (if 20 \<le> current_time - last_echo st then [Echo_call (smb2 s)] else []))
                   w"
    by simp_all
  with True p t show ?thesis by auto
qed

subsection \<open>Stream operations without handle recovery\<close>






lemma stream_guard_session:
  "fsd w = Some s \<Longrightarrow> stream_guard path fh script w = Some (None, fh, script, w)"
  by (simp add: stream_guard_def)

subsection \<open>The adaptive chunk size of a write\<close>

lemma service_batch_keeps_chunk:
  "service_batch rc st script w = Some (st', script', w')
   \<Longrightarrow> chunk_size st' = chunk_size st \<and> success_count st' = success_count st
       \<and> last_rc st' = last_rc st \<and> fi_fh st' = fi_fh st \<and> size_left st' = size_left st"
  by (auto simp: service_batch_def Let_def
      split: if_splits option.splits list.splits response.splits)

lemma advance_keeps_chunk [simp]:
  "chunk_size (advance rc st) = chunk_size st" "success_count (advance rc st) = success_count st"
  "service_counter (advance rc st) = service_counter st"
  "bytes_since_service (advance rc st) = bytes_since_service st"
  by (simp_all add: advance_def)

lemma grow_chunk_fields:
  "chunk_size (grow_chunk mw st)
   = (if success_count st + 1 < 4 then chunk_size st else min (2 * chunk_size st) mw)"
  "success_count (grow_chunk mw st) = (if success_count st + 1 < 4 then success_count st + 1 else 0)"
  "service_counter (grow_chunk mw st) = service_counter st"
  "bytes_since_service (grow_chunk mw st) = bytes_since_service st"
  by (auto simp: grow_chunk_def Let_def min_def)

lemma write_round_success:
  assumes "write_round p fh mw st rc script w = Some (x, st', script', w')" "0 < rc"
  shows "x = None
       \<and> chunk_size st'
           = (if success_count st + 1 < 4 then chunk_size st else min (2 * chunk_size st) mw)
       \<and> success_count st' = (if success_count st + 1 < 4 then success_count st + 1 else 0)"
proof -
  from assms obtain s where s: "fsd w = Some s"
    by (auto simp: write_round_def split: option.splits)
  let ?w1 = "emit [Write_call (smb2 s) fh (buffer_ref st) (min (size_left st) (chunk_size st))] w"
  from assms s obtain st2 where
    b: "service_batch rc (st\<lparr>last_rc := rc\<rparr>) script ?w1 = Some (st2, script', w')"
    and r: "x = None" "st' = advance rc (grow_chunk mw st2)"
    by (auto simp: write_round_def Let_def split: option.splits if_splits)
  from service_batch_keeps_chunk [OF b] r show ?thesis
    by (simp add: grow_chunk_fields)
qed

lemma write_round_failure:
  assumes "write_round p fh mw st rc script w = Some (x, st', script', w')" "rc \<le> 0"
  shows "chunk_size st' = chunk_size st \<and> success_count st' = success_count st"
  using assms
  by (auto simp: write_round_def Let_def split: option.splits if_splits prod.splits sum.splits)

text \<open>
  C7: a write starts with a chunk of 65536 bytes capped by the negotiated maximum and a
  success count of 0. A round whose \<^verbatim>\<open>smb2_write\<close> returns a positive count goes on to
  the next round, adds one to the success count and, when the count reaches 4, doubles
  the chunk (capped by the maximum) and resets the count. A round that fails or writes
  nothing leaves both as they are, whether the write goes on or returns. So four
  successful rounds in a row, starting from a count of 0, end with the chunk
  doubled and the count back at 0, and from 65536 with a maximum of at least 131072
  the chunk becomes 131072.
\<close>

theorem adaptive_chunk_size:
  "chunk_size (start_write mw current_time st0) = min 65536 mw
   \<and> success_count (start_write mw current_time st0) = 0
   \<and> (write_round p fh mw st rc script w = Some (x, st', script', w') \<longrightarrow>
        (0 < rc \<longrightarrow>
           x = None
           \<and> chunk_size st'
               = (if success_count st + 1 < 4 then chunk_size st else min (2 * chunk_size st) mw)
           \<and> success_count st' = (if success_count st + 1 < 4 then success_count st + 1 else 0))
        \<and> (rc \<le> 0 \<longrightarrow> chunk_size st' = chunk_size st \<and> success_count st' = success_count st))
   \<and> (success_count st = 0 \<and> 0 < rc1 \<and> 0 < rc2 \<and> 0 < rc3 \<and> 0 < rc4
       \<and> write_round p fh mw st rc1 script1 w1 = Some (x1, st1, script1', w1')
       \<and> write_round p fh mw st1 rc2 script2 w2 = Some (x2, st2, script2', w2')
       \<and> write_round p fh mw st2 rc3 script3 w3 = Some (x3, st3, script3', w3')
       \<and> write_round p fh mw st3 rc4 script4 w4 = Some (x4, st4, script4', w4') \<longrightarrow>
         chunk_size st3 = chunk_size st
         \<and> chunk_size st4 = min (2 * chunk_size st) mw \<and> success_count st4 = 0
         \<and> (chunk_size st = 65536 \<and> 131072 \<le> mw \<longrightarrow> chunk_size st4 = 131072))"
proof -
  have a: "chunk_size (start_write mw current_time st0) = min 65536 mw
   \<and> success_count (start_write mw current_time st0) = 0"
    by (simp add: start_write_def min_def)
  have b: "write_round p fh mw st rc script w = Some (x, st', script', w') \<longrightarrow>
        (0 < rc \<longrightarrow>
           x = None
           \<and> chunk_size st'
               = (if success_count st + 1 < 4 then chunk_size st else min (2 * chunk_size st) mw)
           \<and> success_count st' = (if success_count st + 1 < 4 then success_count st + 1 else 0))
        \<and> (rc \<le> 0 \<longrightarrow> chunk_size st' = chunk_size st \<and> success_count st' = success_count st)"
    using write_round_success [of p fh mw st rc script w x st' script' w']
      write_round_failure [of p fh mw st rc script w x st' script' w']
    by blast
  have c: "chunk_size st3 = chunk_size st
         \<and> chunk_size st4 = min (2 * chunk_size st) mw \<and> success_count st4 = 0
         \<and> (chunk_size st = 65536 \<and> 131072 \<le> mw \<longrightarrow> chunk_size st4 = 131072)"
    if "success_count st = 0" "0 < rc1" "0 < rc2" "0 < rc3" "0 < rc4"
      "write_round p fh mw st rc1 script1 w1 = Some (x1, st1, script1', w1')"
      "write_round p fh mw st1 rc2 script2 w2 = Some (x2, st2, script2', w2')"
      "write_round p fh mw st2 rc3 script3 w3 = Some (x3, st3, script3', w3')"
      "write_round p fh mw st3 rc4 script4 w4 = Some (x4, st4, script4', w4')"
  proof -
    from write_round_success [OF that(6) that(2)] that(1)
    have 1: "chunk_size st1 = chunk_size st" "success_count st1 = 1" by simp_all
    from write_round_success [OF that(7) that(3)] 1
    have 2: "chunk_size st2 = chunk_size st" "success_count st2 = 2" by simp_all
    from write_round_success [OF that(8) that(4)] 2
    have 3: "chunk_size st3 = chunk_size st" "success_count st3 = 3" by simp_all
    from write_round_success [OF that(9) that(5)] 3
    have 4: "chunk_size st4 = min (2 * chunk_size st) mw" "success_count st4 = 0" by simp_all
    from 3 4 show ?thesis by simp
  qed
  from a b c show ?thesis by blast
qed

lemmas stream_defs =
  smb2fs_read_def smb2fs_write_def smb2fs_ftruncate_def read_outer.simps write_outer.simps
  read_loop.simps write_loop.simps read_round_def write_round_def ftruncate_loop.simps
  new_transfer_def start_write_def service_batch_def grow_chunk_def advance_def

text \<open>
  A write of 400000 bytes with a negotiated maximum of 1048576: the states after each of
  the first four rounds, all of which write a full chunk of 65536 bytes.
\<close>

definition written :: "nat \<Rightarrow> nat \<Rightarrow> nat \<Rightarrow> nat \<Rightarrow> transfer" where
  "written units pending chunk successes =
     \<lparr>fi_fh = 4194305, size_left = 400000 - units * 65536, last_rc = 65536,
      result = int (units * 65536), buffer_ref = int (units * 65536),
      service_counter = pending, bytes_since_service = pending * 65536, last_echo = 0,
      chunk_size = chunk, success_count = successes\<rparr>"

theorem adaptive_chunk_size_witness:
  "chunk_size (start_write 1048576 0 (new_transfer 4194305 400000)) = 65536
   \<and> write_round ''/f'' 10 1048576 (written 3 3 65536 3) 65536 [Rc 0, Time 1] mounted_world
      = Some (None, written 4 0 131072 0, [],
          mounted_world\<lparr>trace := [Write_call (Some 1) 10 196608 65536, Service_call (Some 1)]\<rparr>)
   \<and> write_round ''/f'' 10 1048576 (written 4 0 131072 0) (- 1) [] mounted_world
      = Some (Some (Return (- 19)), (written 4 0 131072 0)\<lparr>last_rc := - 1\<rparr>, [],
          mounted_world\<lparr>fsd := None,
            trace := [Write_call (Some 1) 10 262144 131072, Request_error,
                      Destroy_context (Some 1)]\<rparr>)
   \<and> (case smb2fs_write ''/f'' 400000 0 4194305
              [Rc 0, Time 0, Rc 65536, Rc 65536, Rc 65536, Rc 65536, Rc 0, Time 1, Rc 131072,
               Rc 6784, Rc 0] mounted_world of
         None \<Rightarrow> False
       | Some (v, fh, script, w) \<Rightarrow>
           v = 400000 \<and> script = []
           \<and> trace w =
               [Lseek_call (Some 1) 10 0, Write_call (Some 1) 10 0 65536,
                Write_call (Some 1) 10 65536 65536, Write_call (Some 1) 10 131072 65536,
                Write_call (Some 1) 10 196608 65536, Service_call (Some 1),
                Write_call (Some 1) 10 262144 131072, Write_call (Some 1) 10 393216 6784,
                Service_call (Some 1)])"
proof -
  let ?s0 = "start_write 1048576 0 (new_transfer 4194305 400000)"
  have r1: "write_round ''/f'' 10 1048576 ?s0 65536 [] mounted_world
      = Some (None, written 1 1 65536 1, [],
          mounted_world\<lparr>trace := [Write_call (Some 1) 10 0 65536]\<rparr>)"
    and r2: "write_round ''/f'' 10 1048576 (written 1 1 65536 1) 65536 [] mounted_world
      = Some (None, written 2 2 65536 2, [],
          mounted_world\<lparr>trace := [Write_call (Some 1) 10 65536 65536]\<rparr>)"
    and r3: "write_round ''/f'' 10 1048576 (written 2 2 65536 2) 65536 [] mounted_world
      = Some (None, written 3 3 65536 3, [],
          mounted_world\<lparr>trace := [Write_call (Some 1) 10 131072 65536]\<rparr>)"
    and r4: "write_round ''/f'' 10 1048576 (written 3 3 65536 3) 65536 [Rc 0, Time 1] mounted_world
      = Some (None, written 4 0 131072 0, [],
          mounted_world\<lparr>trace := [Write_call (Some 1) 10 196608 65536, Service_call (Some 1)]\<rparr>)"
    and r5: "write_round ''/f'' 10 1048576 (written 4 0 131072 0) (- 1) [] mounted_world
      = Some (Some (Return (- 19)), (written 4 0 131072 0)\<lparr>last_rc := - 1\<rparr>, [],
          mounted_world\<lparr>fsd := None,
            trace := [Write_call (Some 1) 10 262144 131072, Request_error,
                      Destroy_context (Some 1)]\<rparr>)"
    by (simp_all add: written_def stream_defs example_defs errno_defs session_defs emit_def
        Let_def)
  have run: "(case smb2fs_write ''/f'' 400000 0 4194305
              [Rc 0, Time 0, Rc 65536, Rc 65536, Rc 65536, Rc 65536, Rc 0, Time 1, Rc 131072,
               Rc 6784, Rc 0] mounted_world of
         None \<Rightarrow> False
       | Some (v, fh, script, w) \<Rightarrow>
           v = 400000 \<and> script = []
           \<and> trace w =
               [Lseek_call (Some 1) 10 0, Write_call (Some 1) 10 0 65536,
                Write_call (Some 1) 10 65536 65536, Write_call (Some 1) 10 131072 65536,
                Write_call (Some 1) 10 196608 65536, Service_call (Some 1),
                Write_call (Some 1) 10 262144 131072, Write_call (Some 1) 10 393216 6784,
                Service_call (Some 1)])"
    by (simp add: stream_defs example_defs errno_defs registry_defs session_defs emit_def
        Let_def)
  have z: "success_count ?s0 = 0" "chunk_size ?s0 = 65536"
    by (simp_all add: start_write_def new_transfer_def)
  from adaptive_chunk_size [where p = "''/f''" and fh = 10 and current_time = 0
      and ?st0.0 = "new_transfer 4194305 400000" and mw = 1048576 and st = ?s0
      and ?rc1.0 = 65536 and ?rc2.0 = 65536 and ?rc3.0 = 65536 and ?rc4.0 = 65536
      and ?st1.0 = "written 1 1 65536 1" and ?st2.0 = "written 2 2 65536 2"
      and ?st3.0 = "written 3 3 65536 3" and ?st4.0 = "written 4 0 131072 0"
      and ?script1.0 = "[]" and ?w1.0 = mounted_world
      and ?script2.0 = "[]" and ?w2.0 = mounted_world
      and ?script3.0 = "[]" and ?w3.0 = mounted_world
      and ?script4.0 = "[Rc 0, Time 1]" and ?w4.0 = mounted_world] z r1 r2 r3 r4
  have "chunk_size ?s0 = 65536 \<and> chunk_size (written 4 0 131072 0) = 131072" by simp
  with r4 r5 run show ?thesis by simp
qed

subsection \<open>The rounds of the transfer loops\<close>

lemma emit_nothing [simp]: "emit [] w = w"
  by (simp add: emit_def)





lemma service_batch_world:
  assumes "service_batch rc st script w = Some (st', script', w')" "fsd w = Some s"
  shows "\<exists>evs. w' = emit evs w"
proof (cases "threshold_reached st rc")
  case True
  with service_batch_result [OF assms] show ?thesis by auto
next
  case False
  with service_batch_result [OF assms] have "w' = emit [] w" by simp
  then show ?thesis by blast
qed








subsection \<open>The session guard\<close>

text \<open>
  A run of \<^verbatim>\<open>smb2fs_init\<close> that returns a non-null pointer leaves a session behind,
  with a new and empty registry that resolves no handle; a run that returns \<^verbatim>\<open>NULL\<close>
  leaves none.
\<close>

lemma smb2fs_destroy_session: "fsd (smb2fs_destroy w) = None"
  by (simp add: smb2fs_destroy_def Let_def split: option.splits)

lemma smb2fs_init_failed:
  "smb2fs_init_run io w = (False, w') \<Longrightarrow> fsd w' = None"
  by (auto simp: smb2fs_init_run_def Let_def smb2fs_destroy_session emit_def
      split: option.splits connect_outcome.splits if_splits)

lemma HandleToPointer_new: "HandleToPointer (AllocateNewRegistry inc) handle = None"
  by (simp add: HandleToPointer_def AllocateNewRegistry_def Let_def)

lemma smb2fs_init_fresh:
  assumes "smb2fs_init_run io w = (True, w')"
  shows "\<exists>s. fsd w' = Some s \<and> rdonly s = arg_readonly (md w)
             \<and> registries w' (phr s) = Some (AllocateNewRegistry (phr_incarnation w))"
  using assms
  by (auto simp: smb2fs_init_run_def Let_def emit_def
      split: option.splits connect_outcome.splits if_splits)

lemma session_guard_failed:
  assumes "session_guard script w = Some (False, script', w')"
  shows "fsd w = None \<and> fsd w' = None"
proof -
  from assms have n: "fsd w = None" by (auto simp: session_guard_def split: if_splits)
  have i: "fsd w2 = None" if "smb2fs_init sc w1 = Some (False, script', w2)" for sc w1 w2
    using that
    by (cases "(sc, w1)" rule: smb2fs_init.cases)
      (auto split: prod.splits dest: smb2fs_init_failed)
  from assms n have "fsd w' = None"
    by (auto simp: session_guard_def Let_def
        split: if_splits list.splits response.splits dest: i)
  with n show ?thesis by simp
qed

lemma session_guard_fresh:
  assumes "session_guard script w = Some (True, script', w')" "fsd w = None"
  shows "\<exists>s. fsd w' = Some s \<and> (\<forall>fh. resolve w' s fh = Some None)"
proof -
  have i: "\<exists>s. fsd w2 = Some s \<and> (\<forall>fh. resolve w2 s fh = Some None)"
    if "smb2fs_init sc w1 = Some (True, script', w2)" for sc w1 w2
  proof -
    from that obtain io where "smb2fs_init_run io w1 = (True, w2)"
      by (cases "(sc, w1)" rule: smb2fs_init.cases) (auto split: prod.splits)
    from smb2fs_init_fresh [OF this] show ?thesis
      by (auto simp: resolve_def HandleToPointer_new)
  qed
  from assms show ?thesis
    by (auto simp: session_guard_def Let_def
        split: if_splits list.splits response.splits dest: i)
qed

lemmas operation_defs =
  smb2fs_getattr_def smb2fs_mkdir_def smb2fs_truncate_def smb2fs_unlink_def
  smb2fs_readlink_def path_operation_def smb2fs_rename_def smb2fs_utimens_def
  smb2fs_fgetattr_def smb2fs_opendir_def smb2fs_releasedir_def smb2fs_release_def
  release_handle_def smb2fs_readdir_def smb2fs_rmdir_def smb2fs_open_def smb2fs_create_def
  smb2fs_read_def smb2fs_write_def smb2fs_ftruncate_def stream_guard_def return_value_def

lemma guarded_operation_refused:
  assumes "has_session_guard op" "session_guard script w = Some (False, script', w')"
  shows "smb2fs_ops op script w = Some (- ENODEV, script', w')"
proof -
  from session_guard_failed [OF assms(2)] have n: "fsd w = None" by simp
  from assms(1) show ?thesis
    by (cases op) (simp_all add: assms(2) n operation_defs)
qed

lemma guarded_operation_proceeds:
  assumes "has_session_guard op" "session_guard script w = Some (True, script', w')"
    "fsd w = None" "\<not> (reopens op \<and> cfg_handles_rcv w')"
  shows "smb2fs_ops op script w = smb2fs_ops op script' w'"
proof -
  from session_guard_fresh [OF assms(2,3)] obtain s where s: "fsd w' = Some s" by blast
  then have g: "session_guard script' w' = Some (True, script', w')"
    by (simp add: session_guard_def)
  from assms(1,4) show ?thesis
    by (cases op) (simp_all add: assms(2,3) g s operation_defs)
qed

lemma allocate_handle_session:
  "allocate_handle ptr w = Some (handle, w') \<Longrightarrow> fsd w' = fsd w \<and> fsd w \<noteq> None"
  by (auto simp: allocate_handle_def split: option.splits prod.splits)

lemma open_loop_session:
  "open_loop path flags fh script w = Some (rc, fh', script', w') \<Longrightarrow> 0 \<le> rc
   \<Longrightarrow> fsd w' \<noteq> None"
proof (induction "length script" arbitrary: flags script w rule: less_induct)
  case less
  from less.prems(1) obtain smb2fh r2 rest where sc: "script = Opened smb2fh r2 # rest"
    by (cases "(path, flags, fh, script, w)" rule: open_loop.cases) simp_all
  from less.prems(1) sc obtain s where s: "fsd w = Some s" by (auto split: option.splits)
  define w1 where "w1 = emit [Open_call (smb2 s) path flags] w"
  show ?case
  proof (cases "r2 = - 1 \<or> r2 = SMB2_STATUS_CANCELLED")
    case True
    with less.prems(1) sc s obtain recovered script1 w2 where
      h: "handle_connection_fault rest w1 = Some (recovered, script1, w2)"
      by (auto simp: w1_def Let_def split: option.splits)
    from handle_connection_fault_script [OF h] sc have l: "length script1 < length script"
      by simp
    show ?thesis
    proof (cases recovered)
      case False
      with less.prems sc s True h show ?thesis by (auto simp: w1_def Let_def ENODEV_def)
    next
      case rec: True
      with less.prems(1) sc s True h
      have "open_loop path flags fh script1 w2 = Some (rc, fh', script', w')"
        by (auto simp: w1_def Let_def)
      from less.hyps [OF l this less.prems(2)] show ?thesis .
    qed
  next
    case False
    show ?thesis
    proof (cases smb2fh)
      case (Some ptr)
      with less.prems(1) sc s False obtain handle where
        "allocate_handle ptr w1 = Some (handle, w')"
        by (auto simp: w1_def Let_def split: option.splits)
      from allocate_handle_session [OF this] show ?thesis by simp
    next
      case None
      show ?thesis
      proof (cases "flags = O_RDWR")
        case True
        with less.prems(1) sc s False None
        have "open_loop path O_RDONLY fh rest w1 = Some (rc, fh', script', w')"
          by (auto simp: w1_def Let_def)
        from less.hyps [OF _ this less.prems(2)] sc show ?thesis by simp
      next
        case f: False
        with less.prems sc s False None show ?thesis by (auto simp: Let_def ENOENT_def)
      qed
    qed
  qed
qed

lemma smb2fs_open_session:
  assumes "smb2fs_open path fh script w = Some (rc, fh', script', w')" "0 \<le> rc"
  shows "fsd w' \<noteq> None"
proof -
  from assms obtain script1 w1 s where
    "open_loop (remote_path s path) (if rdonly s then O_RDONLY else O_RDWR) fh script1 w1
     = Some (rc, fh', script', w')"
    by (auto simp: smb2fs_open_def ENODEV_def split: option.splits if_splits)
  from open_loop_session [OF this assms(2)] show ?thesis .
qed

text \<open>
  With handle recovery on, the guard of a read, a write or an ftruncate that has built a
  session re-opens the file; a failure returns \<^verbatim>\<open>-EIO\<close>, and otherwise the operation
  goes on with the handle that \<^verbatim>\<open>smb2fs_open\<close> stored.
\<close>

lemma reopening_operation:
  assumes "session_guard script w = Some (True, script1, w1)" "fsd w = None"
    "cfg_handles_rcv w1" "smb2fs_open path fh script1 w1 = Some (rc_open, fh', script2, w2)"
  shows "smb2fs_ops (Op_read path size_arg offset fh) script w
         = (if rc_open < 0 then Some (- EIO, script2, w2)
            else smb2fs_ops (Op_read path size_arg offset fh') script2 w2)"
    and "smb2fs_ops (Op_write path size_arg offset fh) script w
         = (if rc_open < 0 then Some (- EIO, script2, w2)
            else smb2fs_ops (Op_write path size_arg offset fh') script2 w2)"
    and "smb2fs_ops (Op_ftruncate path new_size fh) script w
         = (if rc_open < 0 then Some (- EIO, script2, w2)
            else smb2fs_ops (Op_ftruncate path new_size fh') script2 w2)"
proof -
  have g: "stream_guard path fh script w
           = (if rc_open < 0 then Some (Some (- EIO), fh', script2, w2)
              else Some (None, fh', script2, w2))"
    using assms by (simp add: stream_guard_def)
  have k: "stream_guard path fh' script2 w2 = Some (None, fh', script2, w2)" if "0 \<le> rc_open"
    using smb2fs_open_session [OF assms(4) that] by (simp add: stream_guard_def)
  show "smb2fs_ops (Op_read path size_arg offset fh) script w
         = (if rc_open < 0 then Some (- EIO, script2, w2)
            else smb2fs_ops (Op_read path size_arg offset fh') script2 w2)"
    using g k by (simp add: smb2fs_read_def return_value_def)
  show "smb2fs_ops (Op_write path size_arg offset fh) script w
         = (if rc_open < 0 then Some (- EIO, script2, w2)
            else smb2fs_ops (Op_write path size_arg offset fh') script2 w2)"
    using g k by (simp add: smb2fs_write_def return_value_def)
  show "smb2fs_ops (Op_ftruncate path new_size fh) script w
         = (if rc_open < 0 then Some (- EIO, script2, w2)
            else smb2fs_ops (Op_ftruncate path new_size fh') script2 w2)"
    using g k by (simp add: smb2fs_ftruncate_def return_value_def)
qed

text \<open>The guard without a session, written out.\<close>

lemma session_guard_prompt:
  assumes "fsd w = None" "cfg_reconnect_req w"
  shows "session_guard (Answer False # script) w = Some (False, script, emit [Request_reconnect] w)"
    and "session_guard (Answer True # Init io # script) w
         = Some (fst (smb2fs_init_run io (emit [Request_reconnect] w)), script,
             snd (smb2fs_init_run io (emit [Request_reconnect] w)))"
  using assms by (simp_all add: session_guard_def Let_def split: prod.splits)

subsection \<open>statfs and the session\<close>

lemma statfs_no_session:
  "fsd w = None \<longrightarrow> smb2fs_ops (Op_statfs path) script w = Some (- ENODEV, script, w)"
  by (simp add: smb2fs_statfs_def)

lemma session_guard_connects:
  assumes "fsd w = None"
  shows "session_guard ((if cfg_reconnect_req w then [Answer True] else []) @ Init io # script) w
         = Some (fst (smb2fs_init_run io
                        (if cfg_reconnect_req w then emit [Request_reconnect] w else w)),
                 script,
                 snd (smb2fs_init_run io
                        (if cfg_reconnect_req w then emit [Request_reconnect] w else w)))"
  using assms by (simp add: session_guard_def Let_def split: prod.splits)

lemma guarded_operation_declined:
  "fsd w = None \<and> has_session_guard op \<and> cfg_reconnect_req w \<longrightarrow>
     smb2fs_ops op (Answer False # script) w
     = Some (- ENODEV, script, emit [Request_reconnect] w)"
  using guarded_operation_refused [of op "Answer False # script" w script
      "emit [Request_reconnect] w"]
    session_guard_prompt(1) [of w script]
  by simp

lemma guarded_operation_connection_fails:
  "fsd w = None \<and> has_session_guard op
   \<and> smb2fs_init_run io (if cfg_reconnect_req w then emit [Request_reconnect] w else w)
      = (False, w') \<longrightarrow>
     smb2fs_ops op ((if cfg_reconnect_req w then [Answer True] else []) @ Init io # script) w
     = Some (- ENODEV, script, w')"
  using guarded_operation_refused [of op
      "(if cfg_reconnect_req w then [Answer True] else []) @ Init io # script" w script w']
    session_guard_connects [of w io script]
  by auto

lemma guarded_operation_connects:
  "fsd w = None \<and> has_session_guard op
   \<and> smb2fs_init_run io (if cfg_reconnect_req w then emit [Request_reconnect] w else w)
      = (True, w')
   \<and> \<not> (reopens op \<and> cfg_handles_rcv w') \<longrightarrow>
     smb2fs_ops op ((if cfg_reconnect_req w then [Answer True] else []) @ Init io # script) w
     = smb2fs_ops op script w'"
  using guarded_operation_proceeds [of op
      "(if cfg_reconnect_req w then [Answer True] else []) @ Init io # script" w script w']
    session_guard_connects [of w io script]
  by auto

lemma stream_operation_connects:
  "fsd w = None
   \<and> smb2fs_init_run io (if cfg_reconnect_req w then emit [Request_reconnect] w else w)
      = (True, w')
   \<and> cfg_handles_rcv w' \<and> smb2fs_open path fh script w' = Some (rc_open, fh', script2, w2) \<longrightarrow>
     smb2fs_ops (Op_read path size_arg offset fh)
       ((if cfg_reconnect_req w then [Answer True] else []) @ Init io # script) w
     = (if rc_open < 0 then Some (- EIO, script2, w2)
        else smb2fs_ops (Op_read path size_arg offset fh') script2 w2)
     \<and> smb2fs_ops (Op_write path size_arg offset fh)
         ((if cfg_reconnect_req w then [Answer True] else []) @ Init io # script) w
       = (if rc_open < 0 then Some (- EIO, script2, w2)
          else smb2fs_ops (Op_write path size_arg offset fh') script2 w2)
     \<and> smb2fs_ops (Op_ftruncate path new_size fh)
         ((if cfg_reconnect_req w then [Answer True] else []) @ Init io # script) w
       = (if rc_open < 0 then Some (- EIO, script2, w2)
          else smb2fs_ops (Op_ftruncate path new_size fh') script2 w2)"
proof (intro impI, elim conjE)
  let ?sc = "(if cfg_reconnect_req w then [Answer True] else []) @ Init io # script"
  assume a: "fsd w = None"
    "smb2fs_init_run io (if cfg_reconnect_req w then emit [Request_reconnect] w else w)
     = (True, w')"
    "cfg_handles_rcv w'" "smb2fs_open path fh script w' = Some (rc_open, fh', script2, w2)"
  from session_guard_connects [OF a(1), of io script] a(2)
  have g: "session_guard ?sc w = Some (True, script, w')" by simp
  from reopening_operation [OF g a(1,3,4)]
  show "smb2fs_ops (Op_read path size_arg offset fh) ?sc w
     = (if rc_open < 0 then Some (- EIO, script2, w2)
        else smb2fs_ops (Op_read path size_arg offset fh') script2 w2)
     \<and> smb2fs_ops (Op_write path size_arg offset fh) ?sc w
       = (if rc_open < 0 then Some (- EIO, script2, w2)
          else smb2fs_ops (Op_write path size_arg offset fh') script2 w2)
     \<and> smb2fs_ops (Op_ftruncate path new_size fh) ?sc w
       = (if rc_open < 0 then Some (- EIO, script2, w2)
          else smb2fs_ops (Op_ftruncate path new_size fh') script2 w2)"
    by blast
qed

lemma statfs_fault_declined:
  "fsd w = Some s \<and> cfg_reconnect_req w \<longrightarrow>
     smb2fs_ops (Op_statfs path) (Rc (- 1) # Answer False # script) w
     = Some (- ENODEV, script,
         emit [Request_reconnect]
           (fault_teardown s
              (emit [Remote_call (smb2 s) Statvfs
                       (remote_path s (if path = [] then ''/'' else path))] w)))"
  by (simp add: smb2fs_statfs_def handle_connection_fault_def fault_teardown_def emit_def
      Let_def)

lemma statfs_fault_reconnects:
  "fsd w = Some s \<and> cfg_reconnect_req w
   \<and> smb2fs_init_run io
        (emit [Request_reconnect]
           (fault_teardown s
              (emit [Remote_call (smb2 s) Statvfs
                       (remote_path s (if path = [] then ''/'' else path))] w)))
      = (True, w') \<longrightarrow>
     smb2fs_ops (Op_statfs path) (Rc (- 1) # Answer True # Init io # script) w
     = retry_loop Statvfs (remote_path s (if path = [] then ''/'' else path)) script w'"
  by (simp add: smb2fs_statfs_def handle_connection_fault_def fault_teardown_def emit_def
      Let_def)

text \<open>
  C10, as amended. Whenever no session exists, statfs returns \<^verbatim>\<open>-ENODEV\<close> at once: it
  takes no answer from the environment (no prompt, no run of \<^verbatim>\<open>smb2fs_init\<close>) and
  leaves the world as it is, whatever \<^verbatim>\<open>cfg_reconnect_req\<close> says. Every operation
  that begins with the session guard (all others but relabel) differs. With reconnection
  enabled it first asks the user; a refusal returns \<^verbatim>\<open>-ENODEV\<close>. After a consent, or
  at once with reconnection disabled, it runs \<^verbatim>\<open>smb2fs_init\<close>: a failure returns
  \<^verbatim>\<open>-ENODEV\<close>, and after a success the operation goes on in the new session, a read,
  write or ftruncate with handle recovery on after re-opening its file. It is not so
  that statfs never reconnects: when a session exists and \<^verbatim>\<open>smb2_statvfs\<close> reports a
  transport fault, statfs goes through \<^verbatim>\<open>handle_connection_fault\<close>, which with
  reconnection enabled asks the user and, after a consent, runs \<^verbatim>\<open>smb2fs_init\<close>;
  statfs then repeats its call in the new session.
\<close>

theorem statfs_without_session:
  "(fsd w = None \<longrightarrow> smb2fs_ops (Op_statfs path) script w = Some (- ENODEV, script, w))
   \<and> (fsd w = None \<and> has_session_guard op \<and> cfg_reconnect_req w \<longrightarrow>
        smb2fs_ops op (Answer False # script) w
        = Some (- ENODEV, script, emit [Request_reconnect] w))
   \<and> (fsd w = None \<and> has_session_guard op
      \<and> smb2fs_init_run io (if cfg_reconnect_req w then emit [Request_reconnect] w else w)
         = (False, w') \<longrightarrow>
        smb2fs_ops op ((if cfg_reconnect_req w then [Answer True] else []) @ Init io # script) w
        = Some (- ENODEV, script, w'))
   \<and> (fsd w = None \<and> has_session_guard op
      \<and> smb2fs_init_run io (if cfg_reconnect_req w then emit [Request_reconnect] w else w)
         = (True, w')
      \<and> \<not> (reopens op \<and> cfg_handles_rcv w') \<longrightarrow>
        smb2fs_ops op ((if cfg_reconnect_req w then [Answer True] else []) @ Init io # script) w
        = smb2fs_ops op script w')
   \<and> (fsd w = None
      \<and> smb2fs_init_run io (if cfg_reconnect_req w then emit [Request_reconnect] w else w)
         = (True, w')
      \<and> cfg_handles_rcv w'
      \<and> smb2fs_open path fh script w' = Some (rc_open, fh', script2, w2) \<longrightarrow>
        smb2fs_ops (Op_read path size_arg offset fh)
          ((if cfg_reconnect_req w then [Answer True] else []) @ Init io # script) w
        = (if rc_open < 0 then Some (- EIO, script2, w2)
           else smb2fs_ops (Op_read path size_arg offset fh') script2 w2)
        \<and> smb2fs_ops (Op_write path size_arg offset fh)
            ((if cfg_reconnect_req w then [Answer True] else []) @ Init io # script) w
          = (if rc_open < 0 then Some (- EIO, script2, w2)
             else smb2fs_ops (Op_write path size_arg offset fh') script2 w2)
        \<and> smb2fs_ops (Op_ftruncate path new_size fh)
            ((if cfg_reconnect_req w then [Answer True] else []) @ Init io # script) w
          = (if rc_open < 0 then Some (- EIO, script2, w2)
             else smb2fs_ops (Op_ftruncate path new_size fh') script2 w2))
   \<and> (fsd w = Some s \<and> cfg_reconnect_req w \<longrightarrow>
        smb2fs_ops (Op_statfs path) (Rc (- 1) # Answer False # script) w
        = Some (- ENODEV, script,
            emit [Request_reconnect]
              (fault_teardown s
                 (emit [Remote_call (smb2 s) Statvfs
                          (remote_path s (if path = [] then ''/'' else path))] w))))
   \<and> (fsd w = Some s \<and> cfg_reconnect_req w
      \<and> smb2fs_init_run io
           (emit [Request_reconnect]
              (fault_teardown s
                 (emit [Remote_call (smb2 s) Statvfs
                          (remote_path s (if path = [] then ''/'' else path))] w)))
         = (True, w') \<longrightarrow>
        smb2fs_ops (Op_statfs path) (Rc (- 1) # Answer True # Init io # script) w
        = retry_loop Statvfs (remote_path s (if path = [] then ''/'' else path)) script w')"
  by (intro conjI statfs_no_session guarded_operation_declined
      guarded_operation_connection_fails guarded_operation_connects
      stream_operation_connects statfs_fault_declined statfs_fault_reconnects)

text \<open>
  The unmounted example with reconnection enabled: statfs leaves the two answers
  unused; getattr asks and is refused, asks and fails to connect, asks and connects;
  a read connects and re-opens its file under the new handle \<open>8388609\<close>. The mounted
  example with reconnection enabled: statfs after a fault, refused and reconnected.
\<close>

definition reconnecting :: "world \<Rightarrow> world" where
  "reconnecting w = w\<lparr>cfg_reconnect_req := True\<rparr>"

theorem statfs_without_session_witness:
  "fsd (reconnecting unmounted_world) = None
   \<and> smb2fs_ops (Op_statfs ''/'') [Answer True, Init init_succeeds] (reconnecting unmounted_world)
      = Some (- 19, [Answer True, Init init_succeeds], reconnecting unmounted_world)
   \<and> smb2fs_ops (Op_getattr ''/a'') [Answer False] (reconnecting unmounted_world)
      = Some (- 19, [], (reconnecting unmounted_world)\<lparr>trace := [Request_reconnect]\<rparr>)
   \<and> smb2fs_ops (Op_getattr ''/a'') [Answer True, Init init_fails] (reconnecting unmounted_world)
      = Some (- 19, [],
          snd (smb2fs_init_run init_fails
                 (emit [Request_reconnect] (reconnecting unmounted_world))))
   \<and> smb2fs_ops (Op_getattr ''/a'') [Answer True, Init init_succeeds, Rc 0]
        (reconnecting unmounted_world)
      = smb2fs_ops (Op_getattr ''/a'') [Rc 0]
          (snd (smb2fs_init_run init_succeeds
                  (emit [Request_reconnect] (reconnecting unmounted_world))))
   \<and> (\<exists>w2. smb2fs_open ''/f'' 4194305 [Opened (Some 20) 0, Rc (- 5)]
              (snd (smb2fs_init_run init_succeeds
                      (emit [Request_reconnect] (reconnecting unmounted_world))))
            = Some (0, 8388609, [Rc (- 5)], w2)
          \<and> smb2fs_ops (Op_read ''/f'' 5 0 4194305)
               [Answer True, Init init_succeeds, Opened (Some 20) 0, Rc (- 5)]
               (reconnecting unmounted_world)
             = smb2fs_ops (Op_read ''/f'' 5 0 8388609) [Rc (- 5)] w2)
   \<and> smb2fs_ops (Op_statfs ''/'') [Rc (- 1), Answer False] (reconnecting mounted_world)
      = Some (- 19, [],
          (reconnecting mounted_world)
            \<lparr>fsd := None,
             trace := [Remote_call (Some 1) Statvfs [], Request_error,
                       Destroy_context (Some 1), Request_reconnect]\<rparr>)
   \<and> smb2fs_ops (Op_statfs ''/'') [Rc (- 1), Answer True, Init init_succeeds, Rc 0]
        (reconnecting mounted_world)
      = retry_loop Statvfs [] [Rc 0]
          (snd (smb2fs_init_run init_succeeds
                  (emit [Request_reconnect]
                     (fault_teardown example_session
                        (emit [Remote_call (Some 1) Statvfs []] (reconnecting mounted_world))))))"
proof -
  let ?u = "reconnecting unmounted_world"
  let ?m = "reconnecting mounted_world"
  let ?s = example_session
  let ?asked = "emit [Request_reconnect] ?u"
  let ?torn = "emit [Request_reconnect]
                 (fault_teardown ?s
                    (emit [Remote_call (smb2 ?s) Statvfs
                             (remote_path ?s (if ''/'' = [] then ''/'' else ''/''))] ?m))"
  have u: "fsd ?u = None" "cfg_reconnect_req ?u"
    "(if cfg_reconnect_req ?u then emit [Request_reconnect] ?u else ?u) = ?asked"
    "(if cfg_reconnect_req ?u then [Answer True] else []) = [Answer True]"
    by (simp_all add: reconnecting_def unmounted_world_def)
  have m: "fsd ?m = Some ?s" "cfg_reconnect_req ?m"
    by (simp_all add: reconnecting_def mounted_world_def)
  have h: "has_session_guard (Op_getattr ''/a'')" "\<not> reopens (Op_getattr ''/a'')" by simp_all
  have nf: "\<not> fst (smb2fs_init_run init_fails ?asked)" "fst (smb2fs_init_run init_succeeds ?asked)"
    "cfg_handles_rcv (snd (smb2fs_init_run init_succeeds ?asked))"
    "fst (smb2fs_init_run init_succeeds ?torn)"
    by (simp_all add: smb2fs_init_run_def reconnecting_def fault_teardown_def example_defs
        emit_def Let_def normalized_rootdir_def)
  have ff: "smb2fs_init_run init_fails ?asked = (False, snd (smb2fs_init_run init_fails ?asked))"
    "smb2fs_init_run init_succeeds ?asked = (True, snd (smb2fs_init_run init_succeeds ?asked))"
    "smb2fs_init_run init_succeeds ?torn = (True, snd (smb2fs_init_run init_succeeds ?torn))"
    using nf by (simp_all add: prod_eq_iff)
  have "\<exists>w2. smb2fs_open ''/f'' 4194305 [Opened (Some 20) 0, Rc (- 5)]
               (snd (smb2fs_init_run init_succeeds ?asked))
             = Some (0, 8388609, [Rc (- 5)], w2)"
    by (simp add: session_defs reconnecting_def example_defs registry_defs emit_def Let_def)
  then obtain w2 where
    o: "smb2fs_open ''/f'' 4194305 [Opened (Some 20) 0, Rc (- 5)]
          (snd (smb2fs_init_run init_succeeds ?asked))
        = Some (0, 8388609, [Rc (- 5)], w2)"
    by blast
  from statfs_without_session [where w = ?u and path = "''/''"
      and script = "[Answer True, Init init_succeeds]", THEN conjunct1] u(1)
  have 1: "smb2fs_ops (Op_statfs ''/'') [Answer True, Init init_succeeds] ?u
           = Some (- ENODEV, [Answer True, Init init_succeeds], ?u)"
    by blast
  from statfs_without_session [where w = ?u and op = "Op_getattr ''/a''" and script = "[]",
      THEN conjunct2, THEN conjunct1] u(1,2) h
  have 2: "smb2fs_ops (Op_getattr ''/a'') [Answer False] ?u = Some (- ENODEV, [], ?asked)"
    by blast
  from statfs_without_session [where w = ?u and op = "Op_getattr ''/a''" and script = "[]"
      and io = init_fails and w' = "snd (smb2fs_init_run init_fails ?asked)",
      THEN conjunct2, THEN conjunct2, THEN conjunct1] u(1) h ff(1)
  have 3: "smb2fs_ops (Op_getattr ''/a'') [Answer True, Init init_fails] ?u
           = Some (- ENODEV, [], snd (smb2fs_init_run init_fails ?asked))"
    by (simp add: u(3,4))
  from statfs_without_session [where w = ?u and op = "Op_getattr ''/a''" and script = "[Rc 0]"
      and io = init_succeeds and w' = "snd (smb2fs_init_run init_succeeds ?asked)",
      THEN conjunct2, THEN conjunct2, THEN conjunct2, THEN conjunct1] u(1) h ff(2)
  have 4: "smb2fs_ops (Op_getattr ''/a'') [Answer True, Init init_succeeds, Rc 0] ?u
           = smb2fs_ops (Op_getattr ''/a'') [Rc 0] (snd (smb2fs_init_run init_succeeds ?asked))"
    by (simp add: u(3,4) del: smb2fs_ops.simps)
  from statfs_without_session [where w = ?u and path = "''/f''" and fh = 4194305
      and script = "[Opened (Some 20) 0, Rc (- 5)]" and io = init_succeeds
      and w' = "snd (smb2fs_init_run init_succeeds ?asked)" and rc_open = 0
      and fh' = 8388609 and ?script2.0 = "[Rc (- 5)]" and ?w2.0 = w2 and size_arg = 5
      and offset = 0,
      THEN conjunct2, THEN conjunct2, THEN conjunct2, THEN conjunct2, THEN conjunct1]
    u(1) ff(2) nf(3) o
  have 5: "smb2fs_ops (Op_read ''/f'' 5 0 4194305)
             [Answer True, Init init_succeeds, Opened (Some 20) 0, Rc (- 5)] ?u
           = smb2fs_ops (Op_read ''/f'' 5 0 8388609) [Rc (- 5)] w2"
    by (simp add: u(3,4) del: smb2fs_ops.simps)
  from statfs_without_session [where w = ?m and s = ?s and path = "''/''" and script = "[]",
      THEN conjunct2, THEN conjunct2, THEN conjunct2, THEN conjunct2, THEN conjunct2,
      THEN conjunct1] m
  have 6: "smb2fs_ops (Op_statfs ''/'') [Rc (- 1), Answer False] ?m = Some (- ENODEV, [], ?torn)"
    by blast
  from statfs_without_session [where w = ?m and s = ?s and path = "''/''" and script = "[Rc 0]"
      and io = init_succeeds and w' = "snd (smb2fs_init_run init_succeeds ?torn)",
      THEN conjunct2, THEN conjunct2, THEN conjunct2, THEN conjunct2, THEN conjunct2,
      THEN conjunct2] m ff(3)
  have 7: "smb2fs_ops (Op_statfs ''/'') [Rc (- 1), Answer True, Init init_succeeds, Rc 0] ?m
           = retry_loop Statvfs (remote_path ?s (if ''/'' = [] then ''/'' else ''/'')) [Rc 0]
               (snd (smb2fs_init_run init_succeeds ?torn))"
    by blast
  have e: "remote_path ?s (if ''/'' = [] then ''/'' else ''/'') = []" "smb2 ?s = Some 1"
    by (simp_all add: remote_path_def example_session_def)
  have t: "?asked = ?u\<lparr>trace := [Request_reconnect]\<rparr>"
    "emit [Request_reconnect]
       (fault_teardown ?s (emit [Remote_call (Some 1) Statvfs []] ?m))
     = ?m\<lparr>fsd := None,
          trace := [Remote_call (Some 1) Statvfs [], Request_error, Destroy_context (Some 1),
                    Request_reconnect]\<rparr>"
    by (simp_all add: emit_def fault_teardown_def reconnecting_def example_defs)
  from 5 o have 5: "\<exists>w2. smb2fs_open ''/f'' 4194305 [Opened (Some 20) 0, Rc (- 5)]
              (snd (smb2fs_init_run init_succeeds ?asked))
            = Some (0, 8388609, [Rc (- 5)], w2)
          \<and> smb2fs_ops (Op_read ''/f'' 5 0 4194305)
               [Answer True, Init init_succeeds, Opened (Some 20) 0, Rc (- 5)] ?u
             = smb2fs_ops (Op_read ''/f'' 5 0 8388609) [Rc (- 5)] w2"
    by blast
  from 2 t(1) have 2: "smb2fs_ops (Op_getattr ''/a'') [Answer False] ?u
      = Some (- 19, [], ?u\<lparr>trace := [Request_reconnect]\<rparr>)"
    by (simp only: ENODEV_def)
  from 6 have 6: "smb2fs_ops (Op_statfs ''/'') [Rc (- 1), Answer False] ?m
      = Some (- 19, [],
          ?m\<lparr>fsd := None,
             trace := [Remote_call (Some 1) Statvfs [], Request_error,
                       Destroy_context (Some 1), Request_reconnect]\<rparr>)"
    by (simp only: e t(2) ENODEV_def)
  from 7 have 7: "smb2fs_ops (Op_statfs ''/'') [Rc (- 1), Answer True, Init init_succeeds, Rc 0] ?m
      = retry_loop Statvfs [] [Rc 0]
          (snd (smb2fs_init_run init_succeeds
                  (emit [Request_reconnect]
                     (fault_teardown ?s (emit [Remote_call (Some 1) Statvfs []] ?m)))))"
    by (simp only: e)
  from 1 3 have 13: "smb2fs_ops (Op_statfs ''/'') [Answer True, Init init_succeeds] ?u
           = Some (- 19, [Answer True, Init init_succeeds], ?u)"
    "smb2fs_ops (Op_getattr ''/a'') [Answer True, Init init_fails] ?u
           = Some (- 19, [], snd (smb2fs_init_run init_fails ?asked))"
    by (simp_all only: ENODEV_def)
  from u(1) 13 2 4 5 6 7 show ?thesis by (intro conjI)
qed

text \<open>
  The claim as stated fails when a session exists: with reconnection enabled, statfs
  answers a transport fault of \<^verbatim>\<open>smb2_statvfs\<close> by asking the user, running
  \<^verbatim>\<open>smb2fs_init\<close> (context 2, a new registry at address 1) and calling
  \<^verbatim>\<open>smb2_statvfs\<close> again in the new session.
\<close>

theorem statfs_reconnects_after_fault:
  "(case smb2fs_ops (Op_statfs ''/'') [Rc (- 1), Answer True, Init init_succeeds, Rc 0]
          (reconnecting mounted_world) of
      None \<Rightarrow> False
    | Some (v, script, w) \<Rightarrow>
        v = 0 \<and> script = []
        \<and> trace w = [Remote_call (Some 1) Statvfs [], Request_error, Destroy_context (Some 1),
                      Request_reconnect, Remote_call (Some 2) Statvfs []]
        \<and> fsd w = Some \<lparr>smb2 = Some 2, phr = 1, rdonly = False, connected = True,
                         rootdir = None\<rparr>)"
  by (simp add: smb2fs_statfs_def handle_connection_fault_def smb2fs_init_run_def
      reconnecting_def example_defs remote_path_def normalized_rootdir_def emit_def Let_def)

subsection \<open>Faults without reconnection\<close>























subsection \<open>Classification of return codes\<close>

lemma retry_loop_never_reports_fault:
  "retry_loop f p script w = Some (v, script', w') \<Longrightarrow> v = 0 \<or> v < - 1"
proof (induction "length script" arbitrary: script w rule: less_induct)
  case less
  show ?case
  proof (cases script)
    case Nil
    with less.prems show ?thesis by simp
  next
    case (Cons x rest)
    show ?thesis
    proof (cases x)
      case (Rc rc)
      from less.prems Cons Rc obtain s where s: "fsd w = Some s"
        by (auto split: option.splits)
      let ?w1 = "emit [Remote_call (smb2 s) f p] w"
      show ?thesis
      proof (cases "rc < - 1 \<or> 0 \<le> rc")
        case True
        with less.prems Cons Rc s show ?thesis by (auto simp: Let_def)
      next
        case False
        with less.prems Cons Rc s obtain recovered script1 w2 where
          h: "handle_connection_fault rest ?w1 = Some (recovered, script1, w2)"
          by (auto simp: Let_def split: option.splits)
        show ?thesis
        proof (cases recovered)
          case False
          with less.prems Cons Rc s h \<open>\<not> (rc < - 1 \<or> 0 \<le> rc)\<close> show ?thesis
            by (auto simp: Let_def ENODEV_def)
        next
          case True
          with less.prems Cons Rc s h \<open>\<not> (rc < - 1 \<or> 0 \<le> rc)\<close>
          have r: "retry_loop f p script1 w2 = Some (v, script', w')"
            by (auto simp: Let_def)
          from handle_connection_fault_script [OF h] Cons
          have "length script1 < length script" by simp
          from less.hyps [OF this r] show ?thesis .
        qed
      qed
    qed (use less.prems Cons in simp_all)
  qed
qed

lemma opendir_without_fault:
  assumes "fsd w = Some s" "r2 \<noteq> - 1" "r2 \<noteq> SMB2_STATUS_CANCELLED"
  shows "smb2fs_ops (Op_opendir path fh) (Opened None r2 # script) w
         = Some (- ENOENT, script, emit [Opendir_call (smb2 s) (remote_path s path)] w)"
  using assms
  by (simp add: smb2fs_opendir_def session_guard_session return_value_def Let_def)

text \<open>
  C1, as amended: statfs, getattr, mkdir, truncate, unlink, readlink and rename (on a
  mount that allows the operation) classify the return code of their remote call. A code
  below -1 is returned as it is: the call is made once and the world changes by that
  call alone, so nothing is retried and the session stays. The code -1 takes the
  connection-fault path: when the handler reports failure the operation returns
  \<^verbatim>\<open>-ENODEV\<close>, when it reports recovery the same remote call is made again on the
  new session. No completed run returns -1 or a positive value. opendir classifies the
  status \<open>r2\<close>: a failure with a status other than -1 and
  \<^verbatim>\<open>SMB2_STATUS_CANCELLED\<close> returns \<^verbatim>\<open>-ENOENT\<close>, not the status.
\<close>

theorem return_code_classification:
  assumes "fsd w = Some s" "remote_call_of s op = Some (f, p)" "\<not> (modifies op \<and> rdonly s)"
  shows "(rc < - 1 \<longrightarrow>
            smb2fs_ops op (Rc rc # script) w
            = Some (rc, script, emit [Remote_call (smb2 s) f p] w))
       \<and> (handle_connection_fault script (emit [Remote_call (smb2 s) f p] w)
            = Some (False, script', w') \<longrightarrow>
            smb2fs_ops op (Rc (- 1) # script) w = Some (- ENODEV, script', w'))
       \<and> (handle_connection_fault script (emit [Remote_call (smb2 s) f p] w)
            = Some (True, script', w') \<longrightarrow>
            smb2fs_ops op (Rc (- 1) # script) w = retry_loop f p script' w')
       \<and> (smb2fs_ops op script w = Some (v, script'', w'') \<longrightarrow> v = 0 \<or> v < - 1)
       \<and> (r2 \<noteq> - 1 \<and> r2 \<noteq> SMB2_STATUS_CANCELLED \<longrightarrow>
            smb2fs_ops (Op_opendir path fh) (Opened None r2 # script) w
            = Some (- ENOENT, script, emit [Opendir_call (smb2 s) (remote_path s path)] w))"
proof -
  note loop = operation_is_retry_loop [OF assms]
  have 1: "rc < - 1 \<longrightarrow>
            smb2fs_ops op (Rc rc # script) w
            = Some (rc, script, emit [Remote_call (smb2 s) f p] w)"
    using assms(1) by (simp add: loop Let_def)
  have 2: "handle_connection_fault script (emit [Remote_call (smb2 s) f p] w)
            = Some (False, script', w') \<longrightarrow>
            smb2fs_ops op (Rc (- 1) # script) w = Some (- ENODEV, script', w')"
    using assms(1) by (simp add: loop Let_def)
  have 3: "handle_connection_fault script (emit [Remote_call (smb2 s) f p] w)
            = Some (True, script', w') \<longrightarrow>
            smb2fs_ops op (Rc (- 1) # script) w = retry_loop f p script' w'"
    using assms(1) by (simp add: loop Let_def)
  have 4: "smb2fs_ops op script w = Some (v, script'', w'') \<longrightarrow> v = 0 \<or> v < - 1"
    using retry_loop_never_reports_fault [of f p script w v script'' w''] by (simp add: loop)
  have 5: "r2 \<noteq> - 1 \<and> r2 \<noteq> SMB2_STATUS_CANCELLED \<longrightarrow>
            smb2fs_ops (Op_opendir path fh) (Opened None r2 # script) w
            = Some (- ENOENT, script, emit [Opendir_call (smb2 s) (remote_path s path)] w)"
    using opendir_without_fault [OF assms(1)] by simp
  from 1 2 3 4 5 show ?thesis by blast
qed

theorem return_code_classification_witness:
  "smb2fs_ops (Op_getattr ''/a'') [Rc (- 5)] mounted_world
     = Some (- 5, [], mounted_world\<lparr>trace := [Remote_call (Some 1) Stat ''a'']\<rparr>)
   \<and> smb2fs_ops (Op_getattr ''/a'') [Rc (- 1)] mounted_world
     = Some (- 19, [],
         mounted_world\<lparr>fsd := None,
           trace := [Remote_call (Some 1) Stat ''a'', Request_error, Destroy_context (Some 1)]\<rparr>)
   \<and> (case smb2fs_ops (Op_getattr ''/a'') [Rc (- 1), Answer True, Init init_succeeds, Rc 0]
            (mounted_world\<lparr>cfg_reconnect_req := True\<rparr>) of
         None \<Rightarrow> False
       | Some (v, script, w) \<Rightarrow>
           v = 0 \<and> script = []
           \<and> trace w = [Remote_call (Some 1) Stat ''a'', Request_error, Destroy_context (Some 1),
                         Request_reconnect, Remote_call (Some 2) Stat ''a''])
   \<and> smb2fs_ops (Op_opendir ''/docs'' 0) [Opened None (- 13)] mounted_world
     = Some (- 2, [], mounted_world\<lparr>trace := [Opendir_call (Some 1) ''docs'']\<rparr>)"
proof -
  let ?w = "mounted_world\<lparr>cfg_reconnect_req := True\<rparr>"
  let ?w1 = "emit [Remote_call (Some 1) Stat ''a''] ?w"
  let ?w2 = "emit [Request_reconnect]
               ((emit [Request_error, Destroy_context (Some 1)] ?w1)\<lparr>fsd := None\<rparr>)"
  let ?w3 = "snd (smb2fs_init_run init_succeeds ?w2)"
  let ?v1 = "emit [Remote_call (Some 1) Stat ''a''] mounted_world"
  let ?v2 = "(emit [Request_error, Destroy_context (Some 1)] ?v1)\<lparr>fsd := None\<rparr>"
  have m: "fsd mounted_world = Some example_session"
    "remote_call_of example_session (Op_getattr ''/a'') = Some (Stat, ''a'')"
    "\<not> (modifies (Op_getattr ''/a'') \<and> rdonly example_session)"
    by (simp_all add: mounted_world_def unmounted_world_def example_session_def remote_path_def)
  have m': "fsd ?w = Some example_session"
    by (simp add: mounted_world_def unmounted_world_def)
  have ctx: "smb2 example_session = Some 1" by (simp add: example_session_def)
  note a = return_code_classification [OF m, where rc = "- 5" and script = "[]"
      and script' = "[]" and w' = ?v2 and ?r2.0 = "- 13" and path = "''/docs''" and fh = 0]
  have hv: "handle_connection_fault [] ?v1 = Some (False, [], ?v2)"
    by (simp add: handle_connection_fault_def emit_def mounted_world_def unmounted_world_def
        example_session_def)
  from a hv have 1: "smb2fs_ops (Op_getattr ''/a'') [Rc (- 5)] mounted_world
     = Some (- 5, [], mounted_world\<lparr>trace := [Remote_call (Some 1) Stat ''a'']\<rparr>)"
    and 2: "smb2fs_ops (Op_getattr ''/a'') [Rc (- 1)] mounted_world
     = Some (- 19, [],
         mounted_world\<lparr>fsd := None,
           trace := [Remote_call (Some 1) Stat ''a'', Request_error, Destroy_context (Some 1)]\<rparr>)"
    and 4: "smb2fs_ops (Op_opendir ''/docs'' 0) [Opened None (- 13)] mounted_world
     = Some (- 2, [], mounted_world\<lparr>trace := [Opendir_call (Some 1) ''docs'']\<rparr>)"
    by (simp_all add: ctx ENODEV_def ENOENT_def SMB2_STATUS_CANCELLED_def emit_def
        mounted_world_def unmounted_world_def example_session_def remote_path_def)
  have i: "smb2fs_init_run init_succeeds ?w2
           = (True, ?w2\<lparr>phr_incarnation := 3,
                 fsd := Some \<lparr>smb2 = Some 2, phr = 1, rdonly = False, connected = True,
                              rootdir = None\<rparr>,
                 registries := (registries ?w2)(1 \<mapsto> AllocateNewRegistry 2),
                 next_registry := 2\<rparr>)"
    by (simp add: smb2fs_init_run_def init_succeeds_def mounted_world_def unmounted_world_def
        example_mount_def emit_def Let_def normalized_rootdir_def strlcpy_def)
  have w1: "fsd ?w1 = Some example_session" "cfg_reconnect_req ?w1"
    by (simp_all add: emit_def mounted_world_def unmounted_world_def)
  from fault_with_reconnect [OF w1, of init_succeeds "[Rc 0]"] i
  have h: "handle_connection_fault [Answer True, Init init_succeeds, Rc 0] ?w1
           = Some (True, [Rc 0], ?w3)"
    by (simp add: ctx)
  note b = return_code_classification [OF m' m(2,3), where script' = "[Rc 0]" and w' = ?w3
      and script = "[Answer True, Init init_succeeds, Rc 0]"]
  from b h [unfolded ctx [symmetric]]
  have "smb2fs_ops (Op_getattr ''/a'') [Rc (- 1), Answer True, Init init_succeeds, Rc 0] ?w
        = retry_loop Stat ''a'' [Rc 0] ?w3"
    by (simp add: ctx)
  moreover from i have "fsd ?w3 = Some \<lparr>smb2 = Some 2, phr = 1, rdonly = False,
      connected = True, rootdir = None\<rparr>"
    by simp
  moreover from i have "trace ?w3 = [Remote_call (Some 1) Stat ''a'', Request_error,
      Destroy_context (Some 1), Request_reconnect]"
    by (simp add: emit_def mounted_world_def unmounted_world_def)
  ultimately have 3: "(case smb2fs_ops (Op_getattr ''/a'') [Rc (- 1), Answer True, Init init_succeeds, Rc 0]
            (mounted_world\<lparr>cfg_reconnect_req := True\<rparr>) of
         None \<Rightarrow> False
       | Some (v, script, w) \<Rightarrow>
           v = 0 \<and> script = []
           \<and> trace w = [Remote_call (Some 1) Stat ''a'', Request_error, Destroy_context (Some 1),
                         Request_reconnect, Remote_call (Some 2) Stat ''a''])"
    by (simp add: Let_def emit_def)
  from 1 2 3 4 show ?thesis by simp
qed

text \<open>
  The claim as stated fails at opendir: a status that is neither -1 nor
  \<^verbatim>\<open>SMB2_STATUS_CANCELLED\<close> (here -13, access denied) is not returned; the operation
  returns \<^verbatim>\<open>-ENOENT\<close>, which is -2.
\<close>

theorem opendir_returns_enoent_for_any_status:
  "smb2fs_ops (Op_opendir ''/docs'' 0) [Opened None (- 13)] mounted_world
     = Some (- 2, [], mounted_world\<lparr>trace := [Opendir_call (Some 1) ''docs'']\<rparr>)"
  by (simp add: smb2fs_opendir_def session_guard_def return_value_def Let_def ENOENT_def
      SMB2_STATUS_CANCELLED_def emit_def mounted_world_def unmounted_world_def
      example_session_def remote_path_def)

subsection \<open>The fault handler and the handle registry\<close>

text \<open>
  A read-only mount restricted to the subtree \<^verbatim>\<open>docs\<close>, with reconnection requested,
  and its session.
\<close>

definition restricted_world :: world where
  "restricted_world =
     mounted_world
       \<lparr>fsd := Some (example_session\<lparr>rdonly := True, rootdir := Some ''/docs''\<rparr>),
        cfg_reconnect_req := True,
        md := example_mount
          \<lparr>arg_url := Some \<lparr>url_server = ''nas'', url_path = Some ''docs'',
                              url_password = Some ''pw''\<rparr>,
           arg_readonly := True, arg_reconnect_req := True\<rparr>\<rparr>"

lemma rootdir_docs: "normalized_rootdir MAXPATHLEN (Some ''docs'') = Some ''/docs''"
  by code_simp

text \<open>
  C4: on a transport fault \<^verbatim>\<open>handle_connection_fault\<close> destroys the context of the
  session (context 1) and, after the user confirms, \<^verbatim>\<open>smb2fs_init\<close> builds a new
  session from the mount data, with the same read-only flag and the same subtree
  restriction, and a new registry at a new address, in which the old handle does not
  resolve. The registry of the old session is not destroyed: no \<^verbatim>\<open>FreeRegistry\<close> call
  is made and the registry is still on the heap at address 0, whereas
  \<^verbatim>\<open>smb2fs_destroy\<close> on the same session frees it.
\<close>

theorem fault_handler_leaks_registry:
  "(case handle_connection_fault [Answer True, Init init_succeeds] restricted_world of
      None \<Rightarrow> False
    | Some (recovered, script, w) \<Rightarrow>
        recovered \<and> script = []
        \<and> trace w = [Request_error, Destroy_context (Some 1), Request_reconnect]
        \<and> fsd w = Some \<lparr>smb2 = Some 2, phr = 1, rdonly = True, connected = True,
                         rootdir = Some ''/docs''\<rparr>
        \<and> registries w 1 = Some (AllocateNewRegistry 2)
        \<and> HandleToPointer (AllocateNewRegistry 2) 4194305 = None
        \<and> registries w 0 = Some example_registry)
   \<and> registries (smb2fs_destroy restricted_world) 0 = None
   \<and> trace (smb2fs_destroy restricted_world)
       = [Disconnect_share (Some 1), Destroy_context (Some 1), Free_registry 0]"
proof -
  let ?w2 = "emit [Request_reconnect]
               ((emit [Request_error, Destroy_context (Some 1)] restricted_world)\<lparr>fsd := None\<rparr>)"
  have i: "smb2fs_init_run init_succeeds ?w2
           = (True, ?w2\<lparr>phr_incarnation := 3,
                 fsd := Some \<lparr>smb2 = Some 2, phr = 1, rdonly = True, connected = True,
                              rootdir = Some ''/docs''\<rparr>,
                 registries := (registries ?w2)(1 \<mapsto> AllocateNewRegistry 2),
                 next_registry := 2\<rparr>)"
    by (simp add: smb2fs_init_run_def init_succeeds_def restricted_world_def mounted_world_def
        unmounted_world_def example_mount_def emit_def Let_def rootdir_docs strlcpy_def)
  have s: "fsd restricted_world = Some (example_session\<lparr>rdonly := True, rootdir := Some ''/docs''\<rparr>)"
    "cfg_reconnect_req restricted_world"
    by (simp_all add: restricted_world_def mounted_world_def)
  from fault_with_reconnect [OF s, of init_succeeds "[]"] i
  have h: "handle_connection_fault [Answer True, Init init_succeeds] restricted_world
           = Some (True, [], snd (smb2fs_init_run init_succeeds ?w2))"
    by (simp add: example_session_def)
  have r: "HandleToPointer (AllocateNewRegistry 2) 4194305 = None"
    by (simp add: HandleToPointer_def AllocateNewRegistry_def INDEX_BITS_def
        INCARNATION_BITS_def drop_bit_eq_div)
  have d: "registries (smb2fs_destroy restricted_world) 0 = None
       \<and> trace (smb2fs_destroy restricted_world)
           = [Disconnect_share (Some 1), Destroy_context (Some 1), Free_registry 0]"
    by (simp add: smb2fs_destroy_def restricted_world_def mounted_world_def unmounted_world_def
        example_session_def Let_def)
  from h i r d show ?thesis
    by (simp add: emit_def restricted_world_def mounted_world_def unmounted_world_def
        no_registries_def)
qed

subsection \<open>Handle recovery inside a read\<close>

text \<open>
  C3: a read of 5 bytes on the handle \<open>4194305\<close> (file pointer 10), with reconnection
  and handle recovery enabled. The seek succeeds, the first \<^verbatim>\<open>smb2_read\<close> reports a
  transport fault, the user confirms, \<^verbatim>\<open>smb2fs_init\<close> succeeds on context 2, and
  \<^verbatim>\<open>smb2fs_open\<close> re-opens the path read-write, gets the file pointer 20 and stores
  the new handle \<open>8388609\<close> in \<^verbatim>\<open>fi->fh\<close>. The claim says the read goes on with the
  new handle. The loop goes on with the pointer it resolved before the fault: the next
  \<^verbatim>\<open>smb2_read\<close> is called on pointer 10, one byte before the buffer and for 6 bytes, and
  the 5 bytes the server then delivers are reported as 4.
\<close>

theorem read_continues_on_stale_pointer:
  "(case smb2fs_read ''/f'' 5 0 4194305
           [Rc 0, Time 0, Rc (- 1), Answer True, Init init_succeeds, Opened (Some 20) 0,
            Rc 5, Rc 0, Rc 0]
           (mounted_world\<lparr>cfg_reconnect_req := True\<rparr>) of
      None \<Rightarrow> False
    | Some (v, fh, script, w) \<Rightarrow>
        v = 4 \<and> fh = 8388609 \<and> script = []
        \<and> map_option (\<lambda>s. resolve w s fh) (fsd w) = Some (Some (Some 20))
        \<and> trace w =
            [Lseek_call (Some 1) 10 0, Read_call (Some 1) 10 0 5, Request_error,
             Destroy_context (Some 1), Request_reconnect, Open_call (Some 2) ''f'' O_RDWR,
             Read_call (Some 2) 10 (- 1) 6, Read_call (Some 2) 10 4 1, Service_call (Some 2)])"
  by (simp add: smb2fs_read_def stream_guard_def new_transfer_def read_outer.simps
      read_loop.simps read_round_def recover_stream_def handle_connection_fault_def
      smb2fs_init_run_def smb2fs_open_def session_guard_def allocate_handle_def resolve_def
      AllocateHandleForPointer_def AllocateNewRegistry_def HandleToPointer_def make_handle_def
      service_batch_def advance_def remote_path_def normalized_rootdir_def strlcpy_def
      INDEX_BITS_def INCARNATION_BITS_def MAX_INDEX_def GROWSIZE_def MAXPATHLEN_def
      SMB2_STATUS_CANCELLED_def ENODEV_def EIO_def EINVAL_def ENOMEM_def ENOENT_def
      emit_def Let_def mounted_world_def unmounted_world_def example_session_def
      example_registry_def example_mount_def init_succeeds_def no_registries_def
      drop_bit_eq_div)

subsection \<open>Stale handles\<close>











subsection \<open>Batched servicing\<close>

text \<open>
  What a round that transferred \<open>rc\<close> bytes did about servicing, from the state \<open>st\<close>
  and the world \<open>w\<close> after the transfer call to the state \<open>st'\<close> and the world \<open>w'\<close>
  at the end of the round. Below the thresholds it counted the unit and its bytes and
  made no call. At a threshold it polled \<^verbatim>\<open>smb2_service\<close> as long as the answers were
  positive and once more for the first answer that was not, read the clock, sent an
  echo if 20 seconds had passed, and both counters are 0.
\<close>

definition serviced ::
  "smb2fs \<Rightarrow> transfer \<Rightarrow> int \<Rightarrow> response list \<Rightarrow> world \<Rightarrow> transfer \<Rightarrow> response list \<Rightarrow> world
   \<Rightarrow> bool" where
  "serviced s st rc script w st' script' w' \<longleftrightarrow>
     (if threshold_reached st rc
      then service_counter st' = 0 \<and> bytes_since_service st' = 0
           \<and> (\<exists>pending final current_time.
                 script = map Rc pending @ Rc final # Time current_time # script'
                 \<and> list_all (\<lambda>n. 0 < n) pending \<and> final \<le> 0
                 \<and> w' = emit (replicate (length pending + 1) (Service_call (smb2 s))
                                @ (if 20 \<le> current_time - last_echo st
                                   then [Echo_call (smb2 s)] else [])) w)
      else service_counter st' = service_counter st + 1
           \<and> bytes_since_service st' = bytes_since_service st + nat rc
           \<and> script' = script \<and> w' = w)"

lemma service_batch_serviced:
  assumes "service_batch rc (st\<lparr>last_rc := rc\<rparr>) script w = Some (st2, script', w')"
    "fsd w = Some s"
    "service_counter st' = service_counter st2" "bytes_since_service st' = bytes_since_service st2"
  shows "serviced s st rc script w st' script' w'"
proof -
  have e: "service_counter (st\<lparr>last_rc := rc\<rparr>) = service_counter st"
    "bytes_since_service (st\<lparr>last_rc := rc\<rparr>) = bytes_since_service st"
    "last_echo (st\<lparr>last_rc := rc\<rparr>) = last_echo st"
    by simp_all
  from service_batch_result [OF assms(1,2)] show ?thesis
    unfolding serviced_def threshold_reached_def e assms(3,4) .
qed

lemma read_round_serviced:
  assumes "read_round p fh m st rc script w = Some (x, st', script', w')" "0 < rc" "fsd w = Some s"
  shows "x = None
       \<and> serviced s st rc script
            (emit [Read_call (smb2 s) fh (buffer_ref st) (min (size_left st) m)] w) st' script' w'"
proof -
  let ?w1 = "emit [Read_call (smb2 s) fh (buffer_ref st) (min (size_left st) m)] w"
  from assms obtain st2 where
    b: "service_batch rc (st\<lparr>last_rc := rc\<rparr>) script ?w1 = Some (st2, script', w')"
    and r: "x = None" "st' = advance rc st2"
    by (auto simp: read_round_def Let_def split: option.splits if_splits)
  from assms(3) have "fsd ?w1 = Some s" by simp
  from service_batch_serviced [OF b this, of st'] r show ?thesis by simp
qed

lemma write_round_serviced:
  assumes "write_round p fh m st rc script w = Some (x, st', script', w')" "0 < rc" "fsd w = Some s"
  shows "x = None
       \<and> serviced s st rc script
            (emit [Write_call (smb2 s) fh (buffer_ref st) (min (size_left st) (chunk_size st))] w)
            st' script' w'"
proof -
  let ?w1 = "emit [Write_call (smb2 s) fh (buffer_ref st) (min (size_left st) (chunk_size st))] w"
  from assms obtain st2 where
    b: "service_batch rc (st\<lparr>last_rc := rc\<rparr>) script ?w1 = Some (st2, script', w')"
    and r: "x = None" "st' = advance rc (grow_chunk m st2)"
    by (auto simp: write_round_def Let_def split: option.splits if_splits)
  from assms(3) have "fsd ?w1 = Some s" by simp
  from service_batch_serviced [OF b this, of st'] r show ?thesis
    by (simp add: grow_chunk_fields)
qed

text \<open>
  A loop that ends by \<^verbatim>\<open>break\<close> or by \<^verbatim>\<open>size == 0\<close> ends with a last \<^verbatim>\<open>rc\<close> that is
  not negative, so the \<^verbatim>\<open>do ... while(rc < 0)\<close> around it is left.
\<close>

lemma read_round_last_rc:
  assumes "read_round path smb2fh m st rc script w = Some (x, st', script', w')"
  shows "x = Some Done \<or> x = None \<Longrightarrow> size_left st' = 0 \<Longrightarrow> 0 \<le> last_rc st'"
  using assms
  by (auto simp: read_round_def Let_def advance_def
      split: option.splits if_splits prod.splits sum.splits
      dest!: service_batch_keeps_chunk)

lemma write_round_last_rc:
  assumes "write_round path smb2fh m st rc script w = Some (x, st', script', w')"
  shows "x = Some Done \<or> x = None \<Longrightarrow> size_left st' = 0 \<Longrightarrow> 0 \<le> last_rc st'"
  using assms
  by (auto simp: write_round_def Let_def advance_def grow_chunk_def
      split: option.splits if_splits prod.splits sum.splits
      dest!: service_batch_keeps_chunk)

lemma read_round_done:
  "read_round path smb2fh m st rc script w = Some (Some Done, st', script', w')
   \<Longrightarrow> last_rc st' = 0"
  by (auto simp: read_round_def Let_def split: option.splits if_splits prod.splits sum.splits)

lemma write_round_done:
  "write_round path smb2fh m st rc script w = Some (Some Done, st', script', w') \<Longrightarrow> False"
  by (auto simp: write_round_def Let_def split: option.splits if_splits prod.splits sum.splits)

lemma read_loop_done:
  "read_loop path smb2fh m st script w = Some (Done, st1, script1, w1)
   \<Longrightarrow> (size_left st = 0 \<longrightarrow> 0 \<le> last_rc st) \<Longrightarrow> 0 \<le> last_rc st1"
proof (induction "length script" arbitrary: st script w rule: less_induct)
  case less
  show ?case
  proof (cases "size_left st = 0")
    case True
    with less.prems show ?thesis by (subst (asm) read_loop.simps) simp
  next
    case False
    with less.prems(1) obtain rc rest x st' script' w' where
      a: "script = Rc rc # rest"
        "read_round path smb2fh m st rc rest w = Some (x, st', script', w')"
      by (subst (asm) read_loop.simps)
        (auto split: list.splits response.splits option.splits)
    show ?thesis
    proof (cases x)
      case None
      with less.prems(1) False a
      have r: "read_loop path smb2fh m st' script' w' = Some (Done, st1, script1, w1)"
        by (subst (asm) read_loop.simps) simp
      from read_round_script [OF a(2)] a(1) have l: "length script' < length script" by simp
      from read_round_last_rc [OF a(2)] None
      have "size_left st' = 0 \<longrightarrow> 0 \<le> last_rc st'" by simp
      from less.hyps [OF l r this] show ?thesis .
    next
      case (Some ex)
      with less.prems(1) False a have "ex = Done" "st1 = st'"
        by (subst (asm) read_loop.simps, simp)+
      with read_round_done [of path smb2fh m st rc rest w st' script' w'] a(2) Some
      show ?thesis by simp
    qed
  qed
qed

lemma write_loop_done:
  "write_loop path smb2fh m st script w = Some (Done, st1, script1, w1)
   \<Longrightarrow> (size_left st = 0 \<longrightarrow> 0 \<le> last_rc st) \<Longrightarrow> 0 \<le> last_rc st1"
proof (induction "length script" arbitrary: st script w rule: less_induct)
  case less
  show ?case
  proof (cases "size_left st = 0")
    case True
    with less.prems show ?thesis by (subst (asm) write_loop.simps) simp
  next
    case False
    with less.prems(1) obtain rc rest x st' script' w' where
      a: "script = Rc rc # rest"
        "write_round path smb2fh m st rc rest w = Some (x, st', script', w')"
      by (subst (asm) write_loop.simps)
        (auto split: list.splits response.splits option.splits)
    show ?thesis
    proof (cases x)
      case None
      with less.prems(1) False a
      have r: "write_loop path smb2fh m st' script' w' = Some (Done, st1, script1, w1)"
        by (subst (asm) write_loop.simps) simp
      from write_round_script [OF a(2)] a(1) have l: "length script' < length script" by simp
      from write_round_last_rc [OF a(2)] None
      have "size_left st' = 0 \<longrightarrow> 0 \<le> last_rc st'" by simp
      from less.hyps [OF l r this] show ?thesis .
    next
      case (Some ex)
      with less.prems(1) False a have "ex = Done"
        by (subst (asm) write_loop.simps) simp
      with write_round_done [of path smb2fh m st rc rest w st' script' w'] a(2) Some
      show ?thesis by simp
    qed
  qed
qed

text \<open>A loop that ends by \<^verbatim>\<open>break\<close> or by \<^verbatim>\<open>size == 0\<close> ends with a session.\<close>

lemma recover_stream_session:
  assumes "recover_stream path fh script w = Some (Inr u, fh', script', w')"
  shows "fsd w' \<noteq> None"
proof -
  from assms obtain script1 w1 rc_open where
    "smb2fs_open path fh script1 w1 = Some (rc_open, fh', script', w')" "0 \<le> rc_open"
    by (auto simp: recover_stream_def not_less split: option.splits if_splits)
  from smb2fs_open_session [OF this] show ?thesis .
qed

lemma read_round_session:
  assumes "read_round path smb2fh m st rc script w = Some (x, st', script', w')"
    "x = Some Done \<or> x = None"
  shows "fsd w' \<noteq> None"
proof -
  from assms(1) obtain s where s: "fsd w = Some s"
    by (auto simp: read_round_def split: option.splits)
  let ?w1 = "emit [Read_call (smb2 s) smb2fh (buffer_ref st) (min (size_left st) m)] w"
  from s have f: "fsd ?w1 = Some s" by simp
  consider "rc = 0" | "0 < rc" | "rc < 0" by linarith
  then show ?thesis
  proof cases
    case 1
    with assms(1) s have "w' = ?w1" by (simp add: read_round_def Let_def)
    with f show ?thesis by simp
  next
    case 2
    with assms(1) s obtain st2 where
      "service_batch rc (st\<lparr>last_rc := rc\<rparr>) script ?w1 = Some (st2, script', w')"
      by (auto simp: read_round_def Let_def split: option.splits if_splits)
    from service_batch_world [OF this f] f show ?thesis by auto
  next
    case 3
    with assms s obtain u fh' where
      "recover_stream path (fi_fh st) script ?w1 = Some (Inr u, fh', script', w')"
      by (auto simp: read_round_def Let_def split: option.splits if_splits sum.splits)
    from recover_stream_session [OF this] show ?thesis .
  qed
qed

lemma write_round_session:
  assumes "write_round path smb2fh m st rc script w = Some (x, st', script', w')"
    "x = Some Done \<or> x = None"
  shows "fsd w' \<noteq> None"
proof -
  from assms(1) obtain s where s: "fsd w = Some s"
    by (auto simp: write_round_def split: option.splits)
  let ?w1 = "emit [Write_call (smb2 s) smb2fh (buffer_ref st)
                     (min (size_left st) (chunk_size st))] w"
  from s have f: "fsd ?w1 = Some s" by simp
  consider "rc = 0" | "0 < rc" | "rc < 0" by linarith
  then show ?thesis
  proof cases
    case 1
    with assms(1) s have "w' = ?w1" by (simp add: write_round_def Let_def)
    with f show ?thesis by simp
  next
    case 2
    with assms(1) s obtain st2 where
      "service_batch rc (st\<lparr>last_rc := rc\<rparr>) script ?w1 = Some (st2, script', w')"
      by (auto simp: write_round_def Let_def split: option.splits if_splits)
    from service_batch_world [OF this f] f show ?thesis by auto
  next
    case 3
    with assms s obtain u fh' where
      "recover_stream path (fi_fh st) script ?w1 = Some (Inr u, fh', script', w')"
      by (auto simp: write_round_def Let_def split: option.splits if_splits sum.splits)
    from recover_stream_session [OF this] show ?thesis .
  qed
qed

lemma read_loop_session:
  "read_loop path smb2fh m st script w = Some (Done, st1, script1, w1) \<Longrightarrow> fsd w \<noteq> None
   \<Longrightarrow> fsd w1 \<noteq> None"
proof (induction "length script" arbitrary: st script w rule: less_induct)
  case less
  show ?case
  proof (cases "size_left st = 0")
    case True
    with less.prems show ?thesis by (subst (asm) read_loop.simps) simp
  next
    case False
    with less.prems(1) obtain rc rest x st' script' w' where
      a: "script = Rc rc # rest"
        "read_round path smb2fh m st rc rest w = Some (x, st', script', w')"
      by (subst (asm) read_loop.simps)
        (auto split: list.splits response.splits option.splits)
    show ?thesis
    proof (cases x)
      case None
      with less.prems(1) False a
      have r: "read_loop path smb2fh m st' script' w' = Some (Done, st1, script1, w1)"
        by (subst (asm) read_loop.simps) simp
      from read_round_script [OF a(2)] a(1) have l: "length script' < length script" by simp
      from read_round_session [OF a(2)] None have "fsd w' \<noteq> None" by simp
      from less.hyps [OF l r this] show ?thesis .
    next
      case (Some ex)
      with less.prems(1) False a have "ex = Done" "w1 = w'"
        by (subst (asm) read_loop.simps, simp)+
      with read_round_session [OF a(2)] Some show ?thesis by simp
    qed
  qed
qed

lemma write_loop_session:
  "write_loop path smb2fh m st script w = Some (Done, st1, script1, w1) \<Longrightarrow> fsd w \<noteq> None
   \<Longrightarrow> fsd w1 \<noteq> None"
proof (induction "length script" arbitrary: st script w rule: less_induct)
  case less
  show ?case
  proof (cases "size_left st = 0")
    case True
    with less.prems show ?thesis by (subst (asm) write_loop.simps) simp
  next
    case False
    with less.prems(1) obtain rc rest x st' script' w' where
      a: "script = Rc rc # rest"
        "write_round path smb2fh m st rc rest w = Some (x, st', script', w')"
      by (subst (asm) write_loop.simps)
        (auto split: list.splits response.splits option.splits)
    show ?thesis
    proof (cases x)
      case None
      with less.prems(1) False a
      have r: "write_loop path smb2fh m st' script' w' = Some (Done, st1, script1, w1)"
        by (subst (asm) write_loop.simps) simp
      from write_round_script [OF a(2)] a(1) have l: "length script' < length script" by simp
      from write_round_session [OF a(2)] None have "fsd w' \<noteq> None" by simp
      from less.hyps [OF l r this] show ?thesis .
    next
      case (Some ex)
      with less.prems(1) False a have "ex = Done" "w1 = w'"
        by (subst (asm) write_loop.simps, simp)+
      with write_round_session [OF a(2)] Some show ?thesis by simp
    qed
  qed
qed

lemma read_loop_keeps_session:
  "fsd w = Some s \<Longrightarrow>
   read_loop path smb2fh m st script w = Some (Done, st1, script1, w1) \<longrightarrow> fsd w1 \<noteq> None"
  using read_loop_session [of path smb2fh m st script w st1 script1 w1] by simp

lemma write_loop_keeps_session:
  "fsd w = Some s \<Longrightarrow>
   write_loop path smb2fh m st script w = Some (Done, st1, script1, w1) \<longrightarrow> fsd w1 \<noteq> None"
  using write_loop_session [of path smb2fh m st script w st1 script1 w1] by simp

text \<open>How a read and a write return once their loop has ended.\<close>

lemma read_finishes:
  "fsd w = Some s \<Longrightarrow>
   resolve w s fh = Some (Some smb2fh) \<and> 0 \<le> new_offset
   \<and> read_loop path smb2fh (smb2_get_max_read_size w (smb2 s))
        ((new_transfer fh size_arg)\<lparr>last_echo := current_time\<rparr>) script
        (emit [Lseek_call (smb2 s) smb2fh offset] w)
      = Some (Done, st1, script1, w1)
   \<and> fsd w1 = Some s1 \<and> script1 = map Rc pending @ Rc final # script2
   \<and> list_all (\<lambda>n. 0 < n) pending \<and> final \<le> 0 \<longrightarrow>
     smb2fs_read path size_arg offset fh (Rc new_offset # Time current_time # script) w
     = Some (result st1, fi_fh st1, script2,
         emit (replicate (length pending + 1) (Service_call (smb2 s1))) w1)"
proof (intro impI, elim conjE)
  assume s: "fsd w = Some s"
  assume a: "resolve w s fh = Some (Some smb2fh)" "0 \<le> new_offset"
    "read_loop path smb2fh (smb2_get_max_read_size w (smb2 s))
       ((new_transfer fh size_arg)\<lparr>last_echo := current_time\<rparr>) script
       (emit [Lseek_call (smb2 s) smb2fh offset] w)
     = Some (Done, st1, script1, w1)"
    "fsd w1 = Some s1" "script1 = map Rc pending @ Rc final # script2"
    "list_all (\<lambda>n. 0 < n) pending" "final \<le> 0"
  have e: "(new_transfer fh size_arg)\<lparr>buffer_ref := 0, result := 0, service_counter := 0,
              bytes_since_service := 0, last_echo := current_time\<rparr>
           = (new_transfer fh size_arg)\<lparr>last_echo := current_time\<rparr>"
    by (simp add: new_transfer_def)
  from read_loop_done [OF a(3)] have l: "0 \<le> last_rc st1" by (simp add: new_transfer_def)
  from s a(1,2,3) l drain_polls [OF a(4,6,7), of script2] a(5)
  have "read_outer path offset (new_transfer fh size_arg)
          (Rc new_offset # Time current_time # script) w
        = Some (result st1, st1, script2,
            emit (replicate (length pending + 1) (Service_call (smb2 s1))) w1)"
    by (subst read_outer.simps) (simp add: Let_def e new_transfer_def)
  with s show "smb2fs_read path size_arg offset fh (Rc new_offset # Time current_time # script) w
     = Some (result st1, fi_fh st1, script2,
         emit (replicate (length pending + 1) (Service_call (smb2 s1))) w1)"
    by (simp add: smb2fs_read_def stream_guard_session)
qed

lemma read_returns:
  "fsd w = Some s \<Longrightarrow>
   resolve w s fh = Some (Some smb2fh) \<and> 0 \<le> new_offset
   \<and> read_loop path smb2fh (smb2_get_max_read_size w (smb2 s))
        ((new_transfer fh size_arg)\<lparr>last_echo := current_time\<rparr>) script
        (emit [Lseek_call (smb2 s) smb2fh offset] w)
      = Some (Return v, st1, script1, w1) \<longrightarrow>
     smb2fs_read path size_arg offset fh (Rc new_offset # Time current_time # script) w
     = Some (v, fi_fh st1, script1, w1)"
proof (intro impI, elim conjE)
  assume s: "fsd w = Some s"
  assume a: "resolve w s fh = Some (Some smb2fh)" "0 \<le> new_offset"
    "read_loop path smb2fh (smb2_get_max_read_size w (smb2 s))
       ((new_transfer fh size_arg)\<lparr>last_echo := current_time\<rparr>) script
       (emit [Lseek_call (smb2 s) smb2fh offset] w)
     = Some (Return v, st1, script1, w1)"
  have e: "(new_transfer fh size_arg)\<lparr>buffer_ref := 0, result := 0, service_counter := 0,
              bytes_since_service := 0, last_echo := current_time\<rparr>
           = (new_transfer fh size_arg)\<lparr>last_echo := current_time\<rparr>"
    by (simp add: new_transfer_def)
  from s a
  have "read_outer path offset (new_transfer fh size_arg)
          (Rc new_offset # Time current_time # script) w
        = Some (v, st1, script1, w1)"
    by (subst read_outer.simps) (simp add: Let_def e new_transfer_def)
  with s show "smb2fs_read path size_arg offset fh (Rc new_offset # Time current_time # script) w
     = Some (v, fi_fh st1, script1, w1)"
    by (simp add: smb2fs_read_def stream_guard_session)
qed

lemma write_finishes:
  "fsd w = Some s \<Longrightarrow>
   resolve w s fh = Some (Some smb2fh) \<and> 0 \<le> new_offset
   \<and> \<not> rdonly s \<and> 2 < smb2_get_fd w (smb2 s)
   \<and> write_loop path smb2fh (smb2_get_max_write_size w (smb2 s))
        (start_write (smb2_get_max_write_size w (smb2 s)) current_time
           (new_transfer fh size_arg))
        script (emit [Lseek_call (smb2 s) smb2fh offset] w)
      = Some (Done, st1, script1, w1)
   \<and> fsd w1 = Some s1 \<and> script1 = map Rc pending @ Rc final # script2
   \<and> list_all (\<lambda>n. 0 < n) pending \<and> final \<le> 0 \<longrightarrow>
     smb2fs_write path size_arg offset fh (Rc new_offset # Time current_time # script) w
     = Some (result st1, fi_fh st1, script2,
         emit (replicate (length pending + 1) (Service_call (smb2 s1))) w1)"
proof (intro impI, elim conjE)
  assume s: "fsd w = Some s"
  assume a: "resolve w s fh = Some (Some smb2fh)" "0 \<le> new_offset"
    "\<not> rdonly s" "2 < smb2_get_fd w (smb2 s)"
    "write_loop path smb2fh (smb2_get_max_write_size w (smb2 s))
       (start_write (smb2_get_max_write_size w (smb2 s)) current_time
          (new_transfer fh size_arg))
       script (emit [Lseek_call (smb2 s) smb2fh offset] w)
     = Some (Done, st1, script1, w1)"
    "fsd w1 = Some s1" "script1 = map Rc pending @ Rc final # script2"
    "list_all (\<lambda>n. 0 < n) pending" "final \<le> 0"
  from write_loop_done [OF a(5)] have l: "0 \<le> last_rc st1"
    by (simp add: new_transfer_def start_write_def)
  from s a(1,2,4,5) l drain_polls [OF a(6,8,9), of script2] a(7)
  have "write_outer path offset (new_transfer fh size_arg)
          (Rc new_offset # Time current_time # script) w
        = Some (result st1, st1, script2,
            emit (replicate (length pending + 1) (Service_call (smb2 s1))) w1)"
    by (subst write_outer.simps) (simp add: Let_def new_transfer_def)
  with s a(3)
  show "smb2fs_write path size_arg offset fh (Rc new_offset # Time current_time # script) w
     = Some (result st1, fi_fh st1, script2,
         emit (replicate (length pending + 1) (Service_call (smb2 s1))) w1)"
    by (simp add: smb2fs_write_def stream_guard_session)
qed

lemma write_returns:
  "fsd w = Some s \<Longrightarrow>
   resolve w s fh = Some (Some smb2fh) \<and> 0 \<le> new_offset
   \<and> \<not> rdonly s \<and> 2 < smb2_get_fd w (smb2 s)
   \<and> write_loop path smb2fh (smb2_get_max_write_size w (smb2 s))
        (start_write (smb2_get_max_write_size w (smb2 s)) current_time
           (new_transfer fh size_arg))
        script (emit [Lseek_call (smb2 s) smb2fh offset] w)
      = Some (Return v, st1, script1, w1) \<longrightarrow>
     smb2fs_write path size_arg offset fh (Rc new_offset # Time current_time # script) w
     = Some (v, fi_fh st1, script1, w1)"
proof (intro impI, elim conjE)
  assume s: "fsd w = Some s"
  assume a: "resolve w s fh = Some (Some smb2fh)" "0 \<le> new_offset"
    "\<not> rdonly s" "2 < smb2_get_fd w (smb2 s)"
    "write_loop path smb2fh (smb2_get_max_write_size w (smb2 s))
       (start_write (smb2_get_max_write_size w (smb2 s)) current_time
          (new_transfer fh size_arg))
       script (emit [Lseek_call (smb2 s) smb2fh offset] w)
     = Some (Return v, st1, script1, w1)"
  from s a(1,2,4,5)
  have "write_outer path offset (new_transfer fh size_arg)
          (Rc new_offset # Time current_time # script) w
        = Some (v, st1, script1, w1)"
    by (subst write_outer.simps) (simp add: Let_def new_transfer_def)
  with s a(3)
  show "smb2fs_write path size_arg offset fh (Rc new_offset # Time current_time # script) w
     = Some (v, fi_fh st1, script1, w1)"
    by (simp add: smb2fs_write_def stream_guard_session)
qed

text \<open>The rounds that leave the function.\<close>

lemma read_round_error:
  "fsd w = Some s \<Longrightarrow>
   rc < - 1 \<longrightarrow>
     read_round path smb2fh m st rc script w
     = Some (Some (Return rc), st\<lparr>last_rc := rc\<rparr>, script,
         emit [Read_call (smb2 s) smb2fh (buffer_ref st) (min (size_left st) m)] w)"
  by (simp add: read_round_def Let_def)

lemma read_round_fault:
  "fsd w = Some s \<Longrightarrow>
   rc = - 1
   \<and> recover_stream path (fi_fh st) script
        (emit [Read_call (smb2 s) smb2fh (buffer_ref st) (min (size_left st) m)] w)
      = Some (Inl v, fh', script', w') \<longrightarrow>
     read_round path smb2fh m st rc script w
     = Some (Some (Return v), st\<lparr>last_rc := rc, fi_fh := fh'\<rparr>, script', w')"
  by (simp add: read_round_def Let_def)

lemma write_round_fault:
  "fsd w = Some s \<Longrightarrow>
   rc < 0
   \<and> recover_stream path (fi_fh st) script
        (emit [Write_call (smb2 s) smb2fh (buffer_ref st)
                 (min (size_left st) (chunk_size st))] w)
      = Some (Inl v, fh', script', w') \<longrightarrow>
     write_round path smb2fh m st rc script w
     = Some (Some (Return v), st\<lparr>last_rc := rc, fi_fh := fh'\<rparr>, script', w')"
  by (simp add: write_round_def Let_def)

lemma read_round_counts:
  "fsd w = Some s \<Longrightarrow>
   0 < rc \<and> read_round path smb2fh m st rc script w = Some (x, st', script', w') \<longrightarrow>
     x = None
     \<and> serviced s st rc script
          (emit [Read_call (smb2 s) smb2fh (buffer_ref st) (min (size_left st) m)] w)
          st' script' w'"
  using read_round_serviced [of path smb2fh m st rc script w x st' script' w' s] by blast

lemma write_round_counts:
  "fsd w = Some s \<Longrightarrow>
   0 < rc \<and> write_round path smb2fh m st rc script w = Some (x, st', script', w') \<longrightarrow>
     x = None
     \<and> serviced s st rc script
          (emit [Write_call (smb2 s) smb2fh (buffer_ref st)
                   (min (size_left st) (chunk_size st))] w)
          st' script' w'"
  using write_round_serviced [of path smb2fh m st rc script w x st' script' w' s] by blast

text \<open>
  C8, as amended: in the read loop and in the write loop, a round that transferred bytes
  counts the unit and its bytes; when the unit count reaches 4 or the byte count 262144
  it polls \<^verbatim>\<open>smb2_service\<close> until an answer is not positive and resets both counters,
  and it goes on to the next round. When the loop ends because the size is exhausted or
  a transfer moved no bytes, the session is still there and the function polls
  \<^verbatim>\<open>smb2_service\<close> again until an answer is not positive, at least once and whatever
  the counters hold, and then returns the byte total. When the loop is left by an error (a status below -1 in a read, a
  fault branch that returns), the function returns that value from inside the loop: what
  it returns and the world it leaves are those of the round, with no poll after it.
\<close>

theorem service_batching:
  assumes "fsd w = Some s"
  shows "(0 < rc \<and> read_round path smb2fh m st rc script w = Some (x, st', script', w') \<longrightarrow>
            x = None
            \<and> serviced s st rc script
                 (emit [Read_call (smb2 s) smb2fh (buffer_ref st) (min (size_left st) m)] w)
                 st' script' w')
       \<and> (0 < rc \<and> write_round path smb2fh m st rc script w = Some (x, st', script', w') \<longrightarrow>
            x = None
            \<and> serviced s st rc script
                 (emit [Write_call (smb2 s) smb2fh (buffer_ref st)
                          (min (size_left st) (chunk_size st))] w)
                 st' script' w')
       \<and> (resolve w s fh = Some (Some smb2fh) \<and> 0 \<le> new_offset
          \<and> read_loop path smb2fh (smb2_get_max_read_size w (smb2 s))
               ((new_transfer fh size_arg)\<lparr>last_echo := current_time\<rparr>) script
               (emit [Lseek_call (smb2 s) smb2fh offset] w)
             = Some (Done, st1, script1, w1)
          \<and> fsd w1 = Some s1 \<and> script1 = map Rc pending @ Rc final # script2
          \<and> list_all (\<lambda>n. 0 < n) pending \<and> final \<le> 0 \<longrightarrow>
            smb2fs_read path size_arg offset fh (Rc new_offset # Time current_time # script) w
            = Some (result st1, fi_fh st1, script2,
                emit (replicate (length pending + 1) (Service_call (smb2 s1))) w1))
       \<and> (resolve w s fh = Some (Some smb2fh) \<and> 0 \<le> new_offset
          \<and> \<not> rdonly s \<and> 2 < smb2_get_fd w (smb2 s)
          \<and> write_loop path smb2fh (smb2_get_max_write_size w (smb2 s))
               (start_write (smb2_get_max_write_size w (smb2 s)) current_time
                  (new_transfer fh size_arg))
               script (emit [Lseek_call (smb2 s) smb2fh offset] w)
             = Some (Done, st1, script1, w1)
          \<and> fsd w1 = Some s1 \<and> script1 = map Rc pending @ Rc final # script2
          \<and> list_all (\<lambda>n. 0 < n) pending \<and> final \<le> 0 \<longrightarrow>
            smb2fs_write path size_arg offset fh (Rc new_offset # Time current_time # script) w
            = Some (result st1, fi_fh st1, script2,
                emit (replicate (length pending + 1) (Service_call (smb2 s1))) w1))
       \<and> (read_loop path smb2fh m st script w = Some (Done, st1, script1, w1) \<longrightarrow>
            fsd w1 \<noteq> None)
       \<and> (write_loop path smb2fh m st script w = Some (Done, st1, script1, w1) \<longrightarrow>
            fsd w1 \<noteq> None)
       \<and> (resolve w s fh = Some (Some smb2fh) \<and> 0 \<le> new_offset
          \<and> read_loop path smb2fh (smb2_get_max_read_size w (smb2 s))
               ((new_transfer fh size_arg)\<lparr>last_echo := current_time\<rparr>) script
               (emit [Lseek_call (smb2 s) smb2fh offset] w)
             = Some (Return v, st1, script1, w1) \<longrightarrow>
            smb2fs_read path size_arg offset fh (Rc new_offset # Time current_time # script) w
            = Some (v, fi_fh st1, script1, w1))
       \<and> (resolve w s fh = Some (Some smb2fh) \<and> 0 \<le> new_offset
          \<and> \<not> rdonly s \<and> 2 < smb2_get_fd w (smb2 s)
          \<and> write_loop path smb2fh (smb2_get_max_write_size w (smb2 s))
               (start_write (smb2_get_max_write_size w (smb2 s)) current_time
                  (new_transfer fh size_arg))
               script (emit [Lseek_call (smb2 s) smb2fh offset] w)
             = Some (Return v, st1, script1, w1) \<longrightarrow>
            smb2fs_write path size_arg offset fh (Rc new_offset # Time current_time # script) w
            = Some (v, fi_fh st1, script1, w1))
       \<and> (rc < - 1 \<longrightarrow>
            read_round path smb2fh m st rc script w
            = Some (Some (Return rc), st\<lparr>last_rc := rc\<rparr>, script,
                emit [Read_call (smb2 s) smb2fh (buffer_ref st) (min (size_left st) m)] w))
       \<and> (rc = - 1
          \<and> recover_stream path (fi_fh st) script
               (emit [Read_call (smb2 s) smb2fh (buffer_ref st) (min (size_left st) m)] w)
             = Some (Inl v, fh', script', w') \<longrightarrow>
            read_round path smb2fh m st rc script w
            = Some (Some (Return v), st\<lparr>last_rc := rc, fi_fh := fh'\<rparr>, script', w'))
       \<and> (rc < 0
          \<and> recover_stream path (fi_fh st) script
               (emit [Write_call (smb2 s) smb2fh (buffer_ref st)
                        (min (size_left st) (chunk_size st))] w)
             = Some (Inl v, fh', script', w') \<longrightarrow>
            write_round path smb2fh m st rc script w
            = Some (Some (Return v), st\<lparr>last_rc := rc, fi_fh := fh'\<rparr>, script', w'))"
  by (intro conjI read_round_counts [OF assms] write_round_counts [OF assms]
      read_finishes [OF assms] write_finishes [OF assms] read_loop_keeps_session [OF assms]
      write_loop_keeps_session [OF assms] read_returns [OF assms]
      write_returns [OF assms] read_round_error [OF assms] read_round_fault [OF assms]
      write_round_fault [OF assms])

text \<open>
  A read that has fetched three full units since the last poll fetches a fourth: the
  server has one response pending, so \<^verbatim>\<open>smb2_service\<close> is polled twice, and 30 seconds
  have passed, so an echo follows. A write with one unit counted writes a second and
  polls nothing. A read and a write of 5 bytes finish their loops with counters at 1
  and still poll before they return. A read whose \<^verbatim>\<open>smb2_read\<close> reports -13 and a
  write round whose fault is not recovered from return from inside the loop.
\<close>

definition fetched :: "nat \<Rightarrow> nat \<Rightarrow> int \<Rightarrow> transfer" where
  "fetched units pending echo =
     \<lparr>fi_fh = 4194305, size_left = 400000 - units * 65536, last_rc = 65536,
      result = int (units * 65536), buffer_ref = int (units * 65536),
      service_counter = pending, bytes_since_service = pending * 65536, last_echo = echo,
      chunk_size = 0, success_count = 0\<rparr>"

theorem service_batching_witness:
  "fsd mounted_world = Some example_session
   \<and> threshold_reached (fetched 3 3 0) 65536
   \<and> read_round ''/f'' 10 65536 (fetched 3 3 0) 65536 [Rc 1, Rc 0, Time 30] mounted_world
      = Some (None, fetched 4 0 30, [],
          mounted_world\<lparr>trace := [Read_call (Some 1) 10 196608 65536, Service_call (Some 1),
                                   Service_call (Some 1), Echo_call (Some 1)]\<rparr>)
   \<and> serviced example_session (fetched 3 3 0) 65536 [Rc 1, Rc 0, Time 30]
        (emit [Read_call (Some 1) 10 196608 65536] mounted_world) (fetched 4 0 30) []
        (mounted_world\<lparr>trace := [Read_call (Some 1) 10 196608 65536, Service_call (Some 1),
                                 Service_call (Some 1), Echo_call (Some 1)]\<rparr>)
   \<and> \<not> threshold_reached (written 1 1 65536 1) 65536
   \<and> serviced example_session (written 1 1 65536 1) 65536 []
        (emit [Write_call (Some 1) 10 65536 65536] mounted_world) (written 2 2 65536 2) []
        (mounted_world\<lparr>trace := [Write_call (Some 1) 10 65536 65536]\<rparr>)
   \<and> smb2fs_read ''/f'' 5 0 4194305 [Rc 0, Time 7, Rc 5, Rc 2, Rc 0] mounted_world
      = Some (5, 4194305, [],
          mounted_world\<lparr>trace := [Lseek_call (Some 1) 10 0, Read_call (Some 1) 10 0 5,
                                   Service_call (Some 1), Service_call (Some 1)]\<rparr>)
   \<and> smb2fs_write ''/f'' 5 0 4194305 [Rc 0, Time 7, Rc 5, Rc 0] mounted_world
      = Some (5, 4194305, [],
          mounted_world\<lparr>trace := [Lseek_call (Some 1) 10 0, Write_call (Some 1) 10 0 5,
                                   Service_call (Some 1)]\<rparr>)
   \<and> smb2fs_read ''/f'' 5 0 4194305 [Rc 0, Time 7, Rc (- 13)] mounted_world
      = Some (- 13, 4194305, [],
          mounted_world\<lparr>trace := [Lseek_call (Some 1) 10 0, Read_call (Some 1) 10 0 5]\<rparr>)
   \<and> read_round ''/f'' 10 65536 (fetched 3 3 0) (- 13) [] mounted_world
      = Some (Some (Return (- 13)), (fetched 3 3 0)\<lparr>last_rc := - 13\<rparr>, [],
          mounted_world\<lparr>trace := [Read_call (Some 1) 10 196608 65536]\<rparr>)
   \<and> write_round ''/f'' 10 1048576 (written 1 1 65536 1) (- 1) [] mounted_world
      = Some (Some (Return (- 19)), (written 1 1 65536 1)\<lparr>last_rc := - 1\<rparr>, [],
          mounted_world\<lparr>fsd := None,
            trace := [Write_call (Some 1) 10 65536 65536, Request_error,
                      Destroy_context (Some 1)]\<rparr>)"
proof -
  let ?s = example_session
  let ?n = "(new_transfer 4194305 5)\<lparr>last_echo := 7\<rparr>"
  let ?r = "(new_transfer 4194305 5)\<lparr>size_left := 0, last_rc := 5, result := 5,
              buffer_ref := 5, service_counter := 1, bytes_since_service := 5, last_echo := 7\<rparr>"
  let ?lseek = "emit [Lseek_call (smb2 ?s) 10 0] mounted_world"
  let ?wr = "mounted_world\<lparr>trace := [Lseek_call (Some 1) 10 0, Read_call (Some 1) 10 0 5]\<rparr>"
  let ?ww = "mounted_world\<lparr>trace := [Lseek_call (Some 1) 10 0, Write_call (Some 1) 10 0 5]\<rparr>"
  let ?torn = "mounted_world\<lparr>fsd := None,
                 trace := [Write_call (Some 1) 10 65536 65536, Request_error,
                           Destroy_context (Some 1)]\<rparr>"
  have s: "fsd mounted_world = Some ?s"
    by (simp add: example_defs)
  have t: "threshold_reached (fetched 3 3 0) 65536"
    "\<not> threshold_reached (written 1 1 65536 1) 65536"
    by (simp_all add: threshold_reached_def fetched_def written_def)
  have r1: "read_round ''/f'' 10 65536 (fetched 3 3 0) 65536 [Rc 1, Rc 0, Time 30] mounted_world
      = Some (None, fetched 4 0 30, [],
          mounted_world\<lparr>trace := [Read_call (Some 1) 10 196608 65536, Service_call (Some 1),
                                   Service_call (Some 1), Echo_call (Some 1)]\<rparr>)"
    by (simp add: fetched_def stream_defs example_defs errno_defs session_defs emit_def Let_def)
  have r2: "write_round ''/f'' 10 1048576 (written 1 1 65536 1) 65536 [] mounted_world
      = Some (None, written 2 2 65536 2, [],
          mounted_world\<lparr>trace := [Write_call (Some 1) 10 65536 65536]\<rparr>)"
    by (simp add: written_def stream_defs example_defs errno_defs session_defs emit_def Let_def)
  have e: "smb2 ?s = Some 1" "buffer_ref (fetched 3 3 0) = 196608"
    "min (size_left (fetched 3 3 0)) 65536 = 65536"
    "buffer_ref (written 1 1 65536 1) = 65536"
    "min (size_left (written 1 1 65536 1)) (chunk_size (written 1 1 65536 1)) = 65536"
    by (simp_all add: example_defs fetched_def written_def)
  have h: "resolve mounted_world ?s 4194305 = Some (Some 10)" "\<not> rdonly ?s"
    "2 < smb2_get_fd mounted_world (smb2 ?s)" "(0 :: int) \<le> 0" "(- 13 :: int) < - 1"
    "(- 1 :: int) < 0"
    by (simp_all add: registry_defs example_defs)
  have l1: "read_loop ''/f'' 10 (smb2_get_max_read_size mounted_world (smb2 ?s)) ?n
              [Rc 5, Rc 2, Rc 0] ?lseek
            = Some (Done, ?r, [Rc 2, Rc 0], ?wr)"
    by (simp add: stream_defs example_defs errno_defs session_defs emit_def Let_def)
  have l2: "write_loop ''/f'' 10 (smb2_get_max_write_size mounted_world (smb2 ?s))
              (start_write (smb2_get_max_write_size mounted_world (smb2 ?s)) 7
                 (new_transfer 4194305 5))
              [Rc 5, Rc 0] ?lseek
            = Some (Done, ?r\<lparr>chunk_size := 65536, success_count := 1\<rparr>, [Rc 0], ?ww)"
    by (simp add: stream_defs example_defs errno_defs session_defs emit_def Let_def)
  have l3: "read_loop ''/f'' 10 (smb2_get_max_read_size mounted_world (smb2 ?s)) ?n
              [Rc (- 13)] ?lseek
            = Some (Return (- 13), ?n\<lparr>last_rc := - 13\<rparr>, [], ?wr)"
    by (simp add: stream_defs example_defs errno_defs session_defs emit_def Let_def)
  have rs: "recover_stream ''/f'' (fi_fh (written 1 1 65536 1)) []
              (emit [Write_call (smb2 ?s) 10 (buffer_ref (written 1 1 65536 1))
                       (min (size_left (written 1 1 65536 1))
                          (chunk_size (written 1 1 65536 1)))] mounted_world)
            = Some (Inl (- 19), 4194305, [], ?torn)"
    by (simp add: written_def session_defs example_defs errno_defs emit_def Let_def)
  have g: "fsd ?wr = Some ?s" "fsd ?ww = Some ?s"
    by (simp_all add: example_defs)
  have p: "[Rc 2, Rc 0] = map Rc [2] @ Rc 0 # []" "[Rc 0] = map Rc [] @ Rc 0 # []"
    "list_all (\<lambda>n. 0 < n) [2::int]" "list_all (\<lambda>n. 0 < n) ([]::int list)"
    by simp_all
  from service_batching [OF s, where rc = 65536 and path = "''/f''" and smb2fh = 10
      and m = 65536 and st = "fetched 3 3 0" and script = "[Rc 1, Rc 0, Time 30]" and x = None
      and st' = "fetched 4 0 30" and script' = "[]"
      and w' = "mounted_world\<lparr>trace := [Read_call (Some 1) 10 196608 65536,
                  Service_call (Some 1), Service_call (Some 1), Echo_call (Some 1)]\<rparr>",
      THEN conjunct1] r1
  have c1: "serviced ?s (fetched 3 3 0) 65536 [Rc 1, Rc 0, Time 30]
        (emit [Read_call (Some 1) 10 196608 65536] mounted_world) (fetched 4 0 30) []
        (mounted_world\<lparr>trace := [Read_call (Some 1) 10 196608 65536, Service_call (Some 1),
                                 Service_call (Some 1), Echo_call (Some 1)]\<rparr>)"
    by (simp add: e)
  from service_batching [OF s, where rc = 65536 and path = "''/f''" and smb2fh = 10
      and m = 1048576 and st = "written 1 1 65536 1" and script = "[]" and x = None
      and st' = "written 2 2 65536 2" and script' = "[]"
      and w' = "mounted_world\<lparr>trace := [Write_call (Some 1) 10 65536 65536]\<rparr>",
      THEN conjunct2, THEN conjunct1] r2
  have c2: "serviced ?s (written 1 1 65536 1) 65536 []
        (emit [Write_call (Some 1) 10 65536 65536] mounted_world) (written 2 2 65536 2) []
        (mounted_world\<lparr>trace := [Write_call (Some 1) 10 65536 65536]\<rparr>)"
    by (simp add: written_def example_session_def)
  from service_batching [OF s, where fh = 4194305 and smb2fh = 10 and new_offset = 0
      and path = "''/f''" and size_arg = 5 and current_time = 7
      and script = "[Rc 5, Rc 2, Rc 0]" and offset = 0 and ?st1.0 = ?r
      and ?script1.0 = "[Rc 2, Rc 0]" and ?w1.0 = ?wr and ?s1.0 = ?s and pending = "[2]"
      and final = 0 and ?script2.0 = "[]",
      THEN conjunct2, THEN conjunct2, THEN conjunct1] h l1 g p
  have c3: "smb2fs_read ''/f'' 5 0 4194305 [Rc 0, Time 7, Rc 5, Rc 2, Rc 0] mounted_world
      = Some (result ?r, fi_fh ?r, [],
          emit (replicate (length [2::int] + 1) (Service_call (smb2 ?s))) ?wr)"
    by blast
  from service_batching [OF s, where fh = 4194305 and smb2fh = 10 and new_offset = 0
      and path = "''/f''" and size_arg = 5 and current_time = 7
      and script = "[Rc 5, Rc 0]" and offset = 0
      and ?st1.0 = "?r\<lparr>chunk_size := 65536, success_count := 1\<rparr>"
      and ?script1.0 = "[Rc 0]" and ?w1.0 = ?ww and ?s1.0 = ?s and pending = "[]"
      and final = 0 and ?script2.0 = "[]",
      THEN conjunct2, THEN conjunct2, THEN conjunct2, THEN conjunct1] h l2 g p
  have c4: "smb2fs_write ''/f'' 5 0 4194305 [Rc 0, Time 7, Rc 5, Rc 0] mounted_world
      = Some (result (?r\<lparr>chunk_size := 65536, success_count := 1\<rparr>),
          fi_fh (?r\<lparr>chunk_size := 65536, success_count := 1\<rparr>), [],
          emit (replicate (length ([]::int list) + 1) (Service_call (smb2 ?s))) ?ww)"
    by blast
  from service_batching [OF s, where fh = 4194305 and smb2fh = 10 and new_offset = 0
      and path = "''/f''" and size_arg = 5 and current_time = 7
      and script = "[Rc (- 13)]" and offset = 0 and v = "- 13"
      and ?st1.0 = "?n\<lparr>last_rc := - 13\<rparr>" and ?script1.0 = "[]" and ?w1.0 = ?wr,
      THEN conjunct2, THEN conjunct2, THEN conjunct2, THEN conjunct2, THEN conjunct2,
      THEN conjunct2, THEN conjunct1] h l3
  have c5: "smb2fs_read ''/f'' 5 0 4194305 [Rc 0, Time 7, Rc (- 13)] mounted_world
      = Some (- 13, fi_fh (?n\<lparr>last_rc := - 13\<rparr>), [], ?wr)"
    by blast
  from service_batching [OF s, where rc = "- 13" and path = "''/f''" and smb2fh = 10
      and m = 65536 and st = "fetched 3 3 0" and script = "[]",
      THEN conjunct2, THEN conjunct2, THEN conjunct2, THEN conjunct2, THEN conjunct2,
      THEN conjunct2, THEN conjunct2, THEN conjunct2, THEN conjunct1] h
  have c7: "read_round ''/f'' 10 65536 (fetched 3 3 0) (- 13) [] mounted_world
      = Some (Some (Return (- 13)), (fetched 3 3 0)\<lparr>last_rc := - 13\<rparr>, [],
          emit [Read_call (smb2 ?s) 10 (buffer_ref (fetched 3 3 0))
                  (min (size_left (fetched 3 3 0)) 65536)] mounted_world)"
    by blast
  from service_batching [OF s, where rc = "- 1" and path = "''/f''" and smb2fh = 10
      and m = 1048576 and st = "written 1 1 65536 1" and script = "[]" and v = "- 19"
      and fh' = 4194305 and script' = "[]" and w' = ?torn,
      THEN conjunct2, THEN conjunct2, THEN conjunct2, THEN conjunct2, THEN conjunct2,
      THEN conjunct2, THEN conjunct2, THEN conjunct2, THEN conjunct2, THEN conjunct2] h rs
  have c9: "write_round ''/f'' 10 1048576 (written 1 1 65536 1) (- 1) [] mounted_world
      = Some (Some (Return (- 19)), (written 1 1 65536 1)\<lparr>last_rc := - 1, fi_fh := 4194305\<rparr>,
          [], ?torn)"
    by blast
  from c3 have d3: "smb2fs_read ''/f'' 5 0 4194305 [Rc 0, Time 7, Rc 5, Rc 2, Rc 0] mounted_world
      = Some (5, 4194305, [],
          mounted_world\<lparr>trace := [Lseek_call (Some 1) 10 0, Read_call (Some 1) 10 0 5,
                                   Service_call (Some 1), Service_call (Some 1)]\<rparr>)"
    by (simp add: emit_def e new_transfer_def)
  from c4 have d4: "smb2fs_write ''/f'' 5 0 4194305 [Rc 0, Time 7, Rc 5, Rc 0] mounted_world
      = Some (5, 4194305, [],
          mounted_world\<lparr>trace := [Lseek_call (Some 1) 10 0, Write_call (Some 1) 10 0 5,
                                   Service_call (Some 1)]\<rparr>)"
    by (simp add: emit_def e new_transfer_def)
  from c5 have d5: "smb2fs_read ''/f'' 5 0 4194305 [Rc 0, Time 7, Rc (- 13)] mounted_world
      = Some (- 13, 4194305, [], ?wr)"
    by (simp add: new_transfer_def)
  from c7 have d7: "read_round ''/f'' 10 65536 (fetched 3 3 0) (- 13) [] mounted_world
      = Some (Some (Return (- 13)), (fetched 3 3 0)\<lparr>last_rc := - 13\<rparr>, [],
          mounted_world\<lparr>trace := [Read_call (Some 1) 10 196608 65536]\<rparr>)"
    by (simp add: e emit_def example_defs)
  from c9 have d9: "write_round ''/f'' 10 1048576 (written 1 1 65536 1) (- 1) [] mounted_world
      = Some (Some (Return (- 19)), (written 1 1 65536 1)\<lparr>last_rc := - 1\<rparr>, [], ?torn)"
    by (simp add: written_def)
  from s t r1 c1 c2 d3 d4 d5 d7 d9 show ?thesis by simp
qed

text \<open>
  The claim's final drain "after the loop finishes (by exhausting requested size or by
  error)" fails for the error: a read of 5 bytes gets 2, which leaves one unit counted
  and not yet polled for, and then the status -13; the function returns -13 and
  \<^verbatim>\<open>smb2_service\<close> is never called, although the session is still there.
\<close>

theorem error_return_skips_final_poll:
  "(case smb2fs_read ''/f'' 5 0 4194305 [Rc 0, Time 7, Rc 2, Rc (- 13)] mounted_world of
      None \<Rightarrow> False
    | Some (v, fh, script, w) \<Rightarrow>
        v = - 13 \<and> script = [] \<and> fsd w = Some example_session
        \<and> trace w = [Lseek_call (Some 1) 10 0, Read_call (Some 1) 10 0 5,
                      Read_call (Some 1) 10 2 3])"
  by (simp add: stream_defs example_defs errno_defs registry_defs session_defs emit_def Let_def)

end
